theory Spec2Isabelle
  imports Main "HOL-Library.Char_ord" "HOL-Library.List_Lexorder" "HOL-Library.Multiset"
begin

section \<open>Python values used by SQL\_dumper.py\<close>

text \<open>
  Identifiers (bill numbers, bioguide ids, party codes, policy names) are Python strings.
  They are modelled as \<open>string\<close>; the order on them is the lexicographic order on
  character codes, which is what Python's \<open>sorted\<close>, \<open>min\<close> and \<open>max\<close> use on
  \<open>str\<close>. A cell that pandas reads as NaN/NaT is \<open>None\<close>.
\<close>

datatype py_error = KeyError | ValueError | TypeError

subsection \<open>dict and defaultdict\<close>

text \<open>
  A Python dict keeps its keys in insertion order, so it is an association list with
  distinct keys. \<open>dict_upd k f\<close> is the one primitive: the entry of an existing key is
  replaced in place by \<open>f (Some old)\<close>, a new key is appended with \<open>f None\<close>.
  \<open>d[k] = v\<close> is \<open>dict_set\<close>; \<open>d[k] += 1\<close> on a \<open>defaultdict(int)\<close> is \<open>incr\<close>.
\<close>

fun dict_upd :: "'k \<Rightarrow> ('v option \<Rightarrow> 'v) \<Rightarrow> ('k \<times> 'v) list \<Rightarrow> ('k \<times> 'v) list" where
  "dict_upd k f [] = [(k, f None)]"
| "dict_upd k f ((k', v) # d) =
     (if k' = k then (k', f (Some v)) # d else (k', v) # dict_upd k f d)"

definition dict_set :: "'k \<Rightarrow> 'v \<Rightarrow> ('k \<times> 'v) list \<Rightarrow> ('k \<times> 'v) list" where
  "dict_set k v d = dict_upd k (\<lambda>_. v) d"

definition int_default :: "nat option \<Rightarrow> nat" where
  "int_default ov = (case ov of None \<Rightarrow> 0 | Some c \<Rightarrow> c)"

definition incr :: "'k \<Rightarrow> ('k \<times> nat) list \<Rightarrow> ('k \<times> nat) list" where
  "incr k d = dict_upd k (\<lambda>ov. int_default ov + 1) d"

definition keys :: "('k \<times> 'v) list \<Rightarrow> 'k list" where
  "keys d = map fst d"

definition count_of :: "('k \<times> nat) list \<Rightarrow> 'k \<Rightarrow> nat" where
  "count_of d k = int_default (map_of d k)"

section \<open>The tables\<close>

text \<open>A row of bill\_sponsors.csv.\<close>

record sponsor_row =
  sr_bill_number :: string
  sr_bioguide_id :: string
  sr_sponsor_type :: string

text \<open>
  A row of \<open>bills_df\<close> as \<open>load_and_clean_data\<close> returns it: the bill's columns, the
  formatted date (\<open>None\<close> for NaT) and the two joined policy columns.
\<close>

record bill_row =
  br_bill_number :: string
  br_congress :: int
  br_title :: string
  br_latest_action_date :: "string option"
  br_latest_action_text :: string
  br_origin_chamber :: string
  br_policy_id :: "int option"
  br_policy_name :: "string option"

text \<open>The value stored in \<open>bill_info\<close>.\<close>

record bill_data =
  bd_congress :: int
  bd_title :: string
  bd_latest_action_text :: string
  bd_latest_action_date :: "string option"

text \<open>A Collaboration record.\<close>

record collaboration =
  source :: string
  target :: string
  c_bill_number :: string
  c_congress :: int
  c_title :: string
  c_latest_action :: string
  c_action_date :: "string option"
  relationship :: string

section \<open>process\_collaborations\<close>

text \<open>\<open>tuple(sorted([primary_sponsor, cosponsor]))\<close>: the two ids in ascending order.\<close>

definition sorted_pair :: "string \<Rightarrow> string \<Rightarrow> string \<times> string" where
  "sorted_pair primary_sponsor cosponsor =
     (if cosponsor < primary_sponsor then (cosponsor, primary_sponsor)
      else (primary_sponsor, cosponsor))"

text \<open>The first loop: \<open>bill_info[row['bill_number']] = {...}\<close> for every row of \<open>bills_df\<close>.\<close>

definition bill_data_of :: "bill_row \<Rightarrow> bill_data" where
  "bill_data_of row =
     \<lparr> bd_congress = br_congress row, bd_title = br_title row,
       bd_latest_action_text = br_latest_action_text row,
       bd_latest_action_date = br_latest_action_date row \<rparr>"

definition bill_info :: "bill_row list \<Rightarrow> (string \<times> bill_data) list" where
  "bill_info bills_df =
     foldl (\<lambda>d row. dict_set (br_bill_number row) (bill_data_of row) d) [] bills_df"

text \<open>
  \<open>bill_sponsors_df[sponsor_type == 'Primary'].set_index('bill_number')['bioguide_id'].to_dict()\<close>:
  the dict is filled in row order, so the last Primary row of a bill wins.
\<close>

definition primary_sponsors :: "sponsor_row list \<Rightarrow> (string \<times> string) list" where
  "primary_sponsors bill_sponsors_df =
     foldl (\<lambda>d row. dict_set (sr_bill_number row) (sr_bioguide_id row) d) []
       (filter (\<lambda>row. sr_sponsor_type row = ''Primary'') bill_sponsors_df)"

text \<open>
  The counting pass. The Cosponsor rows of valid bills are grouped by bill number
  (\<open>groupby\<close> yields the groups in ascending key order, each group in row order).
\<close>

definition cosponsor_rows :: "string list \<Rightarrow> sponsor_row list \<Rightarrow> sponsor_row list" where
  "cosponsor_rows valid_bills bill_sponsors_df =
     filter (\<lambda>row. sr_bill_number row \<in> set valid_bills \<and> sr_sponsor_type row = ''Cosponsor'')
       bill_sponsors_df"

definition groupby_bill_number :: "sponsor_row list \<Rightarrow> (string \<times> sponsor_row list) list" where
  "groupby_bill_number rows =
     map (\<lambda>k. (k, filter (\<lambda>row. sr_bill_number row = k) rows))
       (sort (remdups (map sr_bill_number rows)))"

fun count_cosponsors :: "string \<Rightarrow> string list \<Rightarrow> ((string \<times> string) \<times> nat) list
    \<Rightarrow> ((string \<times> string) \<times> nat) list" where
  "count_cosponsors primary_sponsor [] counts = counts"
| "count_cosponsors primary_sponsor (cosponsor # cosponsors) counts =
     count_cosponsors primary_sponsor cosponsors
       (incr (sorted_pair primary_sponsor cosponsor) counts)"

fun count_groups :: "(string \<times> string) list \<Rightarrow> (string \<times> sponsor_row list) list
    \<Rightarrow> ((string \<times> string) \<times> nat) list \<Rightarrow> ((string \<times> string) \<times> nat) list" where
  "count_groups prim [] counts = counts"
| "count_groups prim ((bill_number, grp) # groups) counts =
     (case map_of prim bill_number of
        None \<Rightarrow> count_groups prim groups counts
      | Some primary_sponsor \<Rightarrow>
          count_groups prim groups
            (count_cosponsors primary_sponsor (map sr_bioguide_id grp) counts))"

definition collaboration_counts :: "sponsor_row list \<Rightarrow> bill_row list
    \<Rightarrow> ((string \<times> string) \<times> nat) list" where
  "collaboration_counts bill_sponsors_df bills_df =
     count_groups (primary_sponsors bill_sponsors_df)
       (groupby_bill_number (cosponsor_rows (keys (bill_info bills_df)) bill_sponsors_df)) []"

text \<open>The threshold is the local constant \<open>min_collaborations = 2\<close>.\<close>

definition min_collaborations :: nat where
  "min_collaborations = 2"

definition significant_pairs :: "((string \<times> string) \<times> nat) list \<Rightarrow> ((string \<times> string) \<times> nat) list" where
  "significant_pairs counts = filter (\<lambda>(pair, count). count \<ge> min_collaborations) counts"

text \<open>
  The emitting pass. \<open>valid_bills\<close> is a Python set, whose iteration order is not fixed by
  its contents; the order is the parameter \<open>set_iter\<close>, which maps the keys of
  \<open>bill_info\<close> to the order in which the loop visits them. \<open>bill_info[bill_number]\<close>
  raises KeyError on a missing key.
\<close>

definition emit_cosponsors :: "((string \<times> string) \<times> nat) list \<Rightarrow> string \<Rightarrow> bill_data \<Rightarrow> string
    \<Rightarrow> string list \<Rightarrow> collaboration list" where
  "emit_cosponsors sig bill_number bill_data primary_sponsor cosponsors =
     map (\<lambda>cosponsor.
            (let pair = sorted_pair primary_sponsor cosponsor in
             \<lparr> source = fst pair, target = snd pair, c_bill_number = bill_number,
               c_congress = bd_congress bill_data, c_title = bd_title bill_data,
               c_latest_action = bd_latest_action_text bill_data,
               c_action_date = bd_latest_action_date bill_data,
               relationship = ''Primary-Cosponsor'' \<rparr>))
       (filter (\<lambda>cosponsor. sorted_pair primary_sponsor cosponsor \<in> set (keys sig)) cosponsors)"

definition bill_cosponsors :: "sponsor_row list \<Rightarrow> string \<Rightarrow> string list" where
  "bill_cosponsors bill_sponsors_df bill_number =
     map sr_bioguide_id
       (filter (\<lambda>row. sr_bill_number row = bill_number \<and> sr_sponsor_type row = ''Cosponsor'')
          bill_sponsors_df)"

fun emit_bills :: "sponsor_row list \<Rightarrow> (string \<times> bill_data) list \<Rightarrow> (string \<times> string) list
    \<Rightarrow> ((string \<times> string) \<times> nat) list \<Rightarrow> string list \<Rightarrow> collaboration list
    \<Rightarrow> py_error + collaboration list" where
  "emit_bills bill_sponsors_df info prim sig [] collaborations = Inr collaborations"
| "emit_bills bill_sponsors_df info prim sig (bill_number # rest) collaborations =
     (case map_of prim bill_number of
        None \<Rightarrow> emit_bills bill_sponsors_df info prim sig rest collaborations
      | Some primary_sponsor \<Rightarrow>
          (case map_of info bill_number of
             None \<Rightarrow> Inl KeyError
           | Some bill_data \<Rightarrow>
               emit_bills bill_sponsors_df info prim sig rest
                 (collaborations @
                  emit_cosponsors sig bill_number bill_data primary_sponsor
                    (bill_cosponsors bill_sponsors_df bill_number))))"

definition process_collaborations :: "(string list \<Rightarrow> string list) \<Rightarrow> sponsor_row list
    \<Rightarrow> bill_row list \<Rightarrow> py_error + collaboration list" where
  "process_collaborations set_iter bill_sponsors_df bills_df =
     (let info = bill_info bills_df;
          prim = primary_sponsors bill_sponsors_df;
          sig = significant_pairs (collaboration_counts bill_sponsors_df bills_df)
      in emit_bills bill_sponsors_df info prim sig (set_iter (keys info)) [])"

text \<open>
  What is known of the iteration order of \<open>set(d.keys())\<close>: every key is visited once.
\<close>

definition set_iteration :: "(string list \<Rightarrow> string list) \<Rightarrow> bool" where
  "set_iteration set_iter =
     (\<forall>ks. distinct ks \<longrightarrow> distinct (set_iter ks) \<and> set (set_iter ks) = set ks)"


section \<open>The raw tables and load\_and\_clean\_data\<close>

text \<open>
  The five CSV files, row by row. A district or party cell may be empty; a policy name may be
  empty; the ids of policies and policy links are integers.
\<close>

record raw_bill =
  rb_bill_number :: string
  rb_congress :: int
  rb_title :: string
  rb_latest_action_date :: "string option"
  rb_latest_action_text :: string
  rb_origin_chamber :: string

record raw_legislator =
  rl_bioguide_id :: string
  rl_first_name :: string
  rl_last_name :: string
  rl_state :: string
  rl_district :: "int option"
  rl_party :: "string option"

record policy_row =
  pr_policy_id :: int
  pr_name :: "string option"

record policy_link =
  pl_bill_number :: string
  pl_policy_id :: int

text \<open>A row of \<open>legislators_df\<close> after cleaning.\<close>

record legislator_row =
  lr_bioguide_id :: string
  lr_first_name :: string
  lr_last_name :: string
  lr_state :: string
  lr_district :: int
  lr_party :: string
  lr_full_name :: string

text \<open>
  \<open>full_name\<close> is the f-string of first and last name, \<open>fillna(-1).astype(int)\<close> puts the
  sentinel into an empty district, \<open>fillna('O')\<close> fills an empty party.
\<close>

definition clean_legislator :: "raw_legislator \<Rightarrow> legislator_row" where
  "clean_legislator x =
     \<lparr> lr_bioguide_id = rl_bioguide_id x, lr_first_name = rl_first_name x,
       lr_last_name = rl_last_name x, lr_state = rl_state x,
       lr_district = (case rl_district x of None \<Rightarrow> - 1 | Some d \<Rightarrow> d),
       lr_party = (case rl_party x of None \<Rightarrow> ''O'' | Some p \<Rightarrow> p),
       lr_full_name = rl_first_name x @ '' '' @ rl_last_name x \<rparr>"

text \<open>
  The left join of the bills with the policy links on \<open>bill_number\<close>: the bills keep their
  order, each is repeated once per matching link (in link order), and a bill without a link
  stays, with a null policy id.
\<close>

definition merge_policy_links :: "raw_bill list \<Rightarrow> policy_link list \<Rightarrow> (raw_bill \<times> int option) list" where
  "merge_policy_links bills_df bill_policy_links_df =
     concat (map (\<lambda>b.
        (let ls = filter (\<lambda>l. pl_bill_number l = rb_bill_number b) bill_policy_links_df
         in if ls = [] then [(b, None)] else map (\<lambda>l. (b, Some (pl_policy_id l))) ls))
       bills_df)"

definition joined_row :: "raw_bill \<Rightarrow> int option \<Rightarrow> string option \<Rightarrow> bill_row" where
  "joined_row b policy_id policy_name =
     \<lparr> br_bill_number = rb_bill_number b, br_congress = rb_congress b, br_title = rb_title b,
       br_latest_action_date = rb_latest_action_date b,
       br_latest_action_text = rb_latest_action_text b,
       br_origin_chamber = rb_origin_chamber b,
       br_policy_id = policy_id, br_policy_name = policy_name \<rparr>"

text \<open>
  The left join with the policies (column \<open>name\<close> renamed to \<open>policy_name\<close>) on
  \<open>policy_id\<close>: a row whose policy id is null or matches no policy keeps a null name.
\<close>

definition merge_policies :: "(raw_bill \<times> int option) list \<Rightarrow> policy_row list \<Rightarrow> bill_row list" where
  "merge_policies rows bill_policies_df =
     concat (map (\<lambda>(b, policy_id).
        (case policy_id of
           None \<Rightarrow> [joined_row b None None]
         | Some pid \<Rightarrow>
             (let ps = filter (\<lambda>p. pr_policy_id p = pid) bill_policies_df
              in if ps = [] then [joined_row b (Some pid) None]
                 else map (\<lambda>p. joined_row b (Some pid) (pr_name p)) ps)))
       rows)"

text \<open>
  \<open>pd.to_datetime(errors='coerce')\<close> followed by \<open>dt.strftime('%Y-%m-%d')\<close> is pandas' own
  code: on one present cell it is the parameter \<open>clean_date\<close>, which gives \<open>None\<close> for a
  text that is no date; an empty cell stays empty. \<open>sort_values\<close> (by date, descending) is
  a parameter too: pandas' default sort is not stable, so the code does not fix the order of
  rows with equal dates.
\<close>

definition parse_date :: "(string \<Rightarrow> string option) \<Rightarrow> raw_bill \<Rightarrow> raw_bill" where
  "parse_date clean_date b =
     b\<lparr>rb_latest_action_date :=
         (case rb_latest_action_date b of None \<Rightarrow> None | Some d \<Rightarrow> clean_date d)\<rparr>"

definition load_and_clean_data :: "(string \<Rightarrow> string option) \<Rightarrow> (raw_bill list \<Rightarrow> raw_bill list)
    \<Rightarrow> raw_bill list \<Rightarrow> raw_legislator list \<Rightarrow> policy_row list \<Rightarrow> policy_link list \<Rightarrow> int
    \<Rightarrow> bill_row list \<times> legislator_row list" where
  "load_and_clean_data clean_date sort_values bills legislators bill_policies_df bill_policy_links_df
       target_congress =
     (let bills_df = filter (\<lambda>b. rb_congress b \<ge> target_congress) bills;
          bills_df = map (parse_date clean_date) bills_df;
          bills_df = sort_values bills_df;
          legislators_df = map clean_legislator legislators;
          bills_df = merge_policy_links bills_df bill_policy_links_df;
          bills_df = merge_policies bills_df bill_policies_df
      in (bills_df, legislators_df))"

section \<open>The entity projector\<close>

record metrics =
  primary_count :: nat
  cosponsor_count :: nat
  total_collaborations :: nat
  party_collaborations :: "(string \<times> nat) list"

record legislator =
  leg_id :: string
  leg_name :: string
  leg_state :: string
  leg_district :: "int option"
  leg_party :: string
  leg_first_name :: string
  leg_last_name :: string
  leg_metrics :: "metrics option"

record bill =
  b_bill_number :: string
  b_congress :: int
  b_title :: string
  b_latest_action_date :: "string option"
  b_latest_action_text :: string
  b_origin_chamber :: string
  b_policy_id :: "int option"
  b_policy_name :: string

text \<open>A legislator node has no \<open>metrics\<close> key until \<open>prepare_network_data\<close> adds one.\<close>

definition create_legislator_nodes :: "legislator_row list \<Rightarrow> legislator list" where
  "create_legislator_nodes legislators_df =
     map (\<lambda>row.
        \<lparr> leg_id = lr_bioguide_id row, leg_name = lr_full_name row, leg_state = lr_state row,
          leg_district = (if lr_district row \<noteq> - 1 then Some (lr_district row) else None),
          leg_party = lr_party row, leg_first_name = lr_first_name row,
          leg_last_name = lr_last_name row, leg_metrics = None \<rparr>)
       legislators_df"

definition process_bills :: "bill_row list \<Rightarrow> bill list" where
  "process_bills bills_df =
     map (\<lambda>row.
        \<lparr> b_bill_number = br_bill_number row, b_congress = br_congress row,
          b_title = br_title row, b_latest_action_date = br_latest_action_date row,
          b_latest_action_text = br_latest_action_text row,
          b_origin_chamber = br_origin_chamber row,
          b_policy_id = br_policy_id row,
          b_policy_name = (case br_policy_name row of None \<Rightarrow> ''Uncategorized'' | Some n \<Rightarrow> n) \<rparr>)
       bills_df"

section \<open>calculate\_sponsor\_stats\<close>

text \<open>The value a missing key of \<open>stats\<close> starts from.\<close>

definition stats_default :: "metrics option \<Rightarrow> metrics" where
  "stats_default ov =
     (case ov of
        None \<Rightarrow> \<lparr> primary_count = 0, cosponsor_count = 0, total_collaborations = 0,
                  party_collaborations = [] \<rparr>
      | Some m \<Rightarrow> m)"

definition party_lookup :: "legislator list \<Rightarrow> (string \<times> string) list" where
  "party_lookup legislators = foldl (\<lambda>d leg. dict_set (leg_id leg) (leg_party leg) d) [] legislators"

text \<open>\<open>party_lookup.get(k, 'O')\<close>.\<close>

definition get_party :: "(string \<times> string) list \<Rightarrow> string \<Rightarrow> string" where
  "get_party lookup k = (case map_of lookup k of None \<Rightarrow> ''O'' | Some p \<Rightarrow> p)"

definition add_total :: "string \<Rightarrow> (string \<times> metrics) list \<Rightarrow> (string \<times> metrics) list" where
  "add_total k stats =
     dict_upd k (\<lambda>ov. (stats_default ov)\<lparr>total_collaborations :=
                          total_collaborations (stats_default ov) + 1\<rparr>) stats"

definition add_party :: "string \<Rightarrow> string \<Rightarrow> (string \<times> metrics) list \<Rightarrow> (string \<times> metrics) list" where
  "add_party k party stats =
     dict_upd k (\<lambda>ov. (stats_default ov)\<lparr>party_collaborations :=
                          incr party (party_collaborations (stats_default ov))\<rparr>) stats"

definition stats_step :: "(string \<times> string) list \<Rightarrow> (string \<times> metrics) list \<Rightarrow> collaboration
    \<Rightarrow> (string \<times> metrics) list" where
  "stats_step lookup stats collab =
     (let source_id = source collab;
          target_id = target collab;
          stats = add_total source_id stats;
          stats = add_party source_id (get_party lookup target_id) stats;
          stats = add_total target_id stats;
          stats = add_party target_id (get_party lookup source_id) stats
      in stats)"

definition calculate_sponsor_stats :: "legislator list \<Rightarrow> collaboration list \<Rightarrow> (string \<times> metrics) list" where
  "calculate_sponsor_stats legislators collaborations =
     foldl (stats_step (party_lookup legislators)) [] collaborations"

section \<open>prepare\_network\_data\<close>

text \<open>
  Python's \<open>min\<close> and \<open>max\<close>: ValueError on an empty sequence; otherwise the first element
  is the candidate and each later item replaces it when \<open>item < candidate\<close> (for \<open>max\<close>:
  \<open>item > candidate\<close>). A date is a \<open>str\<close> or the float NaN: comparing the two raises
  TypeError, and NaN is never smaller or greater than NaN.
\<close>

fun best_loop :: "('a \<Rightarrow> 'a \<Rightarrow> py_error + bool) \<Rightarrow> 'a \<Rightarrow> 'a list \<Rightarrow> py_error + 'a" where
  "best_loop better best [] = Inr best"
| "best_loop better best (item # items) =
     (case better item best of
        Inl e \<Rightarrow> Inl e
      | Inr r \<Rightarrow> best_loop better (if r then item else best) items)"

definition py_best :: "('a \<Rightarrow> 'a \<Rightarrow> py_error + bool) \<Rightarrow> 'a list \<Rightarrow> py_error + 'a" where
  "py_best better xs = (case xs of [] \<Rightarrow> Inl ValueError | x # rest \<Rightarrow> best_loop better x rest)"

definition int_lt :: "int \<Rightarrow> int \<Rightarrow> py_error + bool" where
  "int_lt a b = Inr (a < b)"

fun date_lt :: "string option \<Rightarrow> string option \<Rightarrow> py_error + bool" where
  "date_lt (Some a) (Some b) = Inr (a < b)"
| "date_lt None None = Inr False"
| "date_lt _ _ = Inl TypeError"

definition py_min :: "('a \<Rightarrow> 'a \<Rightarrow> py_error + bool) \<Rightarrow> 'a list \<Rightarrow> py_error + 'a" where
  "py_min lt xs = py_best lt xs"

definition py_max :: "('a \<Rightarrow> 'a \<Rightarrow> py_error + bool) \<Rightarrow> 'a list \<Rightarrow> py_error + 'a" where
  "py_max lt xs = py_best (\<lambda>item best. lt best item) xs"

record policy =
  p_id :: int
  p_name :: "string option"

record metadata =
  md_congress_range :: "int \<times> int"
  md_total_bills :: nat
  md_total_collaborations :: nat
  md_total_legislators :: nat
  md_date_range :: "string option \<times> string option"
  md_policies_total :: nat
  md_policies_counts :: "(string \<times> nat) list"

record snapshot =
  s_legislators :: "legislator list"
  s_bills :: "bill list"
  s_collaborations :: "collaboration list"
  s_policies :: "policy list"
  s_metadata :: metadata

text \<open>The policy histogram: bills named \<open>Uncategorized\<close> are not counted.\<close>

definition policy_counts :: "bill list \<Rightarrow> (string \<times> nat) list" where
  "policy_counts bills =
     foldl (\<lambda>counts bill.
              if b_policy_name bill \<noteq> ''Uncategorized'' then incr (b_policy_name bill) counts
              else counts)
       [] bills"

definition active_legislators :: "collaboration list \<Rightarrow> string set" where
  "active_legislators collaborations =
     set (concat (map (\<lambda>collab. [source collab, target collab]) collaborations))"

definition add_metrics :: "(string \<times> metrics) list \<Rightarrow> legislator \<Rightarrow> legislator" where
  "add_metrics stats legislator =
     (case map_of stats (leg_id legislator) of
        None \<Rightarrow> legislator
      | Some m \<Rightarrow> legislator\<lparr>leg_metrics := Some m\<rparr>)"

text \<open>
  The metadata dict is built key by key, so \<open>min\<close> and \<open>max\<close> of the congresses run before
  those of the dates. Its \<open>party_distribution\<close> and \<open>date_generated\<close> entries (a pandas
  \<open>value_counts\<close> and the clock) and the decimal rendering of a policy id are left out of
  the model: nothing below refers to them.
\<close>

definition prepare_network_data :: "(string \<Rightarrow> string option) \<Rightarrow> (raw_bill list \<Rightarrow> raw_bill list)
    \<Rightarrow> (string list \<Rightarrow> string list)
    \<Rightarrow> raw_bill list \<Rightarrow> raw_legislator list \<Rightarrow> sponsor_row list \<Rightarrow> policy_row list
    \<Rightarrow> policy_link list \<Rightarrow> int \<Rightarrow> py_error + snapshot" where
  "prepare_network_data clean_date sort_values set_iter bills_csv legislators_csv bill_sponsors_df
       bill_policies_df bill_policy_links_df target_congress =
     (let (bills_df, legislators_df) =
            load_and_clean_data clean_date sort_values bills_csv legislators_csv bill_policies_df
              bill_policy_links_df target_congress;
          all_legislators = create_legislator_nodes legislators_df;
          bills = process_bills bills_df
      in case process_collaborations set_iter bill_sponsors_df bills_df of
           Inl e \<Rightarrow> Inl e
         | Inr collaborations \<Rightarrow>
            (let legislators = filter (\<lambda>leg. leg_id leg \<in> active_legislators collaborations)
                                 all_legislators;
                 stats = calculate_sponsor_stats legislators collaborations;
                 legislators = map (add_metrics stats) legislators;
                 policies = map (\<lambda>row. \<lparr> p_id = pr_policy_id row, p_name = pr_name row \<rparr>)
                              bill_policies_df;
                 counts = policy_counts bills
             in case py_min int_lt (map br_congress bills_df) of
                  Inl e \<Rightarrow> Inl e
                | Inr congress_start \<Rightarrow>
               (case py_max int_lt (map br_congress bills_df) of
                  Inl e \<Rightarrow> Inl e
                | Inr congress_end \<Rightarrow>
               (case py_min date_lt (map b_latest_action_date bills) of
                  Inl e \<Rightarrow> Inl e
                | Inr date_start \<Rightarrow>
               (case py_max date_lt (map b_latest_action_date bills) of
                  Inl e \<Rightarrow> Inl e
                | Inr date_end \<Rightarrow>
                  Inr \<lparr> s_legislators = legislators, s_bills = bills,
                        s_collaborations = collaborations, s_policies = policies,
                        s_metadata =
                          \<lparr> md_congress_range = (congress_start, congress_end),
                            md_total_bills = length bills,
                            md_total_collaborations = length collaborations,
                            md_total_legislators = length legislators,
                            md_date_range = (date_start, date_end),
                            md_policies_total = length policies,
                            md_policies_counts = counts \<rparr> \<rparr>)))))"




section \<open>Notions the properties are stated with\<close>

text \<open>
  What is known of \<open>sort_values\<close>: it returns the rows it was given, in some order.
\<close>

definition reorders :: "(raw_bill list \<Rightarrow> raw_bill list) \<Rightarrow> bool" where
  "reorders sort_values = (\<forall>rows. mset (sort_values rows) = mset rows)"

text \<open>
  The canonical pair a Cosponsor row stands for: the sorted pair of the primary sponsor of
  its bill and the row's own id, when the bill has a primary sponsor.
\<close>

definition row_pair :: "(string \<times> string) list \<Rightarrow> sponsor_row \<Rightarrow> (string \<times> string) option" where
  "row_pair prim row =
     (case map_of prim (sr_bill_number row) of
        None \<Rightarrow> None
      | Some primary_sponsor \<Rightarrow> Some (sorted_pair primary_sponsor (sr_bioguide_id row)))"

text \<open>
  The qualifying (bill, cosponsor) occurrences of a pair: the Cosponsor rows of bills of
  \<open>bills_df\<close> that stand for the pair. Their number is the pair's global count.
\<close>

definition pair_occurrences :: "sponsor_row list \<Rightarrow> bill_row list \<Rightarrow> string \<times> string \<Rightarrow> sponsor_row list" where
  "pair_occurrences bill_sponsors_df bills_df pair =
     filter (\<lambda>row. sr_bill_number row \<in> br_bill_number ` set bills_df \<and>
                   sr_sponsor_type row = ''Cosponsor'' \<and>
                   row_pair (primary_sponsors bill_sponsors_df) row = Some pair)
       bill_sponsors_df"

text \<open>The records one bill contributes, and the whole output, as lists.\<close>

definition emitted_for :: "sponsor_row list \<Rightarrow> (string \<times> bill_data) list \<Rightarrow> (string \<times> string) list
    \<Rightarrow> ((string \<times> string) \<times> nat) list \<Rightarrow> string \<Rightarrow> collaboration list" where
  "emitted_for bill_sponsors_df info prim sig bill_number =
     (case map_of prim bill_number of
        None \<Rightarrow> []
      | Some primary_sponsor \<Rightarrow>
          (case map_of info bill_number of
             None \<Rightarrow> []
           | Some bill_data \<Rightarrow>
               emit_cosponsors sig bill_number bill_data primary_sponsor
                 (bill_cosponsors bill_sponsors_df bill_number)))"

definition emitted :: "(string list \<Rightarrow> string list) \<Rightarrow> sponsor_row list \<Rightarrow> bill_row list
    \<Rightarrow> collaboration list" where
  "emitted set_iter bill_sponsors_df bills_df =
     concat (map (emitted_for bill_sponsors_df (bill_info bills_df)
                    (primary_sponsors bill_sponsors_df)
                    (significant_pairs (collaboration_counts bill_sponsors_df bills_df)))
               (set_iter (keys (bill_info bills_df))))"

text \<open>
  The policy columns the two left joins attach to a bill number: one entry per matching
  link and matching policy, \<open>(None, None)\<close> when the bill has no link.
\<close>

definition policy_columns :: "policy_link list \<Rightarrow> policy_row list \<Rightarrow> string
    \<Rightarrow> (int option \<times> string option) list" where
  "policy_columns bill_policy_links_df bill_policies_df bill_number =
     (let ls = filter (\<lambda>l. pl_bill_number l = bill_number) bill_policy_links_df
      in if ls = [] then [(None, None)]
         else concat (map (\<lambda>l.
                (let ps = filter (\<lambda>p. pr_policy_id p = pl_policy_id l) bill_policies_df
                 in if ps = [] then [(Some (pl_policy_id l), None)]
                    else map (\<lambda>p. (Some (pl_policy_id l), pr_name p)) ps)) ls))"

text \<open>The entry of \<open>stats\<close> under a key, as the \<open>defaultdict\<close> would return it.\<close>

definition stat_of :: "(string \<times> metrics) list \<Rightarrow> string \<Rightarrow> metrics" where
  "stat_of stats k = stats_default (map_of stats k)"



text \<open>Views of a run's result, for stating concrete runs.\<close>

definition collaboration_pairs :: "snapshot \<Rightarrow> (string \<times> string) list" where
  "collaboration_pairs snap = map (\<lambda>c. (source c, target c)) (s_collaborations snap)"

definition legislator_ids :: "snapshot \<Rightarrow> string list" where
  "legislator_ids snap = map leg_id (s_legislators snap)"

definition legislator_totals :: "snapshot \<Rightarrow> (string \<times> nat option) list" where
  "legislator_totals snap =
     map (\<lambda>leg. (leg_id leg, map_option total_collaborations (leg_metrics leg))) (s_legislators snap)"

definition legislator_party_collaborations :: "snapshot \<Rightarrow> (string \<times> (string \<times> nat) list option) list" where
  "legislator_party_collaborations snap =
     map (\<lambda>leg. (leg_id leg, map_option party_collaborations (leg_metrics leg))) (s_legislators snap)"

definition snapshot_date_range :: "snapshot \<Rightarrow> string option \<times> string option" where
  "snapshot_date_range snap = md_date_range (s_metadata snap)"

definition pairs_of :: "collaboration list \<Rightarrow> (string \<times> string) list" where
  "pairs_of collaborations = map (\<lambda>c. (source c, target c)) collaborations"

section \<open>Example inputs\<close>

text \<open>
  In the examples a set is iterated in insertion order, the bills are listed by date,
  descending, so that sorting leaves them in place, and every date text is a date.
\<close>

definition insertion_order :: "string list \<Rightarrow> string list" where
  "insertion_order ks = ks"

definition keep_order :: "raw_bill list \<Rightarrow> raw_bill list" where
  "keep_order rows = rows"

definition iso_date :: "string \<Rightarrow> string option" where
  "iso_date d = Some d"

definition mk_bill :: "string \<Rightarrow> int \<Rightarrow> string option \<Rightarrow> raw_bill" where
  "mk_bill bill_number congress date =
     \<lparr> rb_bill_number = bill_number, rb_congress = congress, rb_title = ''An Act'',
       rb_latest_action_date = date, rb_latest_action_text = ''Referred'',
       rb_origin_chamber = ''House'' \<rparr>"

definition mk_sponsor :: "string \<Rightarrow> string \<Rightarrow> string \<Rightarrow> sponsor_row" where
  "mk_sponsor bill_number bioguide_id sponsor_type =
     \<lparr> sr_bill_number = bill_number, sr_bioguide_id = bioguide_id,
       sr_sponsor_type = sponsor_type \<rparr>"

definition mk_legislator :: "string \<Rightarrow> int option \<Rightarrow> string option \<Rightarrow> raw_legislator" where
  "mk_legislator bioguide_id district party =
     \<lparr> rl_bioguide_id = bioguide_id, rl_first_name = ''Pat'', rl_last_name = bioguide_id,
       rl_state = ''VT'', rl_district = district, rl_party = party \<rparr>"

text \<open>The end-to-end example of the specification, with a third bill of an older congress.\<close>

definition ex_bills :: "raw_bill list" where
  "ex_bills = [mk_bill ''B2'' 118 (Some ''2023-02-02''), mk_bill ''B1'' 117 (Some ''2021-01-01''),
               mk_bill ''B0'' 116 (Some ''2019-03-03'')]"

definition ex_sponsors :: "sponsor_row list" where
  "ex_sponsors = [mk_sponsor ''B1'' ''P1'' ''Primary'', mk_sponsor ''B1'' ''P2'' ''Cosponsor'',
                  mk_sponsor ''B2'' ''P1'' ''Primary'', mk_sponsor ''B2'' ''P2'' ''Cosponsor'']"

definition ex_legislators :: "raw_legislator list" where
  "ex_legislators = [mk_legislator ''P1'' (Some 5) (Some ''D''), mk_legislator ''P2'' None (Some ''R''),
                     mk_legislator ''P3'' (Some 0) None]"

definition ex_policies :: "policy_row list" where
  "ex_policies = [\<lparr> pr_policy_id = 1, pr_name = Some ''Health'' \<rparr>]"

definition ex_links :: "policy_link list" where
  "ex_links = [\<lparr> pl_bill_number = ''B1'', pl_policy_id = 1 \<rparr>]"

definition ex_bills_df :: "bill_row list" where
  "ex_bills_df =
     fst (load_and_clean_data iso_date keep_order ex_bills ex_legislators ex_policies ex_links 117)"

text \<open>The same sponsorships, with P2 absent from the legislator table.\<close>

definition ex_legislators_without_P2 :: "raw_legislator list" where
  "ex_legislators_without_P2 = [mk_legislator ''P1'' (Some 5) (Some ''D'')]"

text \<open>Two bills whose primary sponsor is also listed as their cosponsor.\<close>

definition self_sponsors :: "sponsor_row list" where
  "self_sponsors = [mk_sponsor ''B1'' ''P1'' ''Primary'', mk_sponsor ''B1'' ''P1'' ''Cosponsor'',
                    mk_sponsor ''B2'' ''P1'' ''Primary'', mk_sponsor ''B2'' ''P1'' ''Cosponsor'']"

text \<open>Two bills without a latest-action date.\<close>

definition undated_bills :: "raw_bill list" where
  "undated_bills = [mk_bill ''B2'' 118 None, mk_bill ''B1'' 117 None]"

text \<open>Two bills of which only the second has a latest-action date.\<close>

definition half_dated_bills :: "raw_bill list" where
  "half_dated_bills = [mk_bill ''B2'' 118 None, mk_bill ''B1'' 117 (Some ''2021-01-01'')]"

text \<open>A bill with the same cosponsor row three times.\<close>

definition dup_sponsors :: "sponsor_row list" where
  "dup_sponsors = [mk_sponsor ''B1'' ''P1'' ''Primary'', mk_sponsor ''B1'' ''P2'' ''Cosponsor'',
                   mk_sponsor ''B1'' ''P2'' ''Cosponsor'', mk_sponsor ''B1'' ''P2'' ''Cosponsor'']"

text \<open>Policy links where B2 is linked to a policy id that the policy table lacks.\<close>

definition orphan_links :: "policy_link list" where
  "orphan_links = [\<lparr> pl_bill_number = ''B1'', pl_policy_id = 1 \<rparr>,
                   \<lparr> pl_bill_number = ''B2'', pl_policy_id = 9 \<rparr>]"

text \<open>Legislators with the district cell -1, empty, 7 and 0.\<close>

definition district_legislators :: "raw_legislator list" where
  "district_legislators =
     [mk_legislator ''S1'' (Some (- 1)) (Some ''D''), mk_legislator ''S2'' None (Some ''R''),
      mk_legislator ''H7'' (Some 7) (Some ''D''), mk_legislator ''H0'' (Some 0) (Some ''R'')]"

text \<open>Views of a run's bills.\<close>

definition bill_numbers :: "snapshot \<Rightarrow> string list" where
  "bill_numbers snap = map b_bill_number (s_bills snap)"

definition bill_policies :: "snapshot \<Rightarrow> (string \<times> int option \<times> string) list" where
  "bill_policies snap =
     map (\<lambda>b. (b_bill_number b, b_policy_id b, b_policy_name b)) (s_bills snap)"

definition snapshot_policy_counts :: "snapshot \<Rightarrow> (string \<times> nat) list" where
  "snapshot_policy_counts snap = md_policies_counts (s_metadata snap)"

section \<open>Properties\<close>

subsection \<open>Dicts\<close>

lemma map_of_dict_upd: "map_of (dict_upd k f d) = (map_of d)(k \<mapsto> f (map_of d k))"
  by (induction d) (auto simp: fun_eq_iff)

lemma keys_dict_upd:
  "keys (dict_upd k f d) = (if k \<in> set (keys d) then keys d else keys d @ [k])"
  by (induction d) (force simp: keys_def)+

lemma distinct_keys_dict_upd: "distinct (keys d) \<Longrightarrow> distinct (keys (dict_upd k f d))"
  by (simp add: keys_dict_upd)

lemma count_of_incr: "count_of (incr k d) k' = (if k' = k then count_of d k + 1 else count_of d k')"
  by (simp add: count_of_def incr_def map_of_dict_upd int_default_def)

lemma distinct_keys_incr: "distinct (keys d) \<Longrightarrow> distinct (keys (incr k d))"
  by (simp add: incr_def distinct_keys_dict_upd)

lemma count_of_count_cosponsors:
  "count_of (count_cosponsors p cs counts) pr =
     count_of counts pr + length (filter (\<lambda>c. sorted_pair p c = pr) cs)"
  by (induction cs arbitrary: counts) (auto simp: count_of_incr)

lemma distinct_keys_count_cosponsors:
  "distinct (keys counts) \<Longrightarrow> distinct (keys (count_cosponsors p cs counts))"
  by (induction cs arbitrary: counts) (auto simp: distinct_keys_incr)

lemma count_of_count_groups:
  "\<forall>(k, g) \<in> set groups. \<forall>r \<in> set g. sr_bill_number r = k \<Longrightarrow>
   count_of (count_groups prim groups counts) pr =
     count_of counts pr +
     sum_list (map (\<lambda>(k, g). length (filter (\<lambda>r. row_pair prim r = Some pr) g)) groups)"
proof (induction groups arbitrary: counts)
  case Nil
  then show ?case by simp
next
  case (Cons kg groups)
  obtain k g where kg: "kg = (k, g)" by (cases kg)
  have g: "\<forall>r \<in> set g. sr_bill_number r = k" using Cons.prems kg by auto
  have rest: "\<forall>(k, g) \<in> set groups. \<forall>r \<in> set g. sr_bill_number r = k" using Cons.prems by auto
  show ?case
  proof (cases "map_of prim k")
    case None
    have "filter (\<lambda>r. row_pair prim r = Some pr) g = []"
      using g None by (auto simp: row_pair_def filter_empty_conv)
    then show ?thesis using None kg Cons.IH [OF rest] by simp
  next
    case (Some p)
    have "filter (\<lambda>r. row_pair prim r = Some pr) g = filter (\<lambda>r. sorted_pair p (sr_bioguide_id r) = pr) g"
      using g Some by (intro filter_cong) (auto simp: row_pair_def)
    then show ?thesis using Some kg Cons.IH [OF rest]
      by (simp add: count_of_count_cosponsors length_filter_map comp_def)
  qed
qed

lemma distinct_keys_count_groups:
  "distinct (keys counts) \<Longrightarrow> distinct (keys (count_groups prim groups counts))"
  by (induction groups arbitrary: counts)
     (auto simp: distinct_keys_count_cosponsors split: option.splits)

lemma partition_by_key:
  "distinct ks \<Longrightarrow>
   sum_list (map (\<lambda>k. length (filter (\<lambda>r. f r = k \<and> Q r) xs)) ks) =
     length (filter (\<lambda>r. f r \<in> set ks \<and> Q r) xs)"
proof (induction ks)
  case Nil
  then show ?case by simp
next
  case (Cons k ks)
  have "length (filter (\<lambda>r. f r \<in> set (k # ks) \<and> Q r) xs) =
        length (filter (\<lambda>r. f r = k \<and> Q r) xs) + length (filter (\<lambda>r. f r \<in> set ks \<and> Q r) xs)"
    using Cons.prems by (induction xs) auto
  then show ?case using Cons by simp
qed

lemma keys_Nil: "keys [] = []"
  by (simp add: keys_def)

lemma count_of_Nil: "count_of [] k = 0"
  by (simp add: count_of_def int_default_def)

lemma keys_foldl_dict_set:
  "set (keys (foldl (\<lambda>d row. dict_set (kf row) (vf row) d) d0 rows)) = set (keys d0) \<union> kf ` set rows"
  by (induction rows arbitrary: d0) (auto simp: dict_set_def keys_dict_upd)

lemma distinct_foldl_dict_set:
  "distinct (keys d0) \<Longrightarrow> distinct (keys (foldl (\<lambda>d row. dict_set (kf row) (vf row) d) d0 rows))"
  by (induction rows arbitrary: d0) (auto simp: dict_set_def distinct_keys_dict_upd)

lemma set_keys_bill_info: "set (keys (bill_info bills_df)) = br_bill_number ` set bills_df"
  by (simp add: bill_info_def keys_foldl_dict_set keys_Nil)

lemma distinct_keys_bill_info: "distinct (keys (bill_info bills_df))"
  by (simp add: bill_info_def distinct_foldl_dict_set keys_Nil)

lemma map_of_keys: "map_of d k \<noteq> None \<longleftrightarrow> k \<in> set (keys d)"
  by (simp add: keys_def map_of_eq_None_iff)

lemma keys_map_of: "k \<in> set (keys d) \<Longrightarrow> \<exists>v. map_of d k = Some v"
  using map_of_keys [of d k] by auto

lemma sum_groupby:
  "sum_list (map (\<lambda>(k, g). length (filter Q g)) (groupby_bill_number rows)) = length (filter Q rows)"
proof -
  let ?ks = "sort (remdups (map sr_bill_number rows))"
  have d: "distinct ?ks" by simp
  have s: "set ?ks = sr_bill_number ` set rows" by simp
  have "sum_list (map (\<lambda>(k, g). length (filter Q g)) (groupby_bill_number rows)) =
        sum_list (map (\<lambda>k. length (filter (\<lambda>r. sr_bill_number r = k \<and> Q r) rows)) ?ks)"
    by (simp add: groupby_bill_number_def comp_def conj_commute)
  also have "\<dots> = length (filter (\<lambda>r. sr_bill_number r \<in> set ?ks \<and> Q r) rows)"
    using d by (rule partition_by_key)
  also have "\<dots> = length (filter Q rows)"
    unfolding s by (rule arg_cong [where f = length], rule filter_cong) auto
  finally show ?thesis .
qed

lemma groupby_keys: "\<forall>(k, g) \<in> set (groupby_bill_number rows). \<forall>r \<in> set g. sr_bill_number r = k"
  by (auto simp: groupby_bill_number_def)

lemma count_of_collaboration_counts:
  "count_of (collaboration_counts bill_sponsors_df bills_df) pair =
     length (pair_occurrences bill_sponsors_df bills_df pair)"
proof -
  have "count_of (collaboration_counts bill_sponsors_df bills_df) pair =
        length (filter (\<lambda>r. row_pair (primary_sponsors bill_sponsors_df) r = Some pair)
                  (cosponsor_rows (keys (bill_info bills_df)) bill_sponsors_df))"
    unfolding collaboration_counts_def
    by (simp add: count_of_count_groups [OF groupby_keys] sum_groupby count_of_Nil)
  also have "\<dots> = length (pair_occurrences bill_sponsors_df bills_df pair)"
    by (simp add: cosponsor_rows_def pair_occurrences_def set_keys_bill_info conj_commute conj_left_commute)
  finally show ?thesis .
qed

lemma distinct_keys_collaboration_counts:
  "distinct (keys (collaboration_counts bill_sponsors_df bills_df))"
  by (simp add: collaboration_counts_def distinct_keys_count_groups keys_Nil)

lemma in_significant_pairs:
  "distinct (keys counts) \<Longrightarrow>
   pair \<in> set (keys (significant_pairs counts)) \<longleftrightarrow> count_of counts pair \<ge> min_collaborations"
proof -
  assume d: "distinct (keys counts)"
  have m: "\<And>c. (pair, c) \<in> set counts \<longleftrightarrow> map_of counts pair = Some c"
    using d by (auto simp: keys_def)
  have "pair \<in> set (keys (significant_pairs counts)) \<longleftrightarrow>
        (\<exists>c. (pair, c) \<in> set counts \<and> c \<ge> min_collaborations)"
    by (force simp: keys_def significant_pairs_def)
  also have "\<dots> \<longleftrightarrow> count_of counts pair \<ge> min_collaborations"
    unfolding m by (cases "map_of counts pair") (auto simp: count_of_def int_default_def min_collaborations_def)
  finally show ?thesis .
qed

lemma emit_bills_Inr:
  "set order \<subseteq> set (keys info) \<Longrightarrow>
   emit_bills bill_sponsors_df info prim sig order acc =
     Inr (acc @ concat (map (emitted_for bill_sponsors_df info prim sig) order))"
proof (induction order arbitrary: acc)
  case Nil
  then show ?case by simp
next
  case (Cons bn order)
  from Cons.prems obtain bd where bd: "map_of info bn = Some bd"
    using keys_map_of [of bn info] by auto
  from Cons.prems have sub: "set order \<subseteq> set (keys info)" by simp
  show ?case
    by (cases "map_of prim bn") (simp_all add: bd emitted_for_def Cons.IH [OF sub])
qed

lemma length_filter_concat:
  "length (filter P (concat xss)) = sum_list (map (\<lambda>xs. length (filter P xs)) xss)"
  by (induction xss) auto

lemma emitted_for_count:
  "bn \<in> set (keys info) \<Longrightarrow>
   length (filter (\<lambda>c. (source c, target c) = pair \<and> Q (c_bill_number c))
             (emitted_for bill_sponsors_df info prim sig bn)) =
   (if pair \<in> set (keys sig) \<and> Q bn
    then length (filter (\<lambda>r. sr_bill_number r = bn \<and>
                              (sr_sponsor_type r = ''Cosponsor'' \<and> row_pair prim r = Some pair))
                   bill_sponsors_df)
    else 0)"
proof -
  assume "bn \<in> set (keys info)"
  then obtain bd where bd: "map_of info bn = Some bd"
    using keys_map_of [of bn info] by auto
  show ?thesis
  proof (cases "map_of prim bn")
    case None
    have "filter (\<lambda>r. sr_bill_number r = bn \<and>
                      (sr_sponsor_type r = ''Cosponsor'' \<and> row_pair prim r = Some pair))
            bill_sponsors_df = []"
      using None by (auto simp: filter_empty_conv row_pair_def)
    then show ?thesis using None by (simp add: emitted_for_def)
  next
    case (Some p)
    have eq: "filter (\<lambda>r. sr_bill_number r = bn \<and>
                      (sr_sponsor_type r = ''Cosponsor'' \<and> row_pair prim r = Some pair))
            bill_sponsors_df =
          filter (\<lambda>r. sorted_pair p (sr_bioguide_id r) = pair)
            (filter (\<lambda>r. sr_bill_number r = bn \<and> sr_sponsor_type r = ''Cosponsor'') bill_sponsors_df)"
      using Some by (simp add: row_pair_def conj_commute conj_left_commute cong: conj_cong)
    show ?thesis
      unfolding eq
      using Some bd
      by (auto simp: emitted_for_def emit_cosponsors_def bill_cosponsors_def Let_def
            length_filter_map comp_def filter_empty_conv intro!: arg_cong [where f = length] filter_cong)
  qed
qed

lemma process_collaborations_Inr:
  assumes "set_iteration set_iter"
  shows "process_collaborations set_iter bill_sponsors_df bills_df =
           Inr (emitted set_iter bill_sponsors_df bills_df)"
proof -
  have "set (set_iter (keys (bill_info bills_df))) \<subseteq> set (keys (bill_info bills_df))"
    using assms distinct_keys_bill_info [of bills_df] by (simp add: set_iteration_def)
  then show ?thesis
    by (simp add: process_collaborations_def Let_def emit_bills_Inr emitted_def)
qed

lemma emitted_count:
  assumes "set_iteration set_iter"
  shows "length (filter (\<lambda>c. (source c, target c) = pair \<and> Q (c_bill_number c))
                   (emitted set_iter bill_sponsors_df bills_df)) =
         (if min_collaborations \<le> length (pair_occurrences bill_sponsors_df bills_df pair)
          then length (filter (\<lambda>r. Q (sr_bill_number r))
                         (pair_occurrences bill_sponsors_df bills_df pair))
          else 0)"
proof -
  let ?info = "bill_info bills_df"
  let ?prim = "primary_sponsors bill_sponsors_df"
  let ?counts = "collaboration_counts bill_sponsors_df bills_df"
  let ?sig = "significant_pairs ?counts"
  let ?order = "set_iter (keys ?info)"
  let ?R = "\<lambda>r. Q (sr_bill_number r) \<and> (sr_sponsor_type r = ''Cosponsor'' \<and> row_pair ?prim r = Some pair)"
  have d: "distinct ?order" and so: "set ?order = br_bill_number ` set bills_df"
    using assms distinct_keys_bill_info [of bills_df]
    by (simp_all add: set_iteration_def set_keys_bill_info)
  have sg: "pair \<in> set (keys ?sig) \<longleftrightarrow>
            min_collaborations \<le> length (pair_occurrences bill_sponsors_df bills_df pair)"
    by (simp add: in_significant_pairs distinct_keys_collaboration_counts
          count_of_collaboration_counts)
  have each: "\<And>bn. bn \<in> set ?order \<Longrightarrow>
      length (filter (\<lambda>c. (source c, target c) = pair \<and> Q (c_bill_number c))
                (emitted_for bill_sponsors_df ?info ?prim ?sig bn)) =
      (if pair \<in> set (keys ?sig)
       then length (filter (\<lambda>r. sr_bill_number r = bn \<and> ?R r) bill_sponsors_df) else 0)"
  proof -
    fix bn assume "bn \<in> set ?order"
    then have k: "bn \<in> set (keys ?info)"
      using assms distinct_keys_bill_info [of bills_df] by (simp add: set_iteration_def)
    have "Q bn \<Longrightarrow> filter (\<lambda>r. sr_bill_number r = bn \<and> ?R r) bill_sponsors_df =
            filter (\<lambda>r. sr_bill_number r = bn \<and>
                      (sr_sponsor_type r = ''Cosponsor'' \<and> row_pair ?prim r = Some pair)) bill_sponsors_df"
      by (rule filter_cong) auto
    moreover have "\<not> Q bn \<Longrightarrow> filter (\<lambda>r. sr_bill_number r = bn \<and> ?R r) bill_sponsors_df = []"
      by (auto simp: filter_empty_conv)
    ultimately show "length (filter (\<lambda>c. (source c, target c) = pair \<and> Q (c_bill_number c))
                (emitted_for bill_sponsors_df ?info ?prim ?sig bn)) =
      (if pair \<in> set (keys ?sig)
       then length (filter (\<lambda>r. sr_bill_number r = bn \<and> ?R r) bill_sponsors_df) else 0)"
      unfolding emitted_for_count [OF k] by (cases "Q bn") simp_all
  qed
  have "length (filter (\<lambda>c. (source c, target c) = pair \<and> Q (c_bill_number c))
                   (emitted set_iter bill_sponsors_df bills_df)) =
        sum_list (map (\<lambda>bn. if pair \<in> set (keys ?sig)
             then length (filter (\<lambda>r. sr_bill_number r = bn \<and> ?R r) bill_sponsors_df) else 0) ?order)"
    unfolding emitted_def length_filter_concat map_map comp_def
    by (rule arg_cong [where f = sum_list], rule map_cong [OF refl]) (rule each)
  also have "\<dots> = (if pair \<in> set (keys ?sig)
       then sum_list (map (\<lambda>bn. length (filter (\<lambda>r. sr_bill_number r = bn \<and> ?R r) bill_sponsors_df)) ?order)
       else 0)"
    by simp
  also have "\<dots> = (if pair \<in> set (keys ?sig)
       then length (filter (\<lambda>r. sr_bill_number r \<in> set ?order \<and> ?R r) bill_sponsors_df)
       else 0)"
    by (simp only: partition_by_key [OF d])
  also have "filter (\<lambda>r. sr_bill_number r \<in> set ?order \<and> ?R r) bill_sponsors_df =
       filter (\<lambda>r. Q (sr_bill_number r)) (pair_occurrences bill_sponsors_df bills_df pair)"
    unfolding so pair_occurrences_def filter_filter by (rule filter_cong) auto
  finally show ?thesis unfolding sg .
qed

lemma in_emitted_for:
  "c \<in> set (emitted_for bill_sponsors_df info prim sig bn) \<Longrightarrow>
   \<exists>p bd r. map_of prim bn = Some p \<and> map_of info bn = Some bd \<and> r \<in> set bill_sponsors_df \<and>
     sr_bill_number r = bn \<and> sr_sponsor_type r = ''Cosponsor'' \<and>
     sorted_pair p (sr_bioguide_id r) \<in> set (keys sig) \<and>
     c = \<lparr> source = fst (sorted_pair p (sr_bioguide_id r)),
           target = snd (sorted_pair p (sr_bioguide_id r)), c_bill_number = bn,
           c_congress = bd_congress bd, c_title = bd_title bd,
           c_latest_action = bd_latest_action_text bd,
           c_action_date = bd_latest_action_date bd,
           relationship = ''Primary-Cosponsor'' \<rparr>"
  by (cases "map_of prim bn"; cases "map_of info bn")
     (auto simp: emitted_for_def emit_cosponsors_def bill_cosponsors_def Let_def)

lemma map_of_foldl_dict_set:
  "map_of (foldl (\<lambda>d row. dict_set (kf row) (vf row) d) d0 rows) k = Some v \<Longrightarrow>
   map_of d0 k = Some v \<or> (\<exists>row \<in> set rows. kf row = k \<and> vf row = v)"
proof (induction rows arbitrary: d0)
  case Nil
  then show ?case by simp
next
  case (Cons row rows)
  from Cons.IH [OF Cons.prems [simplified]] show ?case
    by (auto simp: dict_set_def map_of_dict_upd split: if_splits)
qed

lemma map_of_bill_info:
  "map_of (bill_info bills_df) k = Some bd \<Longrightarrow>
   \<exists>row \<in> set bills_df. br_bill_number row = k \<and> bill_data_of row = bd"
  unfolding bill_info_def by (drule map_of_foldl_dict_set) simp

lemma map_of_primary_sponsors:
  "map_of (primary_sponsors bill_sponsors_df) k = Some p \<Longrightarrow>
   \<exists>row \<in> set bill_sponsors_df. sr_sponsor_type row = ''Primary'' \<and> sr_bill_number row = k \<and>
      sr_bioguide_id row = p"
  unfolding primary_sponsors_def by (drule map_of_foldl_dict_set) auto

lemma in_emitted:
  assumes "c \<in> set (emitted set_iter bill_sponsors_df bills_df)"
  shows "\<exists>p row r. map_of (primary_sponsors bill_sponsors_df) (c_bill_number c) = Some p \<and>
     row \<in> set bills_df \<and> br_bill_number row = c_bill_number c \<and>
     r \<in> set bill_sponsors_df \<and> sr_bill_number r = c_bill_number c \<and>
     sr_sponsor_type r = ''Cosponsor'' \<and>
     (source c, target c) = sorted_pair p (sr_bioguide_id r) \<and>
     c_congress c = br_congress row \<and> c_title c = br_title row \<and>
     c_latest_action c = br_latest_action_text row \<and>
     c_action_date c = br_latest_action_date row \<and>
     relationship c = ''Primary-Cosponsor''"
proof -
  from assms obtain bn where
    "c \<in> set (emitted_for bill_sponsors_df (bill_info bills_df) (primary_sponsors bill_sponsors_df)
                (significant_pairs (collaboration_counts bill_sponsors_df bills_df)) bn)"
    by (auto simp: emitted_def)
  from in_emitted_for [OF this] obtain p bd r where
    p: "map_of (primary_sponsors bill_sponsors_df) bn = Some p" and
    bd: "map_of (bill_info bills_df) bn = Some bd" and
    r: "r \<in> set bill_sponsors_df" "sr_bill_number r = bn" "sr_sponsor_type r = ''Cosponsor''" and
    c: "c = \<lparr> source = fst (sorted_pair p (sr_bioguide_id r)),
           target = snd (sorted_pair p (sr_bioguide_id r)), c_bill_number = bn,
           c_congress = bd_congress bd, c_title = bd_title bd,
           c_latest_action = bd_latest_action_text bd,
           c_action_date = bd_latest_action_date bd,
           relationship = ''Primary-Cosponsor'' \<rparr>"
    by blast
  from map_of_bill_info [OF bd] obtain row where
    row: "row \<in> set bills_df" "br_bill_number row = bn" "bill_data_of row = bd" by blast
  show ?thesis
    apply (rule exI [of _ p], rule exI [of _ row], rule exI [of _ r])
    using p r row c by (auto simp: bill_data_of_def)
qed

subsection \<open>The graph builder\<close>

lemma set_iteration_insertion_order: "set_iteration insertion_order"
  by (simp add: set_iteration_def insertion_order_def)

lemma sorted_pair_commute: "sorted_pair a b = sorted_pair b a"
  by (auto simp: sorted_pair_def)

lemma sorted_pair_le: "fst (sorted_pair a b) \<le> snd (sorted_pair a b)"
  by (auto simp: sorted_pair_def)

lemma sorted_pair_min_max: "sorted_pair a b = (min a b, max a b)"
  by (auto simp: sorted_pair_def min_def max_def)

lemma sorted_pair_inject: "sorted_pair p c = sorted_pair p c' \<longleftrightarrow> c = c'"
  by (auto simp: sorted_pair_def split: if_splits)

lemma sorted_pair_diag: "sorted_pair p c = (a, a) \<longleftrightarrow> p = a \<and> c = a"
  by (auto simp: sorted_pair_def split: if_splits)

lemma map_of_dict_set: "map_of (dict_set k v d) = (map_of d)(k \<mapsto> v)"
  by (simp add: dict_set_def map_of_dict_upd)

lemma map_of_foldl_dict_set_last:
  "map_of (foldl (\<lambda>d row. dict_set (kf row) (vf row) d) [] rows) k = Some v \<Longrightarrow>
   \<exists>pre row post. rows = pre @ row # post \<and> kf row = k \<and> k \<notin> kf ` set post \<and> vf row = v"
proof (induction rows arbitrary: v rule: rev_induct)
  case Nil
  then show ?case by simp
next
  case (snoc r rows)
  show ?case
  proof (cases "kf r = k")
    case True
    with snoc.prems have "vf r = v" by (simp add: map_of_dict_set)
    with True have "rows @ [r] = rows @ r # [] \<and> kf r = k \<and> k \<notin> kf ` set [] \<and> vf r = v"
      by simp
    then show ?thesis by blast
  next
    case False
    with snoc.prems have "map_of (foldl (\<lambda>d row. dict_set (kf row) (vf row) d) [] rows) k = Some v"
      by (simp add: map_of_dict_set)
    from snoc.IH [OF this] obtain pre row post where
      "rows = pre @ row # post" "kf row = k" "k \<notin> kf ` set post" "vf row = v" by blast
    with False have "rows @ [r] = pre @ row # (post @ [r]) \<and> kf row = k \<and>
        k \<notin> kf ` set (post @ [r]) \<and> vf row = v"
      by auto
    then show ?thesis by blast
  qed
qed

lemma map_of_bill_info_last:
  "map_of (bill_info bills_df) k = Some bd \<Longrightarrow>
   \<exists>pre row post. bills_df = pre @ row # post \<and> br_bill_number row = k \<and>
      k \<notin> br_bill_number ` set post \<and> bill_data_of row = bd"
  unfolding bill_info_def by (rule map_of_foldl_dict_set_last)

lemma map_of_primary_sponsors_last:
  "map_of (primary_sponsors bill_sponsors_df) k = Some p \<Longrightarrow>
   \<exists>pre row post. filter (\<lambda>row. sr_sponsor_type row = ''Primary'') bill_sponsors_df = pre @ row # post \<and>
      sr_bill_number row = k \<and> k \<notin> sr_bill_number ` set post \<and> sr_bioguide_id row = p"
  unfolding primary_sponsors_def by (rule map_of_foldl_dict_set_last)

lemma emitted_metadata:
  assumes "c \<in> set (emitted set_iter bill_sponsors_df bills_df)"
  shows "\<exists>pre row post. bills_df = pre @ row # post \<and>
     br_bill_number row = c_bill_number c \<and>
     c_bill_number c \<notin> br_bill_number ` set post \<and>
     c_congress c = br_congress row \<and> c_title c = br_title row \<and>
     c_latest_action c = br_latest_action_text row \<and>
     c_action_date c = br_latest_action_date row \<and>
     relationship c = ''Primary-Cosponsor''"
proof -
  from assms obtain bn where
    "c \<in> set (emitted_for bill_sponsors_df (bill_info bills_df) (primary_sponsors bill_sponsors_df)
                (significant_pairs (collaboration_counts bill_sponsors_df bills_df)) bn)"
    by (auto simp: emitted_def)
  from in_emitted_for [OF this] obtain p bd r where
    "map_of (primary_sponsors bill_sponsors_df) bn = Some p" and
    bd: "map_of (bill_info bills_df) bn = Some bd" and
    "r \<in> set bill_sponsors_df" "sr_bill_number r = bn" "sr_sponsor_type r = ''Cosponsor''" and
    "sorted_pair p (sr_bioguide_id r) \<in>
       set (keys (significant_pairs (collaboration_counts bill_sponsors_df bills_df)))" and
    c: "c = \<lparr> source = fst (sorted_pair p (sr_bioguide_id r)),
           target = snd (sorted_pair p (sr_bioguide_id r)), c_bill_number = bn,
           c_congress = bd_congress bd, c_title = bd_title bd,
           c_latest_action = bd_latest_action_text bd,
           c_action_date = bd_latest_action_date bd,
           relationship = ''Primary-Cosponsor'' \<rparr>"
    by blast
  from map_of_bill_info_last [OF bd] obtain pre row post where
    row: "bills_df = pre @ row # post" "br_bill_number row = bn"
      "bn \<notin> br_bill_number ` set post" "bill_data_of row = bd"
    by blast
  have "bills_df = pre @ row # post \<and>
     br_bill_number row = c_bill_number c \<and>
     c_bill_number c \<notin> br_bill_number ` set post \<and>
     c_congress c = br_congress row \<and> c_title c = br_title row \<and>
     c_latest_action c = br_latest_action_text row \<and>
     c_action_date c = br_latest_action_date row \<and>
     relationship c = ''Primary-Cosponsor''"
    using row c by (auto simp: bill_data_of_def)
  then show ?thesis by blast
qed

lemma ex_run_records:
  "process_collaborations insertion_order ex_sponsors ex_bills_df =
     Inr [\<lparr> source = ''P1'', target = ''P2'', c_bill_number = ''B2'', c_congress = 118,
             c_title = ''An Act'', c_latest_action = ''Referred'',
             c_action_date = Some ''2023-02-02'', relationship = ''Primary-Cosponsor'' \<rparr>,
          \<lparr> source = ''P1'', target = ''P2'', c_bill_number = ''B1'', c_congress = 117,
             c_title = ''An Act'', c_latest_action = ''Referred'',
             c_action_date = Some ''2021-01-01'', relationship = ''Primary-Cosponsor'' \<rparr>]"
  by code_simp

text \<open>
  C1 (threshold monotonicity). Whatever order the set of valid bills is iterated in,
  \<open>process_collaborations\<close> returns a list of records such that, for every pair of ids:
  the counter the first pass builds holds the number of qualifying (bill, cosponsor)
  occurrences of the pair over the whole bill set; a pair with global count exactly 1 has no
  record; a pair with global count at least 2 has exactly as many records as occurrences,
  bill by bill. Every record carries the congress, title, latest action text and date of
  the last row of \<open>bills_df\<close> with the record's bill number (the row \<open>bill_info\<close> keeps),
  and the label Primary-Cosponsor.
\<close>

theorem threshold_monotonicity:
  assumes "set_iteration set_iter"
  shows "\<exists>cs. process_collaborations set_iter bill_sponsors_df bills_df = Inr cs \<and>
    (\<forall>pair.
       count_of (collaboration_counts bill_sponsors_df bills_df) pair =
         length (pair_occurrences bill_sponsors_df bills_df pair) \<and>
       (length (pair_occurrences bill_sponsors_df bills_df pair) = 1 \<longrightarrow>
          filter (\<lambda>c. (source c, target c) = pair) cs = []) \<and>
       (length (pair_occurrences bill_sponsors_df bills_df pair) \<ge> 2 \<longrightarrow>
          length (filter (\<lambda>c. (source c, target c) = pair) cs) =
            length (pair_occurrences bill_sponsors_df bills_df pair)) \<and>
       (\<forall>bn. length (pair_occurrences bill_sponsors_df bills_df pair) \<ge> 2 \<longrightarrow>
          length (filter (\<lambda>c. (source c, target c) = pair \<and> c_bill_number c = bn) cs) =
            length (filter (\<lambda>r. sr_bill_number r = bn)
                      (pair_occurrences bill_sponsors_df bills_df pair)))) \<and>
    (\<forall>c \<in> set cs.
       map_of (bill_info bills_df) (c_bill_number c) =
         Some \<lparr> bd_congress = c_congress c, bd_title = c_title c,
                bd_latest_action_text = c_latest_action c,
                bd_latest_action_date = c_action_date c \<rparr>) \<and>
    (\<forall>c \<in> set cs.
       \<exists>pre row post. bills_df = pre @ row # post \<and>
         br_bill_number row = c_bill_number c \<and>
         c_bill_number c \<notin> br_bill_number ` set post \<and>
         c_congress c = br_congress row \<and> c_title c = br_title row \<and>
         c_latest_action c = br_latest_action_text row \<and>
         c_action_date c = br_latest_action_date row \<and>
         relationship c = ''Primary-Cosponsor'')"
proof -
  let ?cs = "emitted set_iter bill_sponsors_df bills_df"
  have r: "process_collaborations set_iter bill_sponsors_df bills_df = Inr ?cs"
    using assms by (rule process_collaborations_Inr)
  have cnt: "\<And>pair Q. length (filter (\<lambda>c. (source c, target c) = pair \<and> Q (c_bill_number c)) ?cs) =
         (if 2 \<le> length (pair_occurrences bill_sponsors_df bills_df pair)
          then length (filter (\<lambda>r. Q (sr_bill_number r))
                         (pair_occurrences bill_sponsors_df bills_df pair))
          else 0)"
    using emitted_count [OF assms] by (simp add: min_collaborations_def)
  have cnt0: "\<And>pair. length (filter (\<lambda>c. (source c, target c) = pair) ?cs) =
         (if 2 \<le> length (pair_occurrences bill_sponsors_df bills_df pair)
          then length (pair_occurrences bill_sponsors_df bills_df pair) else 0)"
    using cnt [of _ "\<lambda>_. True"] by simp
  have meta: "\<forall>c \<in> set ?cs.
       map_of (bill_info bills_df) (c_bill_number c) =
         Some \<lparr> bd_congress = c_congress c, bd_title = c_title c,
                bd_latest_action_text = c_latest_action c,
                bd_latest_action_date = c_action_date c \<rparr>"
  proof
    fix c assume "c \<in> set ?cs"
    then obtain bn where
      "c \<in> set (emitted_for bill_sponsors_df (bill_info bills_df) (primary_sponsors bill_sponsors_df)
                (significant_pairs (collaboration_counts bill_sponsors_df bills_df)) bn)"
      by (auto simp: emitted_def)
    from in_emitted_for [OF this] show "map_of (bill_info bills_df) (c_bill_number c) =
         Some \<lparr> bd_congress = c_congress c, bd_title = c_title c,
                bd_latest_action_text = c_latest_action c,
                bd_latest_action_date = c_action_date c \<rparr>"
      by auto
  qed
  have rows: "\<forall>c \<in> set ?cs.
       \<exists>pre row post. bills_df = pre @ row # post \<and>
         br_bill_number row = c_bill_number c \<and>
         c_bill_number c \<notin> br_bill_number ` set post \<and>
         c_congress c = br_congress row \<and> c_title c = br_title row \<and>
         c_latest_action c = br_latest_action_text row \<and>
         c_action_date c = br_latest_action_date row \<and>
         relationship c = ''Primary-Cosponsor''"
    by (rule ballI) (rule emitted_metadata)
  have one: "filter (\<lambda>c. (source c, target c) = pair) ?cs = []"
    if "length (pair_occurrences bill_sponsors_df bills_df pair) = 1" for pair
    using cnt0 [of pair] that by simp
  have per_bill: "\<And>pair bn. 2 \<le> length (pair_occurrences bill_sponsors_df bills_df pair) \<Longrightarrow>
          length (filter (\<lambda>c. (source c, target c) = pair \<and> c_bill_number c = bn) ?cs) =
            length (filter (\<lambda>r. sr_bill_number r = bn)
                      (pair_occurrences bill_sponsors_df bills_df pair))"
    using cnt [of _ "\<lambda>x. x = _"] by simp
  show ?thesis
    apply (rule exI [of _ ?cs])
    apply (intro conjI allI impI r meta rows)
       apply (rule count_of_collaboration_counts)
      apply (erule one)
     apply (simp add: cnt0)
    apply (erule per_bill)
    done
qed

lemma ex_single_bill_run:
  "process_collaborations insertion_order ex_sponsors
     (fst (load_and_clean_data iso_date keep_order ex_bills ex_legislators ex_policies ex_links 118))
     = Inr []"
  by code_simp

theorem threshold_monotonicity_witness:
  "set_iteration insertion_order \<and>
   process_collaborations insertion_order ex_sponsors ex_bills_df =
     Inr [\<lparr> source = ''P1'', target = ''P2'', c_bill_number = ''B2'', c_congress = 118,
             c_title = ''An Act'', c_latest_action = ''Referred'',
             c_action_date = Some ''2023-02-02'', relationship = ''Primary-Cosponsor'' \<rparr>,
          \<lparr> source = ''P1'', target = ''P2'', c_bill_number = ''B1'', c_congress = 117,
             c_title = ''An Act'', c_latest_action = ''Referred'',
             c_action_date = Some ''2021-01-01'', relationship = ''Primary-Cosponsor'' \<rparr>] \<and>
   (\<exists>cs. process_collaborations insertion_order ex_sponsors ex_bills_df = Inr cs \<and>
      count_of (collaboration_counts ex_sponsors ex_bills_df) (''P1'', ''P2'') = 2 \<and>
      length (filter (\<lambda>c. (source c, target c) = (''P1'', ''P2'')) cs) = 2) \<and>
   (\<exists>cs. process_collaborations insertion_order ex_sponsors
           (fst (load_and_clean_data iso_date keep_order ex_bills ex_legislators ex_policies
                   ex_links 118)) = Inr cs \<and>
      count_of (collaboration_counts ex_sponsors
           (fst (load_and_clean_data iso_date keep_order ex_bills ex_legislators ex_policies
                   ex_links 118))) (''P1'', ''P2'') = 1 \<and>
      filter (\<lambda>c. (source c, target c) = (''P1'', ''P2'')) cs = [])"
proof -
  let ?one = "fst (load_and_clean_data iso_date keep_order ex_bills ex_legislators ex_policies
                   ex_links 118)"
  have occ: "length (pair_occurrences ex_sponsors ex_bills_df (''P1'', ''P2'')) = 2"
    by code_simp
  have occ1: "length (pair_occurrences ex_sponsors ?one (''P1'', ''P2'')) = 1"
    by code_simp
  from threshold_monotonicity [OF set_iteration_insertion_order, of ex_sponsors ex_bills_df]
  obtain cs where
    r: "process_collaborations insertion_order ex_sponsors ex_bills_df = Inr cs" and
    p: "\<forall>pair.
       count_of (collaboration_counts ex_sponsors ex_bills_df) pair =
         length (pair_occurrences ex_sponsors ex_bills_df pair) \<and>
       (length (pair_occurrences ex_sponsors ex_bills_df pair) = 1 \<longrightarrow>
          filter (\<lambda>c. (source c, target c) = pair) cs = []) \<and>
       (length (pair_occurrences ex_sponsors ex_bills_df pair) \<ge> 2 \<longrightarrow>
          length (filter (\<lambda>c. (source c, target c) = pair) cs) =
            length (pair_occurrences ex_sponsors ex_bills_df pair)) \<and>
       (\<forall>bn. length (pair_occurrences ex_sponsors ex_bills_df pair) \<ge> 2 \<longrightarrow>
          length (filter (\<lambda>c. (source c, target c) = pair \<and> c_bill_number c = bn) cs) =
            length (filter (\<lambda>r. sr_bill_number r = bn)
                      (pair_occurrences ex_sponsors ex_bills_df pair)))"
    by (elim exE conjE) (rule that, assumption+)
  from p [rule_format, of "(''P1'', ''P2'')"] occ
  have "count_of (collaboration_counts ex_sponsors ex_bills_df) (''P1'', ''P2'') = 2"
    and "length (filter (\<lambda>c. (source c, target c) = (''P1'', ''P2'')) cs) = 2"
    by simp_all
  with r have two: "\<exists>cs. process_collaborations insertion_order ex_sponsors ex_bills_df = Inr cs \<and>
      count_of (collaboration_counts ex_sponsors ex_bills_df) (''P1'', ''P2'') = 2 \<and>
      length (filter (\<lambda>c. (source c, target c) = (''P1'', ''P2'')) cs) = 2"
    by (intro exI [of _ cs] conjI)
  from threshold_monotonicity [OF set_iteration_insertion_order, of ex_sponsors ?one]
  obtain cs' where
    r': "process_collaborations insertion_order ex_sponsors ?one = Inr cs'" and
    p': "\<forall>pair.
       count_of (collaboration_counts ex_sponsors ?one) pair =
         length (pair_occurrences ex_sponsors ?one pair) \<and>
       (length (pair_occurrences ex_sponsors ?one pair) = 1 \<longrightarrow>
          filter (\<lambda>c. (source c, target c) = pair) cs' = []) \<and>
       (length (pair_occurrences ex_sponsors ?one pair) \<ge> 2 \<longrightarrow>
          length (filter (\<lambda>c. (source c, target c) = pair) cs') =
            length (pair_occurrences ex_sponsors ?one pair)) \<and>
       (\<forall>bn. length (pair_occurrences ex_sponsors ?one pair) \<ge> 2 \<longrightarrow>
          length (filter (\<lambda>c. (source c, target c) = pair \<and> c_bill_number c = bn) cs') =
            length (filter (\<lambda>r. sr_bill_number r = bn)
                      (pair_occurrences ex_sponsors ?one pair)))"
    by (elim exE conjE) (rule that, assumption+)
  from p' [rule_format, of "(''P1'', ''P2'')"] occ1
  have "count_of (collaboration_counts ex_sponsors ?one) (''P1'', ''P2'') = 1"
    and "filter (\<lambda>c. (source c, target c) = (''P1'', ''P2'')) cs' = []"
    by simp_all
  with r' have one: "\<exists>cs. process_collaborations insertion_order ex_sponsors ?one = Inr cs \<and>
      count_of (collaboration_counts ex_sponsors ?one) (''P1'', ''P2'') = 1 \<and>
      filter (\<lambda>c. (source c, target c) = (''P1'', ''P2'')) cs = []"
    by (intro exI [of _ cs'] conjI)
  show ?thesis
    by (intro conjI set_iteration_insertion_order ex_run_records two one)
qed

lemma ex_run_pairs:
  "map_sum id pairs_of (process_collaborations insertion_order ex_sponsors ex_bills_df) =
     Inr [(''P1'', ''P2''), (''P1'', ''P2'')]"
  by code_simp

lemma in_emitted_min_max:
  assumes "c \<in> set (emitted set_iter bill_sponsors_df bills_df)"
  shows "source c \<le> target c \<and>
     (\<exists>p r. map_of (primary_sponsors bill_sponsors_df) (c_bill_number c) = Some p \<and>
        r \<in> set bill_sponsors_df \<and> sr_bill_number r = c_bill_number c \<and>
        sr_sponsor_type r = ''Cosponsor'' \<and>
        source c = min p (sr_bioguide_id r) \<and> target c = max p (sr_bioguide_id r))"
proof -
  from in_emitted [OF assms] obtain p r where
    p: "map_of (primary_sponsors bill_sponsors_df) (c_bill_number c) = Some p" and
    r: "r \<in> set bill_sponsors_df" "sr_bill_number r = c_bill_number c"
       "sr_sponsor_type r = ''Cosponsor''" and
    st: "(source c, target c) = sorted_pair p (sr_bioguide_id r)"
    by blast
  from st have "source c = min p (sr_bioguide_id r)" "target c = max p (sr_bioguide_id r)"
    by (simp_all add: sorted_pair_min_max)
  moreover from this have "source c \<le> target c" by (simp add: min_le_iff_disj)
  ultimately show ?thesis using p r by blast
qed

text \<open>
  C2 (canonicalization). The pair key of (A, B) is the pair key of (B, A). In the list
  \<open>process_collaborations\<close> returns, every record has the smaller of its bill's primary
  sponsor and a cosponsor of that bill as source and the larger as target, so a pair that
  appeared in both orientations would be one and the same (source, target) entry.
\<close>

theorem canonicalization:
  assumes "set_iteration set_iter"
  shows "sorted_pair a b = sorted_pair b a \<and>
    (\<exists>cs. process_collaborations set_iter bill_sponsors_df bills_df = Inr cs \<and>
       (\<forall>c \<in> set cs. source c \<le> target c \<and>
          (\<exists>p r. map_of (primary_sponsors bill_sponsors_df) (c_bill_number c) = Some p \<and>
             r \<in> set bill_sponsors_df \<and> sr_bill_number r = c_bill_number c \<and>
             sr_sponsor_type r = ''Cosponsor'' \<and>
             source c = min p (sr_bioguide_id r) \<and> target c = max p (sr_bioguide_id r))) \<and>
       (\<forall>c \<in> set cs. \<forall>c' \<in> set cs.
          source c = target c' \<and> target c = source c' \<longrightarrow>
          (source c, target c) = (source c', target c')))"
proof -
  let ?cs = "emitted set_iter bill_sponsors_df bills_df"
  have r: "process_collaborations set_iter bill_sponsors_df bills_df = Inr ?cs"
    using assms by (rule process_collaborations_Inr)
  have le: "\<And>c. c \<in> set ?cs \<Longrightarrow> source c \<le> target c"
    using in_emitted_min_max by blast
  have both: "\<forall>c \<in> set ?cs. \<forall>c' \<in> set ?cs.
          source c = target c' \<and> target c = source c' \<longrightarrow>
          (source c, target c) = (source c', target c')"
  proof (intro ballI impI)
    fix c c' assume "c \<in> set ?cs" "c' \<in> set ?cs"
      and sw: "source c = target c' \<and> target c = source c'"
    then have "source c \<le> target c" "source c' \<le> target c'" using le by blast+
    with sw show "(source c, target c) = (source c', target c')" by auto
  qed
  have each: "\<forall>c \<in> set ?cs. source c \<le> target c \<and>
          (\<exists>p r. map_of (primary_sponsors bill_sponsors_df) (c_bill_number c) = Some p \<and>
             r \<in> set bill_sponsors_df \<and> sr_bill_number r = c_bill_number c \<and>
             sr_sponsor_type r = ''Cosponsor'' \<and>
             source c = min p (sr_bioguide_id r) \<and> target c = max p (sr_bioguide_id r))"
    by (rule ballI) (rule in_emitted_min_max)
  show ?thesis
    apply (rule conjI)
     apply (rule sorted_pair_commute)
    apply (rule exI [of _ ?cs])
    apply (intro conjI r each both)
    done
qed

theorem canonicalization_witness:
  "set_iteration insertion_order \<and>
   sorted_pair ''P2'' ''P1'' = (''P1'', ''P2'') \<and> sorted_pair ''P1'' ''P2'' = (''P1'', ''P2'') \<and>
   (\<exists>cs. process_collaborations insertion_order ex_sponsors ex_bills_df = Inr cs \<and>
      pairs_of cs = [(''P1'', ''P2''), (''P1'', ''P2'')] \<and>
      (\<forall>c \<in> set cs. source c \<le> target c))"
proof -
  from canonicalization [OF set_iteration_insertion_order, of "''P2''" "''P1''" ex_sponsors ex_bills_df]
  obtain cs where
    sp: "sorted_pair ''P2'' ''P1'' = sorted_pair ''P1'' ''P2''" and
    r: "process_collaborations insertion_order ex_sponsors ex_bills_df = Inr cs" and
    le: "\<forall>c \<in> set cs. source c \<le> target c"
    by blast
  have v: "sorted_pair ''P1'' ''P2'' = (''P1'', ''P2'')" by code_simp
  from ex_run_pairs r have ps: "pairs_of cs = [(''P1'', ''P2''), (''P1'', ''P2'')]" by simp
  have "\<exists>cs. process_collaborations insertion_order ex_sponsors ex_bills_df = Inr cs \<and>
      pairs_of cs = [(''P1'', ''P2''), (''P1'', ''P2'')] \<and>
      (\<forall>c \<in> set cs. source c \<le> target c)"
    using r le ps by blast
  with sp v set_iteration_insertion_order show ?thesis by simp
qed

lemma row_pair_diag:
  "row_pair prim r = Some (a, a) \<longleftrightarrow>
     map_of prim (sr_bill_number r) = Some a \<and> sr_bioguide_id r = a"
  by (cases "map_of prim (sr_bill_number r)") (auto simp: row_pair_def sorted_pair_diag)

lemma in_emitted_self:
  assumes "c \<in> set (emitted set_iter bill_sponsors_df bills_df)" and "source c = target c"
  shows "\<exists>r \<in> set bill_sponsors_df. sr_bill_number r = c_bill_number c \<and>
           sr_sponsor_type r = ''Cosponsor'' \<and> sr_bioguide_id r = source c \<and>
           map_of (primary_sponsors bill_sponsors_df) (sr_bill_number r) = Some (source c)"
proof -
  from in_emitted [OF assms(1)] obtain p r where
    p: "map_of (primary_sponsors bill_sponsors_df) (c_bill_number c) = Some p" and
    r: "r \<in> set bill_sponsors_df" "sr_bill_number r = c_bill_number c"
       "sr_sponsor_type r = ''Cosponsor''" and
    st: "(source c, target c) = sorted_pair p (sr_bioguide_id r)"
    by blast
  from st assms(2) have "sorted_pair p (sr_bioguide_id r) = (source c, source c)" by simp
  then have "p = source c" "sr_bioguide_id r = source c" by (simp_all add: sorted_pair_diag)
  with p r show ?thesis by auto
qed

text \<open>
  C5, as the code has it. The builder has no test for equal ids: a Cosponsor row that
  carries the id of its bill's primary sponsor is counted towards the pair (id, id) like any
  other row, and once that count reaches 2 the pair is emitted like any other pair, one
  record with source = target = id for each such row. A record with equal source and target
  comes from such a row and from nothing else, so source and target differ in every record
  when no Cosponsor row carries the primary sponsor of its bill.
\<close>

theorem self_pairs_are_counted:
  assumes "set_iteration set_iter"
  shows "\<exists>cs. process_collaborations set_iter bill_sponsors_df bills_df = Inr cs \<and>
    (\<forall>a. count_of (collaboration_counts bill_sponsors_df bills_df) (a, a) =
          length (filter (\<lambda>r. sr_bill_number r \<in> br_bill_number ` set bills_df \<and>
                              sr_sponsor_type r = ''Cosponsor'' \<and>
                              map_of (primary_sponsors bill_sponsors_df) (sr_bill_number r) = Some a \<and>
                              sr_bioguide_id r = a)
                    bill_sponsors_df)) \<and>
    (\<forall>a. length (filter (\<lambda>c. (source c, target c) = (a, a)) cs) =
          (if 2 \<le> count_of (collaboration_counts bill_sponsors_df bills_df) (a, a)
           then count_of (collaboration_counts bill_sponsors_df bills_df) (a, a) else 0)) \<and>
    (\<forall>c \<in> set cs. source c = target c \<longrightarrow>
       (\<exists>r \<in> set bill_sponsors_df. sr_bill_number r = c_bill_number c \<and>
           sr_sponsor_type r = ''Cosponsor'' \<and> sr_bioguide_id r = source c \<and>
           map_of (primary_sponsors bill_sponsors_df) (sr_bill_number r) = Some (source c))) \<and>
    ((\<forall>r \<in> set bill_sponsors_df. sr_sponsor_type r = ''Cosponsor'' \<longrightarrow>
         map_of (primary_sponsors bill_sponsors_df) (sr_bill_number r) \<noteq> Some (sr_bioguide_id r)) \<longrightarrow>
     (\<forall>c \<in> set cs. source c \<noteq> target c))"
proof -
  let ?cs = "emitted set_iter bill_sponsors_df bills_df"
  have r: "process_collaborations set_iter bill_sponsors_df bills_df = Inr ?cs"
    using assms by (rule process_collaborations_Inr)
  have cnt: "\<forall>a. count_of (collaboration_counts bill_sponsors_df bills_df) (a, a) =
          length (filter (\<lambda>r. sr_bill_number r \<in> br_bill_number ` set bills_df \<and>
                              sr_sponsor_type r = ''Cosponsor'' \<and>
                              map_of (primary_sponsors bill_sponsors_df) (sr_bill_number r) = Some a \<and>
                              sr_bioguide_id r = a)
                    bill_sponsors_df)"
    by (simp add: count_of_collaboration_counts pair_occurrences_def row_pair_diag)
  have em: "\<forall>a. length (filter (\<lambda>c. (source c, target c) = (a, a)) ?cs) =
          (if 2 \<le> count_of (collaboration_counts bill_sponsors_df bills_df) (a, a)
           then count_of (collaboration_counts bill_sponsors_df bills_df) (a, a) else 0)"
  proof
    fix a
    show "length (filter (\<lambda>c. (source c, target c) = (a, a)) ?cs) =
          (if 2 \<le> count_of (collaboration_counts bill_sponsors_df bills_df) (a, a)
           then count_of (collaboration_counts bill_sponsors_df bills_df) (a, a) else 0)"
      using emitted_count [OF assms, of "(a, a)" "\<lambda>_. True" bill_sponsors_df bills_df]
      by (simp add: min_collaborations_def count_of_collaboration_counts)
  qed
  have self: "\<forall>c \<in> set ?cs. source c = target c \<longrightarrow>
       (\<exists>r \<in> set bill_sponsors_df. sr_bill_number r = c_bill_number c \<and>
           sr_sponsor_type r = ''Cosponsor'' \<and> sr_bioguide_id r = source c \<and>
           map_of (primary_sponsors bill_sponsors_df) (sr_bill_number r) = Some (source c))"
    by (intro ballI impI) (rule in_emitted_self)
  have distinct_ends: "(\<forall>r \<in> set bill_sponsors_df. sr_sponsor_type r = ''Cosponsor'' \<longrightarrow>
         map_of (primary_sponsors bill_sponsors_df) (sr_bill_number r) \<noteq> Some (sr_bioguide_id r)) \<longrightarrow>
     (\<forall>c \<in> set ?cs. source c \<noteq> target c)"
  proof (intro impI ballI notI)
    fix c
    assume no: "\<forall>r \<in> set bill_sponsors_df. sr_sponsor_type r = ''Cosponsor'' \<longrightarrow>
         map_of (primary_sponsors bill_sponsors_df) (sr_bill_number r) \<noteq> Some (sr_bioguide_id r)"
      and c: "c \<in> set ?cs" "source c = target c"
    from in_emitted_self [OF c] obtain r where
      "r \<in> set bill_sponsors_df" "sr_sponsor_type r = ''Cosponsor''"
      "sr_bioguide_id r = source c"
      "map_of (primary_sponsors bill_sponsors_df) (sr_bill_number r) = Some (source c)"
      by blast
    with no show False by force
  qed
  show ?thesis
    apply (rule exI [of _ ?cs])
    apply (intro conjI r cnt em self distinct_ends)
    done
qed

lemma ex_no_self_rows:
  "\<forall>r \<in> set ex_sponsors. sr_sponsor_type r = ''Cosponsor'' \<longrightarrow>
      map_of (primary_sponsors ex_sponsors) (sr_bill_number r) \<noteq> Some (sr_bioguide_id r)"
  by code_simp

lemma self_run_pairs:
  "map_sum id pairs_of (process_collaborations insertion_order self_sponsors ex_bills_df) =
     Inr [(''P1'', ''P1''), (''P1'', ''P1'')]"
  by code_simp

theorem self_pairs_are_counted_witness:
  "set_iteration insertion_order \<and>
   (\<exists>cs. process_collaborations insertion_order ex_sponsors ex_bills_df = Inr cs \<and>
      pairs_of cs = [(''P1'', ''P2''), (''P1'', ''P2'')] \<and>
      (\<forall>c \<in> set cs. source c \<noteq> target c)) \<and>
   (\<exists>cs. process_collaborations insertion_order self_sponsors ex_bills_df = Inr cs \<and>
      count_of (collaboration_counts self_sponsors ex_bills_df) (''P1'', ''P1'') = 2 \<and>
      length (filter (\<lambda>c. (source c, target c) = (''P1'', ''P1'')) cs) = 2 \<and>
      pairs_of cs = [(''P1'', ''P1''), (''P1'', ''P1'')])"
proof -
  note t1 = self_pairs_are_counted [OF set_iteration_insertion_order, of ex_sponsors ex_bills_df]
  from t1 obtain cs where
    r: "process_collaborations insertion_order ex_sponsors ex_bills_df = Inr cs" and
    d: "(\<forall>r \<in> set ex_sponsors. sr_sponsor_type r = ''Cosponsor'' \<longrightarrow>
         map_of (primary_sponsors ex_sponsors) (sr_bill_number r) \<noteq> Some (sr_bioguide_id r)) \<longrightarrow>
     (\<forall>c \<in> set cs. source c \<noteq> target c)"
    by (elim exE conjE) (rule that, assumption+)
  from d ex_no_self_rows have d': "\<forall>c \<in> set cs. source c \<noteq> target c" by (rule mp)
  from ex_run_pairs r have ps: "pairs_of cs = [(''P1'', ''P2''), (''P1'', ''P2'')]" by simp
  have one: "\<exists>cs. process_collaborations insertion_order ex_sponsors ex_bills_df = Inr cs \<and>
      pairs_of cs = [(''P1'', ''P2''), (''P1'', ''P2'')] \<and>
      (\<forall>c \<in> set cs. source c \<noteq> target c)"
    by (intro exI [of _ cs] conjI r ps d')
  note t2 = self_pairs_are_counted [OF set_iteration_insertion_order, of self_sponsors ex_bills_df]
  from t2 obtain cs' where
    r': "process_collaborations insertion_order self_sponsors ex_bills_df = Inr cs'" and
    c': "\<forall>a. count_of (collaboration_counts self_sponsors ex_bills_df) (a, a) =
          length (filter (\<lambda>r. sr_bill_number r \<in> br_bill_number ` set ex_bills_df \<and>
                              sr_sponsor_type r = ''Cosponsor'' \<and>
                              map_of (primary_sponsors self_sponsors) (sr_bill_number r) = Some a \<and>
                              sr_bioguide_id r = a)
                    self_sponsors)" and
    e': "\<forall>a. length (filter (\<lambda>c. (source c, target c) = (a, a)) cs') =
          (if 2 \<le> count_of (collaboration_counts self_sponsors ex_bills_df) (a, a)
           then count_of (collaboration_counts self_sponsors ex_bills_df) (a, a) else 0)"
    by (elim exE conjE) (rule that, assumption+)
  have "length (filter (\<lambda>r. sr_bill_number r \<in> br_bill_number ` set ex_bills_df \<and>
                              sr_sponsor_type r = ''Cosponsor'' \<and>
                              map_of (primary_sponsors self_sponsors) (sr_bill_number r) = Some ''P1'' \<and>
                              sr_bioguide_id r = ''P1'')
                    self_sponsors) = 2"
    by code_simp
  with c' [rule_format, of "''P1''"]
  have n: "count_of (collaboration_counts self_sponsors ex_bills_df) (''P1'', ''P1'') = 2"
    by simp
  from e' [rule_format, of "''P1''"] n
  have l: "length (filter (\<lambda>c. (source c, target c) = (''P1'', ''P1'')) cs') = 2"
    by simp
  from self_run_pairs r' have ps': "pairs_of cs' = [(''P1'', ''P1''), (''P1'', ''P1'')]" by simp
  have two: "\<exists>cs. process_collaborations insertion_order self_sponsors ex_bills_df = Inr cs \<and>
      count_of (collaboration_counts self_sponsors ex_bills_df) (''P1'', ''P1'') = 2 \<and>
      length (filter (\<lambda>c. (source c, target c) = (''P1'', ''P1'')) cs) = 2 \<and>
      pairs_of cs = [(''P1'', ''P1''), (''P1'', ''P1'')]"
    by (intro exI [of _ cs'] conjI r' n l ps')
  show ?thesis by (intro conjI set_iteration_insertion_order one two)
qed

text \<open>
  C5 as stated fails: with P1 the primary sponsor and the only cosponsor of the bills B1 and
  B2, the pair (P1, P1) reaches the count 2 and two records with source = target = P1 are
  emitted.
\<close>

theorem self_pair_counterexample:
  "map_sum id pairs_of (process_collaborations insertion_order self_sponsors ex_bills_df) =
     Inr [(''P1'', ''P1''), (''P1'', ''P1'')] \<and>
   count_of (collaboration_counts self_sponsors ex_bills_df) (''P1'', ''P1'') = 2"
proof -
  have "map_sum id pairs_of (process_collaborations insertion_order self_sponsors ex_bills_df) =
     Inr [(''P1'', ''P1''), (''P1'', ''P1'')]"
    by code_simp
  moreover have "count_of (collaboration_counts self_sponsors ex_bills_df) (''P1'', ''P1'') = 2"
    by code_simp
  ultimately show ?thesis by simp
qed

lemma eq_mk_sponsor:
  "(r :: sponsor_row) = mk_sponsor b c t \<longleftrightarrow>
     sr_bill_number r = b \<and> sr_bioguide_id r = c \<and> sr_sponsor_type r = t"
  by (cases r) (auto simp: mk_sponsor_def)

lemma occurrences_on_bill:
  assumes "bn \<in> br_bill_number ` set bills_df"
    and "map_of (primary_sponsors bill_sponsors_df) bn = Some p"
  shows "length (filter (\<lambda>r. sr_bill_number r = bn)
                   (pair_occurrences bill_sponsors_df bills_df (sorted_pair p c))) =
         count_list bill_sponsors_df (mk_sponsor bn c ''Cosponsor'')"
proof -
  have "filter (\<lambda>r. sr_bill_number r = bn)
          (pair_occurrences bill_sponsors_df bills_df (sorted_pair p c)) =
        filter ((=) (mk_sponsor bn c ''Cosponsor'')) bill_sponsors_df"
    unfolding pair_occurrences_def filter_filter
  proof (rule filter_cong [OF refl])
    fix r
    show "(sr_bill_number r \<in> br_bill_number ` set bills_df \<and>
           sr_sponsor_type r = ''Cosponsor'' \<and>
           row_pair (primary_sponsors bill_sponsors_df) r = Some (sorted_pair p c)) \<and>
          sr_bill_number r = bn \<longleftrightarrow> mk_sponsor bn c ''Cosponsor'' = r"
      using assms eq_mk_sponsor [of r bn c "''Cosponsor''"]
      by (cases "sr_bill_number r = bn") (auto simp: row_pair_def sorted_pair_inject)
  qed
  then show ?thesis by (simp add: count_list_eq_length_filter)
qed

text \<open>
  C10 (duplicate cosponsor rows). For a bill of the bill set with primary sponsor \<open>p\<close>, let
  \<open>k\<close> be the number of times the row (bill, c, Cosponsor) stands in the sponsorship table.
  The counter the first pass builds for the pair of \<open>p\<close> and \<open>c\<close> holds the number of the
  pair's occurrences, of which the bill contributes exactly \<open>k\<close>: the count is \<open>k\<close> plus the
  occurrences on other bills. When the count reaches the threshold exactly \<open>k\<close> records are
  emitted for the pair and the bill: equal rows are never merged.
\<close>

theorem duplicate_cosponsor_rows:
  assumes "set_iteration set_iter"
    and "bn \<in> br_bill_number ` set bills_df"
    and "map_of (primary_sponsors bill_sponsors_df) bn = Some p"
  shows "\<exists>cs. process_collaborations set_iter bill_sponsors_df bills_df = Inr cs \<and>
    count_of (collaboration_counts bill_sponsors_df bills_df) (sorted_pair p c) =
      length (pair_occurrences bill_sponsors_df bills_df (sorted_pair p c)) \<and>
    length (filter (\<lambda>r. sr_bill_number r = bn)
              (pair_occurrences bill_sponsors_df bills_df (sorted_pair p c))) =
      count_list bill_sponsors_df (mk_sponsor bn c ''Cosponsor'') \<and>
    count_of (collaboration_counts bill_sponsors_df bills_df) (sorted_pair p c) =
      count_list bill_sponsors_df (mk_sponsor bn c ''Cosponsor'') +
      length (filter (\<lambda>r. sr_bill_number r \<noteq> bn)
                (pair_occurrences bill_sponsors_df bills_df (sorted_pair p c))) \<and>
    count_list bill_sponsors_df (mk_sponsor bn c ''Cosponsor'') \<le>
      count_of (collaboration_counts bill_sponsors_df bills_df) (sorted_pair p c) \<and>
    length (filter (\<lambda>x. (source x, target x) = sorted_pair p c \<and> c_bill_number x = bn) cs) =
      (if 2 \<le> count_of (collaboration_counts bill_sponsors_df bills_df) (sorted_pair p c)
       then count_list bill_sponsors_df (mk_sponsor bn c ''Cosponsor'') else 0)"
proof -
  let ?cs = "emitted set_iter bill_sponsors_df bills_df"
  let ?k = "count_list bill_sponsors_df (mk_sponsor bn c ''Cosponsor'')"
  let ?occ = "pair_occurrences bill_sponsors_df bills_df (sorted_pair p c)"
  have r: "process_collaborations set_iter bill_sponsors_df bills_df = Inr ?cs"
    using assms(1) by (rule process_collaborations_Inr)
  have n: "count_of (collaboration_counts bill_sponsors_df bills_df) (sorted_pair p c) = length ?occ"
    by (rule count_of_collaboration_counts)
  have k: "length (filter (\<lambda>r. sr_bill_number r = bn) ?occ) = ?k"
    using assms(2,3) by (rule occurrences_on_bill)
  have "length ?occ = length (filter (\<lambda>r. sr_bill_number r = bn) ?occ) +
                      length (filter (\<lambda>r. sr_bill_number r \<noteq> bn) ?occ)"
    by (rule sum_length_filter_compl [symmetric])
  then have split: "count_of (collaboration_counts bill_sponsors_df bills_df) (sorted_pair p c) =
      ?k + length (filter (\<lambda>r. sr_bill_number r \<noteq> bn) ?occ)"
    by (simp add: n k)
  from split have le: "?k \<le> count_of (collaboration_counts bill_sponsors_df bills_df) (sorted_pair p c)"
    by simp
  have "length (filter (\<lambda>x. (source x, target x) = sorted_pair p c \<and> c_bill_number x = bn) ?cs) =
      (if 2 \<le> length ?occ then length (filter (\<lambda>r. sr_bill_number r = bn) ?occ) else 0)"
    using emitted_count [OF assms(1), of "sorted_pair p c" "\<lambda>x. x = bn" bill_sponsors_df bills_df]
    by (simp add: min_collaborations_def)
  then have em: "length (filter (\<lambda>x. (source x, target x) = sorted_pair p c \<and> c_bill_number x = bn) ?cs) =
      (if 2 \<le> count_of (collaboration_counts bill_sponsors_df bills_df) (sorted_pair p c)
       then ?k else 0)"
    by (simp add: k n)
  show ?thesis
    apply (rule exI [of _ ?cs])
    apply (intro conjI r n k split le em)
    done
qed

lemma dup_run_records:
  "process_collaborations insertion_order dup_sponsors ex_bills_df =
     Inr (replicate 3
       \<lparr> source = ''P1'', target = ''P2'', c_bill_number = ''B1'', c_congress = 117,
          c_title = ''An Act'', c_latest_action = ''Referred'',
          c_action_date = Some ''2021-01-01'', relationship = ''Primary-Cosponsor'' \<rparr>)"
  by code_simp

theorem duplicate_cosponsor_rows_witness:
  "set_iteration insertion_order \<and> ''B1'' \<in> br_bill_number ` set ex_bills_df \<and>
   map_of (primary_sponsors dup_sponsors) ''B1'' = Some ''P1'' \<and>
   count_list dup_sponsors (mk_sponsor ''B1'' ''P2'' ''Cosponsor'') = 3 \<and>
   process_collaborations insertion_order dup_sponsors ex_bills_df =
     Inr (replicate 3
       \<lparr> source = ''P1'', target = ''P2'', c_bill_number = ''B1'', c_congress = 117,
          c_title = ''An Act'', c_latest_action = ''Referred'',
          c_action_date = Some ''2021-01-01'', relationship = ''Primary-Cosponsor'' \<rparr>) \<and>
   (\<exists>cs. process_collaborations insertion_order dup_sponsors ex_bills_df = Inr cs \<and>
      count_of (collaboration_counts dup_sponsors ex_bills_df) (''P1'', ''P2'') = 3 \<and>
      length (filter (\<lambda>x. (source x, target x) = (''P1'', ''P2'') \<and> c_bill_number x = ''B1'') cs) = 3)"
proof -
  have b: "''B1'' \<in> br_bill_number ` set ex_bills_df" by code_simp
  have p: "map_of (primary_sponsors dup_sponsors) ''B1'' = Some ''P1''" by code_simp
  have k: "count_list dup_sponsors (mk_sponsor ''B1'' ''P2'' ''Cosponsor'') = 3" by code_simp
  have sp: "sorted_pair ''P1'' ''P2'' = (''P1'', ''P2'')" by code_simp
  have o: "length (filter (\<lambda>r. sr_bill_number r \<noteq> ''B1'')
                (pair_occurrences dup_sponsors ex_bills_df (''P1'', ''P2''))) = 0"
    by code_simp
  note t = duplicate_cosponsor_rows [OF set_iteration_insertion_order b p, of "''P2''"]
  from t obtain cs where
    r: "process_collaborations insertion_order dup_sponsors ex_bills_df = Inr cs" and
    s: "count_of (collaboration_counts dup_sponsors ex_bills_df) (sorted_pair ''P1'' ''P2'') =
      count_list dup_sponsors (mk_sponsor ''B1'' ''P2'' ''Cosponsor'') +
      length (filter (\<lambda>r. sr_bill_number r \<noteq> ''B1'')
                (pair_occurrences dup_sponsors ex_bills_df (sorted_pair ''P1'' ''P2'')))" and
    e: "length (filter (\<lambda>x. (source x, target x) = sorted_pair ''P1'' ''P2'' \<and> c_bill_number x = ''B1'') cs) =
      (if 2 \<le> count_of (collaboration_counts dup_sponsors ex_bills_df) (sorted_pair ''P1'' ''P2'')
       then count_list dup_sponsors (mk_sponsor ''B1'' ''P2'' ''Cosponsor'') else 0)"
    by (elim exE conjE) (rule that, assumption+)
  from s have n: "count_of (collaboration_counts dup_sponsors ex_bills_df) (''P1'', ''P2'') = 3"
    unfolding sp k o by simp
  from e have l: "length (filter (\<lambda>x. (source x, target x) = (''P1'', ''P2'') \<and> c_bill_number x = ''B1'') cs) = 3"
    unfolding sp n k by simp
  have ex: "\<exists>cs. process_collaborations insertion_order dup_sponsors ex_bills_df = Inr cs \<and>
      count_of (collaboration_counts dup_sponsors ex_bills_df) (''P1'', ''P2'') = 3 \<and>
      length (filter (\<lambda>x. (source x, target x) = (''P1'', ''P2'') \<and> c_bill_number x = ''B1'') cs) = 3"
    by (intro exI [of _ cs] conjI r n l)
  show ?thesis
    by (intro conjI set_iteration_insertion_order b p k dup_run_records ex)
qed

subsection \<open>Loading and joining\<close>

lemma merge_policies_append:
  "merge_policies (xs @ ys) pols = merge_policies xs pols @ merge_policies ys pols"
  by (simp add: merge_policies_def)

lemma merge_policies_links_one:
  "merge_policies
     (let ls = filter (\<lambda>l. pl_bill_number l = rb_bill_number b) links
      in if ls = [] then [(b, None)] else map (\<lambda>l. (b, Some (pl_policy_id l))) ls) pols =
   map (\<lambda>(pid, pn). joined_row b pid pn) (policy_columns links pols (rb_bill_number b))"
  by (simp add: merge_policies_def policy_columns_def Let_def map_concat comp_def if_distrib
        cong: if_cong)

lemma merge_joined:
  "merge_policies (merge_policy_links bs links) pols =
     concat (map (\<lambda>b. map (\<lambda>(pid, pn). joined_row b pid pn)
                         (policy_columns links pols (rb_bill_number b))) bs)"
proof (induction bs)
  case Nil
  show ?case by (simp add: merge_policies_def merge_policy_links_def)
next
  case (Cons b bs)
  have "merge_policy_links (b # bs) links =
        (let ls = filter (\<lambda>l. pl_bill_number l = rb_bill_number b) links
         in if ls = [] then [(b, None)] else map (\<lambda>l. (b, Some (pl_policy_id l))) ls) @
        merge_policy_links bs links"
    by (simp add: merge_policy_links_def)
  then show ?case
    by (simp only: merge_policies_append merge_policies_links_one Cons.IH list.map concat.simps)
qed

lemma concat_map_not_Nil:
  "ls \<noteq> [] \<Longrightarrow> (\<And>l. f l \<noteq> []) \<Longrightarrow> concat (map f ls) \<noteq> []"
  by (cases ls) auto

lemma policy_columns_not_Nil: "policy_columns links pols bn \<noteq> []"
  unfolding policy_columns_def Let_def
  by (simp del: concat_eq_Nil_conv add: concat_map_not_Nil)

lemma reorders_set: "reorders sort_values \<Longrightarrow> set (sort_values rows) = set rows"
  unfolding reorders_def by (metis set_mset_mset)

lemma fst_load:
  "fst (load_and_clean_data clean_date sort_values bills legs pols links target_congress) =
     concat (map (\<lambda>b. map (\<lambda>(pid, pn). joined_row b pid pn)
                         (policy_columns links pols (rb_bill_number b)))
               (sort_values (map (parse_date clean_date)
                  (filter (\<lambda>b. target_congress \<le> rb_congress b) bills))))"
  by (simp add: load_and_clean_data_def Let_def merge_joined)

lemma snd_load:
  "snd (load_and_clean_data clean_date sort_values bills legs pols links target_congress) =
     map clean_legislator legs"
  by (simp add: load_and_clean_data_def Let_def)

lemma parse_date_fields:
  "rb_bill_number (parse_date clean_date b) = rb_bill_number b"
  "rb_congress (parse_date clean_date b) = rb_congress b"
  "rb_title (parse_date clean_date b) = rb_title b"
  "rb_latest_action_text (parse_date clean_date b) = rb_latest_action_text b"
  "rb_origin_chamber (parse_date clean_date b) = rb_origin_chamber b"
  by (simp_all add: parse_date_def)

lemma joined_row_fields:
  "br_bill_number (joined_row b pid pn) = rb_bill_number b"
  "br_congress (joined_row b pid pn) = rb_congress b"
  "br_latest_action_date (joined_row b pid pn) = rb_latest_action_date b"
  "br_policy_id (joined_row b pid pn) = pid"
  "br_policy_name (joined_row b pid pn) = pn"
  by (simp_all add: joined_row_def)

lemma in_loaded:
  assumes "reorders sort_values"
  shows "row \<in> set (fst (load_and_clean_data clean_date sort_values bills legs pols links target_congress))
     \<longleftrightarrow> (\<exists>b pid pn. b \<in> set bills \<and> target_congress \<le> rb_congress b \<and>
            (pid, pn) \<in> set (policy_columns links pols (rb_bill_number b)) \<and>
            row = joined_row (parse_date clean_date b) pid pn)"
  unfolding fst_load using reorders_set [OF assms]
  by (auto simp: parse_date_fields)

subsection \<open>The assembled snapshot\<close>

lemma prepare_Inr:
  assumes "prepare_network_data clean_date sort_values set_iter bills_csv legislators_csv
             bill_sponsors_df bill_policies_df bill_policy_links_df target_congress = Inr snap"
  shows "\<exists>cs ds de.
     process_collaborations set_iter bill_sponsors_df
       (fst (load_and_clean_data clean_date sort_values bills_csv legislators_csv bill_policies_df
               bill_policy_links_df target_congress)) = Inr cs \<and>
     s_collaborations snap = cs \<and>
     s_legislators snap =
       map (add_metrics (calculate_sponsor_stats
                           (filter (\<lambda>leg. leg_id leg \<in> active_legislators cs)
                              (create_legislator_nodes (map clean_legislator legislators_csv))) cs))
         (filter (\<lambda>leg. leg_id leg \<in> active_legislators cs)
            (create_legislator_nodes (map clean_legislator legislators_csv))) \<and>
     s_bills snap =
       process_bills (fst (load_and_clean_data clean_date sort_values bills_csv legislators_csv
                             bill_policies_df bill_policy_links_df target_congress)) \<and>
     py_min date_lt (map b_latest_action_date (s_bills snap)) = Inr ds \<and>
     py_max date_lt (map b_latest_action_date (s_bills snap)) = Inr de \<and>
     md_date_range (s_metadata snap) = (ds, de) \<and>
     md_policies_counts (s_metadata snap) = policy_counts (s_bills snap)"
proof -
  have ld: "load_and_clean_data clean_date sort_values bills_csv legislators_csv bill_policies_df
              bill_policy_links_df target_congress =
            (fst (load_and_clean_data clean_date sort_values bills_csv legislators_csv
                    bill_policies_df bill_policy_links_df target_congress),
             map clean_legislator legislators_csv)"
    by (simp add: prod_eq_iff snd_load)
  show ?thesis
    using assms
    unfolding prepare_network_data_def Let_def
    by (subst (asm) ld) (auto split: sum.splits)
qed

lemma prepare_InrE:
  assumes "prepare_network_data clean_date sort_values set_iter bills_csv legislators_csv
             bill_sponsors_df bill_policies_df bill_policy_links_df target_congress = Inr snap"
  obtains cs ds de where
    "process_collaborations set_iter bill_sponsors_df
       (fst (load_and_clean_data clean_date sort_values bills_csv legislators_csv bill_policies_df
               bill_policy_links_df target_congress)) = Inr cs"
    "s_collaborations snap = cs"
    "s_legislators snap =
       map (add_metrics (calculate_sponsor_stats
                           (filter (\<lambda>leg. leg_id leg \<in> active_legislators cs)
                              (create_legislator_nodes (map clean_legislator legislators_csv))) cs))
         (filter (\<lambda>leg. leg_id leg \<in> active_legislators cs)
            (create_legislator_nodes (map clean_legislator legislators_csv)))"
    "s_bills snap =
       process_bills (fst (load_and_clean_data clean_date sort_values bills_csv legislators_csv
                             bill_policies_df bill_policy_links_df target_congress))"
    "py_min date_lt (map b_latest_action_date (s_bills snap)) = Inr ds"
    "py_max date_lt (map b_latest_action_date (s_bills snap)) = Inr de"
    "md_date_range (s_metadata snap) = (ds, de)"
    "md_policies_counts (s_metadata snap) = policy_counts (s_bills snap)"
  using prepare_Inr [OF assms] by (elim exE conjE) (rule that)

lemma add_metrics_fields:
  "leg_id (add_metrics stats l) = leg_id l"
  "leg_party (add_metrics stats l) = leg_party l"
  "leg_district (add_metrics stats l) = leg_district l"
  by (simp_all add: add_metrics_def split: option.splits)

lemma map_leg_id_nodes:
  "map leg_id (create_legislator_nodes (map clean_legislator legs)) = map rl_bioguide_id legs"
  by (simp add: create_legislator_nodes_def clean_legislator_def comp_def)

lemma active_legislators_eq:
  "active_legislators cs = source ` set cs \<union> target ` set cs"
  by (auto simp: active_legislators_def)

lemma map_sum_Inr: "map_sum f g x = Inr y \<Longrightarrow> \<exists>s. x = Inr s \<and> g s = y"
  by (cases x) auto

lemma map_leg_id_add_metrics: "map leg_id (map (add_metrics stats) ls) = map leg_id ls"
  by (simp add: add_metrics_fields comp_def)

lemma map_filter_leg_id:
  "map leg_id (filter (\<lambda>leg. leg_id leg \<in> A) ls) = filter (\<lambda>i. i \<in> A) (map leg_id ls)"
  by (simp add: filter_map comp_def)

lemma snapshot_legislator_ids:
  assumes "prepare_network_data clean_date sort_values set_iter bills_csv legislators_csv
             bill_sponsors_df bill_policies_df bill_policy_links_df target_congress = Inr snap"
  shows "legislator_ids snap =
           filter (\<lambda>i. i \<in> active_legislators (s_collaborations snap))
             (map rl_bioguide_id legislators_csv)"
proof -
  from assms obtain cs where
    cs: "s_collaborations snap = cs" and
    l: "s_legislators snap =
       map (add_metrics (calculate_sponsor_stats
                           (filter (\<lambda>leg. leg_id leg \<in> active_legislators cs)
                              (create_legislator_nodes (map clean_legislator legislators_csv))) cs))
         (filter (\<lambda>leg. leg_id leg \<in> active_legislators cs)
            (create_legislator_nodes (map clean_legislator legislators_csv)))"
    by (rule prepare_InrE)
  show ?thesis
    unfolding legislator_ids_def l map_leg_id_add_metrics map_filter_leg_id map_leg_id_nodes cs ..
qed

lemma set_filter_mem: "set (filter (\<lambda>i. i \<in> A) xs) = A \<inter> set xs"
  by auto

lemma in_endpoints:
  "x \<in> source ` set cs \<union> target ` set cs \<Longrightarrow> \<exists>c \<in> set cs. x = source c \<or> x = target c"
  by auto


text \<open>
  C3, as the code has it. The legislator list of the snapshot is the legislator table, in
  table order, restricted to the ids that are source or target of a Collaboration record.
  So every listed legislator appears in a record, and an id of a record is listed exactly
  when the legislator table has a row for it.
\<close>

theorem active_set_consistency:
  assumes "prepare_network_data clean_date sort_values set_iter bills_csv legislators_csv
             bill_sponsors_df bill_policies_df bill_policy_links_df target_congress = Inr snap"
  shows "legislator_ids snap =
           filter (\<lambda>i. i \<in> source ` set (s_collaborations snap) \<union> target ` set (s_collaborations snap))
             (map rl_bioguide_id legislators_csv) \<and>
    (\<forall>leg \<in> set (s_legislators snap).
        \<exists>c \<in> set (s_collaborations snap). leg_id leg = source c \<or> leg_id leg = target c) \<and>
    (\<forall>c \<in> set (s_collaborations snap).
        (source c \<in> leg_id ` set (s_legislators snap) \<longleftrightarrow>
           source c \<in> rl_bioguide_id ` set legislators_csv) \<and>
        (target c \<in> leg_id ` set (s_legislators snap) \<longleftrightarrow>
           target c \<in> rl_bioguide_id ` set legislators_csv))"
proof -
  let ?act = "source ` set (s_collaborations snap) \<union> target ` set (s_collaborations snap)"
  have ids: "legislator_ids snap = filter (\<lambda>i. i \<in> ?act) (map rl_bioguide_id legislators_csv)"
    using snapshot_legislator_ids [OF assms] unfolding active_legislators_eq .
  have "leg_id ` set (s_legislators snap) = set (legislator_ids snap)"
    by (simp add: legislator_ids_def)
  also have "\<dots> = ?act \<inter> rl_bioguide_id ` set legislators_csv"
    unfolding ids set_filter_mem by simp
  finally have set_ids:
    "leg_id ` set (s_legislators snap) = ?act \<inter> rl_bioguide_id ` set legislators_csv" .
  have a: "\<forall>leg \<in> set (s_legislators snap).
        \<exists>c \<in> set (s_collaborations snap). leg_id leg = source c \<or> leg_id leg = target c"
  proof
    fix leg assume "leg \<in> set (s_legislators snap)"
    then have "leg_id leg \<in> leg_id ` set (s_legislators snap)" by (rule imageI)
    then have "leg_id leg \<in> ?act" unfolding set_ids by (rule IntD1)
    then show "\<exists>c \<in> set (s_collaborations snap). leg_id leg = source c \<or> leg_id leg = target c"
      by (rule in_endpoints)
  qed
  have b: "\<forall>c \<in> set (s_collaborations snap).
        (source c \<in> leg_id ` set (s_legislators snap) \<longleftrightarrow>
           source c \<in> rl_bioguide_id ` set legislators_csv) \<and>
        (target c \<in> leg_id ` set (s_legislators snap) \<longleftrightarrow>
           target c \<in> rl_bioguide_id ` set legislators_csv)"
  proof
    fix c assume "c \<in> set (s_collaborations snap)"
    then have "source c \<in> ?act" "target c \<in> ?act" by simp_all
    then show "(source c \<in> leg_id ` set (s_legislators snap) \<longleftrightarrow>
           source c \<in> rl_bioguide_id ` set legislators_csv) \<and>
        (target c \<in> leg_id ` set (s_legislators snap) \<longleftrightarrow>
           target c \<in> rl_bioguide_id ` set legislators_csv)"
      unfolding set_ids by simp
  qed
  show ?thesis by (intro conjI ids a b)
qed


lemma ex_run_ids:
  "map_sum id legislator_ids
     (prepare_network_data iso_date keep_order insertion_order ex_bills ex_legislators ex_sponsors
        ex_policies ex_links 117) = Inr [''P1'', ''P2'']"
  by code_simp

lemma ex_run_collaboration_pairs:
  "map_sum id collaboration_pairs
     (prepare_network_data iso_date keep_order insertion_order ex_bills ex_legislators ex_sponsors
        ex_policies ex_links 117) = Inr [(''P1'', ''P2''), (''P1'', ''P2'')]"
  by code_simp

theorem active_set_consistency_witness:
  "\<exists>snap. prepare_network_data iso_date keep_order insertion_order ex_bills ex_legislators
             ex_sponsors ex_policies ex_links 117 = Inr snap \<and>
     legislator_ids snap = [''P1'', ''P2''] \<and>
     collaboration_pairs snap = [(''P1'', ''P2''), (''P1'', ''P2'')] \<and>
     map rl_bioguide_id ex_legislators = [''P1'', ''P2'', ''P3''] \<and>
     (\<forall>leg \<in> set (s_legislators snap).
        \<exists>c \<in> set (s_collaborations snap). leg_id leg = source c \<or> leg_id leg = target c) \<and>
     (\<forall>c \<in> set (s_collaborations snap).
        (source c \<in> leg_id ` set (s_legislators snap) \<longleftrightarrow>
           source c \<in> rl_bioguide_id ` set ex_legislators) \<and>
        (target c \<in> leg_id ` set (s_legislators snap) \<longleftrightarrow>
           target c \<in> rl_bioguide_id ` set ex_legislators))"
proof -
  from map_sum_Inr [OF ex_run_ids] obtain snap where
    r: "prepare_network_data iso_date keep_order insertion_order ex_bills ex_legislators
             ex_sponsors ex_policies ex_links 117 = Inr snap" and
    i: "legislator_ids snap = [''P1'', ''P2'']"
    by (elim exE conjE) (rule that)
  from ex_run_collaboration_pairs
  have ps: "collaboration_pairs snap = [(''P1'', ''P2''), (''P1'', ''P2'')]"
    unfolding r by simp
  have tab: "map rl_bioguide_id ex_legislators = [''P1'', ''P2'', ''P3'']"
    by code_simp
  note t = active_set_consistency [OF r]
  have a: "\<forall>leg \<in> set (s_legislators snap).
        \<exists>c \<in> set (s_collaborations snap). leg_id leg = source c \<or> leg_id leg = target c"
    using t by (rule conjunct1 [OF conjunct2])
  have b: "\<forall>c \<in> set (s_collaborations snap).
        (source c \<in> leg_id ` set (s_legislators snap) \<longleftrightarrow>
           source c \<in> rl_bioguide_id ` set ex_legislators) \<and>
        (target c \<in> leg_id ` set (s_legislators snap) \<longleftrightarrow>
           target c \<in> rl_bioguide_id ` set ex_legislators)"
    using t by (rule conjunct2 [OF conjunct2])
  show ?thesis
    by (intro exI [of _ snap] conjI r i ps tab a b)
qed

text \<open>
  C3 as stated fails: when the legislator table has no row for P2, the records still have
  P2 as target, and the legislator list is P1 alone.
\<close>

theorem active_set_counterexample:
  "map_sum id collaboration_pairs
     (prepare_network_data iso_date keep_order insertion_order ex_bills ex_legislators_without_P2
        ex_sponsors ex_policies ex_links 117) = Inr [(''P1'', ''P2''), (''P1'', ''P2'')] \<and>
   map_sum id legislator_ids
     (prepare_network_data iso_date keep_order insertion_order ex_bills ex_legislators_without_P2
        ex_sponsors ex_policies ex_links 117) = Inr [''P1'']"
proof -
  have "map_sum id collaboration_pairs
     (prepare_network_data iso_date keep_order insertion_order ex_bills ex_legislators_without_P2
        ex_sponsors ex_policies ex_links 117) = Inr [(''P1'', ''P2''), (''P1'', ''P2'')]"
    by code_simp
  moreover have "map_sum id legislator_ids
     (prepare_network_data iso_date keep_order insertion_order ex_bills ex_legislators_without_P2
        ex_sponsors ex_policies ex_links 117) = Inr [''P1'']"
    by code_simp
  ultimately show ?thesis by (rule conjI)
qed

subsection \<open>Legislator nodes\<close>

lemma map_leg_district_nodes:
  "map leg_district (create_legislator_nodes (map clean_legislator legs)) =
     map (\<lambda>x. if rl_district x = None \<or> rl_district x = Some (- 1) then None else rl_district x)
       legs"
  by (auto simp: create_legislator_nodes_def clean_legislator_def split: option.splits)

lemma in_nodes:
  assumes "n \<in> set (create_legislator_nodes (map clean_legislator legs))"
  shows "\<exists>x \<in> set legs. leg_id n = rl_bioguide_id x \<and>
           leg_party n = (case rl_party x of None \<Rightarrow> ''O'' | Some p \<Rightarrow> p) \<and>
           leg_district n =
             (if rl_district x = None \<or> rl_district x = Some (- 1) then None else rl_district x)"
  using assms
  by (auto simp: create_legislator_nodes_def clean_legislator_def split: option.splits)

lemma in_snapshot_legislators:
  assumes "prepare_network_data clean_date sort_values set_iter bills_csv legislators_csv
             bill_sponsors_df bill_policies_df bill_policy_links_df target_congress = Inr snap"
    and "leg \<in> set (s_legislators snap)"
  shows "\<exists>n \<in> set (create_legislator_nodes (map clean_legislator legislators_csv)).
           leg_id leg = leg_id n \<and> leg_party leg = leg_party n \<and>
           leg_district leg = leg_district n"
proof -
  from assms(1) obtain cs where
    l: "s_legislators snap =
       map (add_metrics (calculate_sponsor_stats
                           (filter (\<lambda>leg. leg_id leg \<in> active_legislators cs)
                              (create_legislator_nodes (map clean_legislator legislators_csv))) cs))
         (filter (\<lambda>leg. leg_id leg \<in> active_legislators cs)
            (create_legislator_nodes (map clean_legislator legislators_csv)))"
    by (rule prepare_InrE)
  from assms(2) obtain n where
    n: "n \<in> set (create_legislator_nodes (map clean_legislator legislators_csv))" and
    leg: "leg = add_metrics (calculate_sponsor_stats
                           (filter (\<lambda>leg. leg_id leg \<in> active_legislators cs)
                              (create_legislator_nodes (map clean_legislator legislators_csv))) cs) n"
    unfolding l by auto
  show ?thesis
    by (rule bexI [OF _ n]) (simp add: leg add_metrics_fields)
qed

text \<open>
  C7, as the code has it. A legislator row whose raw district is missing or -1 is projected
  with district null; every other raw district is projected as that same integer, whatever
  its sign. So -1 is never the district of a projected record, in the node list and in the
  snapshot alike.
\<close>

theorem district_sentinel_mapping:
  "map leg_district (create_legislator_nodes (map clean_legislator legislators_csv)) =
     map (\<lambda>x. if rl_district x = None \<or> rl_district x = Some (- 1) then None else rl_district x)
       legislators_csv \<and>
   Some (- 1) \<notin> leg_district ` set (create_legislator_nodes (map clean_legislator legislators_csv)) \<and>
   (prepare_network_data clean_date sort_values set_iter bills_csv legislators_csv
      bill_sponsors_df bill_policies_df bill_policy_links_df target_congress = Inr snap \<longrightarrow>
    (\<forall>leg \<in> set (s_legislators snap).
       leg_district leg \<noteq> Some (- 1) \<and>
       (\<exists>x \<in> set legislators_csv. rl_bioguide_id x = leg_id leg \<and>
          leg_district leg =
            (if rl_district x = None \<or> rl_district x = Some (- 1) then None else rl_district x))))"
proof (intro conjI impI ballI)
  show "map leg_district (create_legislator_nodes (map clean_legislator legislators_csv)) =
     map (\<lambda>x. if rl_district x = None \<or> rl_district x = Some (- 1) then None else rl_district x)
       legislators_csv"
    by (rule map_leg_district_nodes)
next
  have "leg_district ` set (create_legislator_nodes (map clean_legislator legislators_csv)) =
        set (map leg_district (create_legislator_nodes (map clean_legislator legislators_csv)))"
    by simp
  then show "Some (- 1) \<notin> leg_district ` set (create_legislator_nodes (map clean_legislator legislators_csv))"
    unfolding map_leg_district_nodes by auto
next
  fix leg
  assume r: "prepare_network_data clean_date sort_values set_iter bills_csv legislators_csv
      bill_sponsors_df bill_policies_df bill_policy_links_df target_congress = Inr snap"
    and leg: "leg \<in> set (s_legislators snap)"
  from in_snapshot_legislators [OF r leg] obtain n where
    n: "n \<in> set (create_legislator_nodes (map clean_legislator legislators_csv))"
    and e: "leg_id leg = leg_id n" "leg_district leg = leg_district n"
    by blast
  from in_nodes [OF n] obtain x where
    x: "x \<in> set legislators_csv" "leg_id n = rl_bioguide_id x"
      "leg_district n =
         (if rl_district x = None \<or> rl_district x = Some (- 1) then None else rl_district x)"
    by blast
  from x e have d: "leg_district leg =
         (if rl_district x = None \<or> rl_district x = Some (- 1) then None else rl_district x)"
    by simp
  then show "leg_district leg \<noteq> Some (- 1)" by (auto split: if_splits)
  from x e d show "\<exists>x \<in> set legislators_csv. rl_bioguide_id x = leg_id leg \<and>
          leg_district leg =
            (if rl_district x = None \<or> rl_district x = Some (- 1) then None else rl_district x)"
    by auto
qed

lemma ex_run_districts:
  "map_sum id (\<lambda>snap. map (\<lambda>leg. (leg_id leg, leg_district leg)) (s_legislators snap))
     (prepare_network_data iso_date keep_order insertion_order ex_bills ex_legislators ex_sponsors
        ex_policies ex_links 117) = Inr [(''P1'', Some 5), (''P2'', None)]"
  by code_simp

theorem district_sentinel_mapping_witness:
  "map rl_district district_legislators = [Some (- 1), None, Some 7, Some 0] \<and>
   map leg_district (create_legislator_nodes (map clean_legislator district_legislators)) =
     [None, None, Some 7, Some 0] \<and>
   (\<exists>snap. prepare_network_data iso_date keep_order insertion_order ex_bills ex_legislators
             ex_sponsors ex_policies ex_links 117 = Inr snap \<and>
      map (\<lambda>leg. (leg_id leg, leg_district leg)) (s_legislators snap) =
        [(''P1'', Some 5), (''P2'', None)] \<and>
      (\<forall>leg \<in> set (s_legislators snap). leg_district leg \<noteq> Some (- 1)))"
proof -
  have raw: "map rl_district district_legislators = [Some (- 1), None, Some 7, Some 0]"
    by code_simp
  have "map (\<lambda>x. if rl_district x = None \<or> rl_district x = Some (- 1) then None else rl_district x)
          district_legislators = [None, None, Some 7, Some 0]"
    by code_simp
  with district_sentinel_mapping [of district_legislators]
  have nodes: "map leg_district (create_legislator_nodes (map clean_legislator district_legislators)) =
     [None, None, Some 7, Some 0]"
    by simp
  from map_sum_Inr [OF ex_run_districts] obtain snap where
    r: "prepare_network_data iso_date keep_order insertion_order ex_bills ex_legislators
             ex_sponsors ex_policies ex_links 117 = Inr snap" and
    i: "map (\<lambda>leg. (leg_id leg, leg_district leg)) (s_legislators snap) =
        [(''P1'', Some 5), (''P2'', None)]"
    by (elim exE conjE) (rule that)
  from district_sentinel_mapping [of ex_legislators iso_date keep_order insertion_order ex_bills
      ex_sponsors ex_policies ex_links 117 snap] r
  have "\<forall>leg \<in> set (s_legislators snap). leg_district leg \<noteq> Some (- 1)"
    by blast
  with r i have "\<exists>snap. prepare_network_data iso_date keep_order insertion_order ex_bills ex_legislators
             ex_sponsors ex_policies ex_links 117 = Inr snap \<and>
      map (\<lambda>leg. (leg_id leg, leg_district leg)) (s_legislators snap) =
        [(''P1'', Some 5), (''P2'', None)] \<and>
      (\<forall>leg \<in> set (s_legislators snap). leg_district leg \<noteq> Some (- 1))"
    by (intro exI [of _ snap] conjI)
  with raw nodes show ?thesis by (intro conjI)
qed

text \<open>
  C7 as stated fails: the raw district 0 is neither -1 nor missing, and its projected
  district is 0, which is no positive integer.
\<close>

theorem district_counterexample:
  "map rl_district district_legislators = [Some (- 1), None, Some 7, Some 0] \<and>
   map leg_district (create_legislator_nodes (map clean_legislator district_legislators)) =
     [None, None, Some 7, Some 0]"
proof -
  have "map rl_district district_legislators = [Some (- 1), None, Some 7, Some 0]"
    by code_simp
  moreover have "map leg_district (create_legislator_nodes (map clean_legislator district_legislators)) =
     [None, None, Some 7, Some 0]"
    by code_simp
  ultimately show ?thesis by (rule conjI)
qed

subsection \<open>Run parameters\<close>

lemma reorders_keep_order: "reorders keep_order"
  by (simp add: reorders_def keep_order_def)

lemma in_process_bills:
  "pb \<in> set (process_bills bills_df) \<longleftrightarrow>
     (\<exists>row \<in> set bills_df.
        pb = \<lparr> b_bill_number = br_bill_number row, b_congress = br_congress row,
               b_title = br_title row, b_latest_action_date = br_latest_action_date row,
               b_latest_action_text = br_latest_action_text row,
               b_origin_chamber = br_origin_chamber row,
               b_policy_id = br_policy_id row,
               b_policy_name = (case br_policy_name row of None \<Rightarrow> ''Uncategorized'' | Some n \<Rightarrow> n) \<rparr>)"
  by (auto simp: process_bills_def)

lemma in_snapshot_bills:
  assumes "reorders sort_values"
    and "prepare_network_data clean_date sort_values set_iter bills_csv legislators_csv
             bill_sponsors_df bill_policies_df bill_policy_links_df target_congress = Inr snap"
  shows "pb \<in> set (s_bills snap) \<longleftrightarrow>
     (\<exists>b pid pn. b \<in> set bills_csv \<and> target_congress \<le> rb_congress b \<and>
        (pid, pn) \<in> set (policy_columns bill_policy_links_df bill_policies_df (rb_bill_number b)) \<and>
        pb = \<lparr> b_bill_number = rb_bill_number b, b_congress = rb_congress b,
               b_title = rb_title b,
               b_latest_action_date =
                 (case rb_latest_action_date b of None \<Rightarrow> None | Some d \<Rightarrow> clean_date d),
               b_latest_action_text = rb_latest_action_text b,
               b_origin_chamber = rb_origin_chamber b,
               b_policy_id = pid,
               b_policy_name = (case pn of None \<Rightarrow> ''Uncategorized'' | Some n \<Rightarrow> n) \<rparr>)"
proof -
  from assms(2) have sb: "s_bills snap =
       process_bills (fst (load_and_clean_data clean_date sort_values bills_csv legislators_csv
                             bill_policies_df bill_policy_links_df target_congress))"
    by (rule prepare_InrE)
  let ?bdf = "fst (load_and_clean_data clean_date sort_values bills_csv legislators_csv
                     bill_policies_df bill_policy_links_df target_congress)"
  let ?proj = "\<lambda>row. \<lparr> b_bill_number = br_bill_number row, b_congress = br_congress row,
               b_title = br_title row, b_latest_action_date = br_latest_action_date row,
               b_latest_action_text = br_latest_action_text row,
               b_origin_chamber = br_origin_chamber row,
               b_policy_id = br_policy_id row,
               b_policy_name = (case br_policy_name row of None \<Rightarrow> ''Uncategorized'' | Some n \<Rightarrow> n) \<rparr>"
  have proj: "?proj (joined_row (parse_date clean_date b) pid pn) =
        \<lparr> b_bill_number = rb_bill_number b, b_congress = rb_congress b,
               b_title = rb_title b,
               b_latest_action_date =
                 (case rb_latest_action_date b of None \<Rightarrow> None | Some d \<Rightarrow> clean_date d),
               b_latest_action_text = rb_latest_action_text b,
               b_origin_chamber = rb_origin_chamber b,
               b_policy_id = pid,
               b_policy_name = (case pn of None \<Rightarrow> ''Uncategorized'' | Some n \<Rightarrow> n) \<rparr>"
    for b pid pn
    by (simp add: joined_row_def parse_date_def)
  show ?thesis
  proof
    assume "pb \<in> set (s_bills snap)"
    then obtain row where row: "row \<in> set ?bdf" and pb: "pb = ?proj row"
      unfolding sb in_process_bills by (elim bexE)
    from row obtain b pid pn where
      b: "b \<in> set bills_csv" "target_congress \<le> rb_congress b"
        "(pid, pn) \<in> set (policy_columns bill_policy_links_df bill_policies_df (rb_bill_number b))"
      and j: "row = joined_row (parse_date clean_date b) pid pn"
      unfolding in_loaded [OF assms(1)] by (elim exE conjE)
    from pb have "pb = ?proj (joined_row (parse_date clean_date b) pid pn)" unfolding j .
    then have "pb = \<lparr> b_bill_number = rb_bill_number b, b_congress = rb_congress b,
               b_title = rb_title b,
               b_latest_action_date =
                 (case rb_latest_action_date b of None \<Rightarrow> None | Some d \<Rightarrow> clean_date d),
               b_latest_action_text = rb_latest_action_text b,
               b_origin_chamber = rb_origin_chamber b,
               b_policy_id = pid,
               b_policy_name = (case pn of None \<Rightarrow> ''Uncategorized'' | Some n \<Rightarrow> n) \<rparr>"
      unfolding proj .
    with b show "\<exists>b pid pn. b \<in> set bills_csv \<and> target_congress \<le> rb_congress b \<and>
        (pid, pn) \<in> set (policy_columns bill_policy_links_df bill_policies_df (rb_bill_number b)) \<and>
        pb = \<lparr> b_bill_number = rb_bill_number b, b_congress = rb_congress b,
               b_title = rb_title b,
               b_latest_action_date =
                 (case rb_latest_action_date b of None \<Rightarrow> None | Some d \<Rightarrow> clean_date d),
               b_latest_action_text = rb_latest_action_text b,
               b_origin_chamber = rb_origin_chamber b,
               b_policy_id = pid,
               b_policy_name = (case pn of None \<Rightarrow> ''Uncategorized'' | Some n \<Rightarrow> n) \<rparr>"
      by (intro exI conjI)
  next
    assume "\<exists>b pid pn. b \<in> set bills_csv \<and> target_congress \<le> rb_congress b \<and>
        (pid, pn) \<in> set (policy_columns bill_policy_links_df bill_policies_df (rb_bill_number b)) \<and>
        pb = \<lparr> b_bill_number = rb_bill_number b, b_congress = rb_congress b,
               b_title = rb_title b,
               b_latest_action_date =
                 (case rb_latest_action_date b of None \<Rightarrow> None | Some d \<Rightarrow> clean_date d),
               b_latest_action_text = rb_latest_action_text b,
               b_origin_chamber = rb_origin_chamber b,
               b_policy_id = pid,
               b_policy_name = (case pn of None \<Rightarrow> ''Uncategorized'' | Some n \<Rightarrow> n) \<rparr>"
    then obtain b pid pn where
      b: "b \<in> set bills_csv" "target_congress \<le> rb_congress b"
        "(pid, pn) \<in> set (policy_columns bill_policy_links_df bill_policies_df (rb_bill_number b))"
      and pb: "pb = \<lparr> b_bill_number = rb_bill_number b, b_congress = rb_congress b,
               b_title = rb_title b,
               b_latest_action_date =
                 (case rb_latest_action_date b of None \<Rightarrow> None | Some d \<Rightarrow> clean_date d),
               b_latest_action_text = rb_latest_action_text b,
               b_origin_chamber = rb_origin_chamber b,
               b_policy_id = pid,
               b_policy_name = (case pn of None \<Rightarrow> ''Uncategorized'' | Some n \<Rightarrow> n) \<rparr>"
      by (elim exE conjE)
    from b have "joined_row (parse_date clean_date b) pid pn \<in> set ?bdf"
      unfolding in_loaded [OF assms(1)] by blast
    moreover from pb have "pb = ?proj (joined_row (parse_date clean_date b) pid pn)"
      unfolding proj .
    ultimately show "pb \<in> set (s_bills snap)"
      unfolding sb in_process_bills by (rule rev_bexI)
  qed
qed











subsection \<open>Policies\<close>

lemma policy_columns_no_link:
  "\<forall>l \<in> set links. pl_bill_number l \<noteq> bn \<Longrightarrow> policy_columns links pols bn = [(None, None)]"
  by (simp add: policy_columns_def Let_def filter_empty_conv)

lemma in_policy_columns:
  "(pid, pn) \<in> set (policy_columns links pols bn) \<longleftrightarrow>
     ((\<forall>l \<in> set links. pl_bill_number l \<noteq> bn) \<and> pid = None \<and> pn = None) \<or>
     (\<exists>l \<in> set links. pl_bill_number l = bn \<and> pid = Some (pl_policy_id l) \<and>
        (((\<forall>p \<in> set pols. pr_policy_id p \<noteq> pl_policy_id l) \<and> pn = None) \<or>
         (\<exists>p \<in> set pols. pr_policy_id p = pl_policy_id l \<and> pn = pr_name p)))"
proof (cases "filter (\<lambda>l. pl_bill_number l = bn) links = []")
  case True
  then have no: "\<forall>l \<in> set links. pl_bill_number l \<noteq> bn" by (simp add: filter_empty_conv)
  then show ?thesis by (auto simp: policy_columns_no_link)
next
  case False
  then have some: "\<exists>l \<in> set links. pl_bill_number l = bn" by (auto simp: filter_empty_conv)
  have "(pid, pn) \<in> set (policy_columns links pols bn) \<longleftrightarrow>
     (\<exists>l \<in> set links. pl_bill_number l = bn \<and>
        (pid, pn) \<in> set (let ps = filter (\<lambda>p. pr_policy_id p = pl_policy_id l) pols
                 in if ps = [] then [(Some (pl_policy_id l), None)]
                    else map (\<lambda>p. (Some (pl_policy_id l), pr_name p)) ps))"
    using False by (auto simp: policy_columns_def Let_def)
  also have "\<dots> \<longleftrightarrow>
     (\<exists>l \<in> set links. pl_bill_number l = bn \<and> pid = Some (pl_policy_id l) \<and>
        (((\<forall>p \<in> set pols. pr_policy_id p \<noteq> pl_policy_id l) \<and> pn = None) \<or>
         (\<exists>p \<in> set pols. pr_policy_id p = pl_policy_id l \<and> pn = pr_name p)))"
    by (rule bex_cong [OF refl]) (auto simp: Let_def filter_empty_conv)
  finally show ?thesis using some by auto
qed

lemma count_of_policy_counts_gen:
  "count_of (foldl (\<lambda>counts bill.
              if b_policy_name bill \<noteq> ''Uncategorized'' then incr (b_policy_name bill) counts
              else counts) d bills) name =
   count_of d name +
   (if name = ''Uncategorized'' then 0 else length (filter (\<lambda>pb. b_policy_name pb = name) bills))"
  by (induction bills arbitrary: d) (auto simp: count_of_incr)

lemma count_of_policy_counts:
  "count_of (policy_counts bills) name =
     (if name = ''Uncategorized'' then 0 else length (filter (\<lambda>pb. b_policy_name pb = name) bills))"
  unfolding policy_counts_def count_of_policy_counts_gen by (simp add: count_of_Nil)

lemma keys_incr: "set (keys (incr k d)) = insert k (set (keys d))"
  by (auto simp: incr_def keys_dict_upd)

lemma keys_policy_counts_gen:
  "set (keys (foldl (\<lambda>counts bill.
              if b_policy_name bill \<noteq> ''Uncategorized'' then incr (b_policy_name bill) counts
              else counts) d bills)) =
   set (keys d) \<union> (b_policy_name ` set bills - {''Uncategorized''})"
  by (induction bills arbitrary: d) (auto simp: keys_incr)

lemma keys_policy_counts:
  "set (keys (policy_counts bills)) = b_policy_name ` set bills - {''Uncategorized''}"
  unfolding policy_counts_def keys_policy_counts_gen by (simp add: keys_Nil)


text \<open>
  C8 (policy default). In the snapshot of a run, every bill of the bill table with congress
  at least the target congress has a record (the left joins drop none). A qualifying bill
  without a policy link has a record with null policy id and policy name Uncategorized, and
  all its records are such. A qualifying bill with a link to a policy id for which the
  policy table has no name (no row, or only rows with an empty name) has a record with
  that policy id and the name Uncategorized, and all its records with that id are such.
  The policy histogram has no entry for Uncategorized; every other name is counted once
  per bill record carrying it.
\<close>

theorem policy_default:
  assumes "reorders sort_values"
    and "prepare_network_data clean_date sort_values set_iter bills_csv legislators_csv
           bill_sponsors_df bill_policies_df bill_policy_links_df target_congress = Inr snap"
  shows "(\<forall>b \<in> set bills_csv. target_congress \<le> rb_congress b \<longrightarrow>
            (\<exists>pb \<in> set (s_bills snap). b_bill_number pb = rb_bill_number b)) \<and>
    (\<forall>b \<in> set bills_csv.
        target_congress \<le> rb_congress b \<and>
        (\<forall>l \<in> set bill_policy_links_df. pl_bill_number l \<noteq> rb_bill_number b) \<longrightarrow>
        (\<exists>pb \<in> set (s_bills snap). b_bill_number pb = rb_bill_number b \<and>
            b_policy_id pb = None \<and> b_policy_name pb = ''Uncategorized'') \<and>
        (\<forall>pb \<in> set (s_bills snap). b_bill_number pb = rb_bill_number b \<longrightarrow>
            b_policy_id pb = None \<and> b_policy_name pb = ''Uncategorized'')) \<and>
    (\<forall>b \<in> set bills_csv. \<forall>l \<in> set bill_policy_links_df.
        target_congress \<le> rb_congress b \<and> pl_bill_number l = rb_bill_number b \<and>
        (\<forall>p \<in> set bill_policies_df. pr_policy_id p = pl_policy_id l \<longrightarrow> pr_name p = None) \<longrightarrow>
        (\<exists>pb \<in> set (s_bills snap). b_bill_number pb = rb_bill_number b \<and>
            b_policy_id pb = Some (pl_policy_id l) \<and> b_policy_name pb = ''Uncategorized'') \<and>
        (\<forall>pb \<in> set (s_bills snap).
            b_bill_number pb = rb_bill_number b \<and> b_policy_id pb = Some (pl_policy_id l) \<longrightarrow>
            b_policy_name pb = ''Uncategorized'')) \<and>
    ''Uncategorized'' \<notin> set (keys (snapshot_policy_counts snap)) \<and>
    (\<forall>name. count_of (snapshot_policy_counts snap) name =
        (if name = ''Uncategorized'' then 0
         else length (filter (\<lambda>pb. b_policy_name pb = name) (s_bills snap))))"
proof -
  note in_bills = in_snapshot_bills [OF assms]
  let ?rec = "\<lambda>b pid pn. \<lparr> b_bill_number = rb_bill_number b, b_congress = rb_congress b,
               b_title = rb_title b,
               b_latest_action_date =
                 (case rb_latest_action_date b of None \<Rightarrow> None | Some d \<Rightarrow> clean_date d),
               b_latest_action_text = rb_latest_action_text b,
               b_origin_chamber = rb_origin_chamber b,
               b_policy_id = pid,
               b_policy_name = (case pn of None \<Rightarrow> ''Uncategorized'' | Some n \<Rightarrow> n) \<rparr>"
  have intro_rec: "?rec b pid pn \<in> set (s_bills snap)"
    if "b \<in> set bills_csv" "target_congress \<le> rb_congress b"
      "(pid, pn) \<in> set (policy_columns bill_policy_links_df bill_policies_df (rb_bill_number b))"
    for b pid pn
    unfolding in_bills using that by blast
  have elim_rec: "\<exists>b pid pn. b \<in> set bills_csv \<and> target_congress \<le> rb_congress b \<and>
      (pid, pn) \<in> set (policy_columns bill_policy_links_df bill_policies_df (rb_bill_number b)) \<and>
      b_bill_number pb = rb_bill_number b \<and> b_policy_id pb = pid \<and>
      b_policy_name pb = (case pn of None \<Rightarrow> ''Uncategorized'' | Some n \<Rightarrow> n)"
    if "pb \<in> set (s_bills snap)" for pb
  proof -
    from that obtain b pid pn where
      "b \<in> set bills_csv" "target_congress \<le> rb_congress b"
      "(pid, pn) \<in> set (policy_columns bill_policy_links_df bill_policies_df (rb_bill_number b))"
      "pb = ?rec b pid pn"
      unfolding in_bills by (elim exE conjE)
    then show ?thesis by (intro exI [of _ b] exI [of _ pid] exI [of _ pn]) simp
  qed
  have kept: "\<forall>b \<in> set bills_csv. target_congress \<le> rb_congress b \<longrightarrow>
            (\<exists>pb \<in> set (s_bills snap). b_bill_number pb = rb_bill_number b)"
  proof (intro ballI impI)
    fix b assume b: "b \<in> set bills_csv" "target_congress \<le> rb_congress b"
    obtain pid pn where
      c: "(pid, pn) \<in> set (policy_columns bill_policy_links_df bill_policies_df (rb_bill_number b))"
      using policy_columns_not_Nil [of bill_policy_links_df bill_policies_df "rb_bill_number b"]
      by (cases "policy_columns bill_policy_links_df bill_policies_df (rb_bill_number b)") auto
    from intro_rec [OF b c]
    show "\<exists>pb \<in> set (s_bills snap). b_bill_number pb = rb_bill_number b"
      by (rule rev_bexI) simp
  qed
  have nolink: "\<forall>b \<in> set bills_csv.
        target_congress \<le> rb_congress b \<and>
        (\<forall>l \<in> set bill_policy_links_df. pl_bill_number l \<noteq> rb_bill_number b) \<longrightarrow>
        (\<exists>pb \<in> set (s_bills snap). b_bill_number pb = rb_bill_number b \<and>
            b_policy_id pb = None \<and> b_policy_name pb = ''Uncategorized'') \<and>
        (\<forall>pb \<in> set (s_bills snap). b_bill_number pb = rb_bill_number b \<longrightarrow>
            b_policy_id pb = None \<and> b_policy_name pb = ''Uncategorized'')"
  proof (intro ballI impI, elim conjE, intro conjI ballI impI)
    fix b assume b: "b \<in> set bills_csv" "target_congress \<le> rb_congress b"
      and no: "\<forall>l \<in> set bill_policy_links_df. pl_bill_number l \<noteq> rb_bill_number b"
    have cols: "policy_columns bill_policy_links_df bill_policies_df (rb_bill_number b) = [(None, None)]"
      using no by (rule policy_columns_no_link)
    have "(None, None) \<in> set (policy_columns bill_policy_links_df bill_policies_df (rb_bill_number b))"
      unfolding cols by simp
    from intro_rec [OF b this]
    show "\<exists>pb \<in> set (s_bills snap). b_bill_number pb = rb_bill_number b \<and>
            b_policy_id pb = None \<and> b_policy_name pb = ''Uncategorized''"
      by (rule rev_bexI) simp
    fix pb assume pb: "pb \<in> set (s_bills snap)" and nb: "b_bill_number pb = rb_bill_number b"
    from elim_rec [OF pb] obtain b' pid pn where
      "b' \<in> set bills_csv" "target_congress \<le> rb_congress b'" and
      c: "(pid, pn) \<in> set (policy_columns bill_policy_links_df bill_policies_df (rb_bill_number b'))"
      and e: "b_bill_number pb = rb_bill_number b'" "b_policy_id pb = pid"
        "b_policy_name pb = (case pn of None \<Rightarrow> ''Uncategorized'' | Some n \<Rightarrow> n)"
      by (elim exE conjE)
    from e nb have "rb_bill_number b' = rb_bill_number b" by simp
    with c have "(pid, pn) \<in> set [(None, None)]" unfolding cols [symmetric] by simp
    then have "pid = None" "pn = None" by simp_all
    with e show "b_policy_id pb = None" "b_policy_name pb = ''Uncategorized''" by simp_all
  qed
  have noname: "\<forall>b \<in> set bills_csv. \<forall>l \<in> set bill_policy_links_df.
        target_congress \<le> rb_congress b \<and> pl_bill_number l = rb_bill_number b \<and>
        (\<forall>p \<in> set bill_policies_df. pr_policy_id p = pl_policy_id l \<longrightarrow> pr_name p = None) \<longrightarrow>
        (\<exists>pb \<in> set (s_bills snap). b_bill_number pb = rb_bill_number b \<and>
            b_policy_id pb = Some (pl_policy_id l) \<and> b_policy_name pb = ''Uncategorized'') \<and>
        (\<forall>pb \<in> set (s_bills snap).
            b_bill_number pb = rb_bill_number b \<and> b_policy_id pb = Some (pl_policy_id l) \<longrightarrow>
            b_policy_name pb = ''Uncategorized'')"
  proof (intro ballI impI, elim conjE, intro conjI ballI impI)
    fix b l assume b: "b \<in> set bills_csv" "target_congress \<le> rb_congress b"
      and l: "l \<in> set bill_policy_links_df" "pl_bill_number l = rb_bill_number b"
      and nn: "\<forall>p \<in> set bill_policies_df. pr_policy_id p = pl_policy_id l \<longrightarrow> pr_name p = None"
    have "(Some (pl_policy_id l), None) \<in>
            set (policy_columns bill_policy_links_df bill_policies_df (rb_bill_number b))"
      unfolding in_policy_columns using l nn by (intro disjI2) force
    from intro_rec [OF b this]
    show "\<exists>pb \<in> set (s_bills snap). b_bill_number pb = rb_bill_number b \<and>
            b_policy_id pb = Some (pl_policy_id l) \<and> b_policy_name pb = ''Uncategorized''"
      by (rule rev_bexI) simp
    fix pb assume pb: "pb \<in> set (s_bills snap)"
      and nb: "b_bill_number pb = rb_bill_number b \<and> b_policy_id pb = Some (pl_policy_id l)"
    from elim_rec [OF pb] obtain b' pid pn where
      "b' \<in> set bills_csv" "target_congress \<le> rb_congress b'" and
      c: "(pid, pn) \<in> set (policy_columns bill_policy_links_df bill_policies_df (rb_bill_number b'))"
      and "b_bill_number pb = rb_bill_number b'" and e: "b_policy_id pb = pid"
        "b_policy_name pb = (case pn of None \<Rightarrow> ''Uncategorized'' | Some n \<Rightarrow> n)"
      by (elim exE conjE)
    from e nb have pid: "pid = Some (pl_policy_id l)" by simp
    from c nn have "pn = None" unfolding in_policy_columns pid by auto
    with e show "b_policy_name pb = ''Uncategorized''" by simp
  qed
  from assms(2) have pc: "md_policies_counts (s_metadata snap) = policy_counts (s_bills snap)"
    by (rule prepare_InrE)
  have nokey: "''Uncategorized'' \<notin> set (keys (snapshot_policy_counts snap))"
    unfolding snapshot_policy_counts_def pc keys_policy_counts by simp
  have hist: "\<forall>name. count_of (snapshot_policy_counts snap) name =
        (if name = ''Uncategorized'' then 0
         else length (filter (\<lambda>pb. b_policy_name pb = name) (s_bills snap)))"
    unfolding snapshot_policy_counts_def pc by (intro allI) (rule count_of_policy_counts)
  show ?thesis by (intro conjI kept nolink noname nokey hist)
qed


lemma ex_run_bill_policies:
  "map_sum id (\<lambda>snap. (bill_policies snap, snapshot_policy_counts snap))
     (prepare_network_data iso_date keep_order insertion_order ex_bills ex_legislators ex_sponsors
        ex_policies ex_links 117) =
   Inr ([(''B2'', None, ''Uncategorized''), (''B1'', Some 1, ''Health'')], [(''Health'', 1)])"
  by code_simp

lemma orphan_run_bill_policies:
  "map_sum id (\<lambda>snap. (bill_policies snap, snapshot_policy_counts snap))
     (prepare_network_data iso_date keep_order insertion_order ex_bills ex_legislators ex_sponsors
        ex_policies orphan_links 117) =
   Inr ([(''B2'', Some 9, ''Uncategorized''), (''B1'', Some 1, ''Health'')], [(''Health'', 1)])"
  by code_simp

theorem policy_default_witness:
  "reorders keep_order \<and>
   (\<exists>snap. prepare_network_data iso_date keep_order insertion_order ex_bills ex_legislators
        ex_sponsors ex_policies ex_links 117 = Inr snap \<and>
      bill_policies snap = [(''B2'', None, ''Uncategorized''), (''B1'', Some 1, ''Health'')] \<and>
      snapshot_policy_counts snap = [(''Health'', 1)] \<and>
      ''Uncategorized'' \<notin> set (keys (snapshot_policy_counts snap)) \<and>
      (\<exists>pb \<in> set (s_bills snap). b_bill_number pb = ''B2'' \<and> b_policy_id pb = None \<and>
          b_policy_name pb = ''Uncategorized'')) \<and>
   (\<exists>snap. prepare_network_data iso_date keep_order insertion_order ex_bills ex_legislators
        ex_sponsors ex_policies orphan_links 117 = Inr snap \<and>
      bill_policies snap = [(''B2'', Some 9, ''Uncategorized''), (''B1'', Some 1, ''Health'')] \<and>
      snapshot_policy_counts snap = [(''Health'', 1)] \<and>
      (\<exists>pb \<in> set (s_bills snap). b_bill_number pb = ''B2'' \<and> b_policy_id pb = Some 9 \<and>
          b_policy_name pb = ''Uncategorized''))"
proof -
  let ?b2 = "mk_bill ''B2'' 118 (Some ''2023-02-02'')"
  have b2: "?b2 \<in> set ex_bills" by (simp add: ex_bills_def)
  have n2: "rb_bill_number ?b2 = ''B2''" and c2: "117 \<le> rb_congress ?b2"
    by (simp_all add: mk_bill_def)
  from map_sum_Inr [OF ex_run_bill_policies] obtain s1 where
    r1: "prepare_network_data iso_date keep_order insertion_order ex_bills ex_legislators
        ex_sponsors ex_policies ex_links 117 = Inr s1" and
    v1: "(bill_policies s1, snapshot_policy_counts s1) =
      ([(''B2'', None, ''Uncategorized''), (''B1'', Some 1, ''Health'')], [(''Health'', 1)])"
    by (elim exE conjE) (rule that)
  note t1 = policy_default [OF reorders_keep_order r1]
  have nolink: "\<forall>l \<in> set ex_links. pl_bill_number l \<noteq> rb_bill_number ?b2"
    by (simp add: ex_links_def n2)
  from t1 [THEN conjunct2, THEN conjunct1, rule_format, OF b2] c2 nolink
  have e1: "\<exists>pb \<in> set (s_bills s1). b_bill_number pb = ''B2'' \<and> b_policy_id pb = None \<and>
          b_policy_name pb = ''Uncategorized''"
    unfolding n2 by blast
  from t1 have k1: "''Uncategorized'' \<notin> set (keys (snapshot_policy_counts s1))"
    by (rule conjunct1 [OF conjunct2 [OF conjunct2 [OF conjunct2]]])
  from v1 have bp1: "bill_policies s1 = [(''B2'', None, ''Uncategorized''), (''B1'', Some 1, ''Health'')]"
    and pc1: "snapshot_policy_counts s1 = [(''Health'', 1)]"
    by simp_all
  have one: "\<exists>snap. prepare_network_data iso_date keep_order insertion_order ex_bills ex_legislators
        ex_sponsors ex_policies ex_links 117 = Inr snap \<and>
      bill_policies snap = [(''B2'', None, ''Uncategorized''), (''B1'', Some 1, ''Health'')] \<and>
      snapshot_policy_counts snap = [(''Health'', 1)] \<and>
      ''Uncategorized'' \<notin> set (keys (snapshot_policy_counts snap)) \<and>
      (\<exists>pb \<in> set (s_bills snap). b_bill_number pb = ''B2'' \<and> b_policy_id pb = None \<and>
          b_policy_name pb = ''Uncategorized'')"
    by (intro exI [of _ s1] conjI r1 bp1 pc1 k1 e1)
  from map_sum_Inr [OF orphan_run_bill_policies] obtain s2 where
    r2: "prepare_network_data iso_date keep_order insertion_order ex_bills ex_legislators
        ex_sponsors ex_policies orphan_links 117 = Inr s2" and
    v2: "(bill_policies s2, snapshot_policy_counts s2) =
      ([(''B2'', Some 9, ''Uncategorized''), (''B1'', Some 1, ''Health'')], [(''Health'', 1)])"
    by (elim exE conjE) (rule that)
  note t2 = policy_default [OF reorders_keep_order r2]
  let ?l = "\<lparr> pl_bill_number = ''B2'', pl_policy_id = 9 \<rparr>"
  have l: "?l \<in> set orphan_links" by (simp add: orphan_links_def)
  have ln: "pl_bill_number ?l = rb_bill_number ?b2" by (simp add: n2)
  have noname: "\<forall>p \<in> set ex_policies. pr_policy_id p = pl_policy_id ?l \<longrightarrow> pr_name p = None"
    by (simp add: ex_policies_def)
  from t2 [THEN conjunct2, THEN conjunct2, THEN conjunct1, rule_format, OF b2 l] c2 ln noname
  have e2: "\<exists>pb \<in> set (s_bills s2). b_bill_number pb = ''B2'' \<and> b_policy_id pb = Some 9 \<and>
          b_policy_name pb = ''Uncategorized''"
    unfolding n2 by simp
  from v2 have bp2: "bill_policies s2 = [(''B2'', Some 9, ''Uncategorized''), (''B1'', Some 1, ''Health'')]"
    and pc2: "snapshot_policy_counts s2 = [(''Health'', 1)]"
    by simp_all
  have two: "\<exists>snap. prepare_network_data iso_date keep_order insertion_order ex_bills ex_legislators
        ex_sponsors ex_policies orphan_links 117 = Inr snap \<and>
      bill_policies snap = [(''B2'', Some 9, ''Uncategorized''), (''B1'', Some 1, ''Health'')] \<and>
      snapshot_policy_counts snap = [(''Health'', 1)] \<and>
      (\<exists>pb \<in> set (s_bills snap). b_bill_number pb = ''B2'' \<and> b_policy_id pb = Some 9 \<and>
          b_policy_name pb = ''Uncategorized'')"
    by (intro exI [of _ s2] conjI r2 bp2 pc2 e2)
  show ?thesis by (intro conjI reorders_keep_order one two)
qed

subsection \<open>The date range\<close>

lemma best_loop_min_dates:
  "\<forall>d \<in> set xs. d \<noteq> None \<Longrightarrow>
   \<exists>m. best_loop date_lt (Some x) xs = Inr (Some m) \<and> Some m \<in> set (Some x # xs) \<and>
       (\<forall>d. Some d \<in> set (Some x # xs) \<longrightarrow> m \<le> d)"
proof (induction xs arbitrary: x)
  case Nil
  then show ?case by simp
next
  case (Cons item xs)
  from Cons.prems obtain y where y: "item = Some y" by auto
  from Cons.prems have rest: "\<forall>d \<in> set xs. d \<noteq> None" by simp
  from Cons.IH [OF rest, of "if y < x then y else x"] obtain m where
    m: "best_loop date_lt (Some (if y < x then y else x)) xs = Inr (Some m)"
       "Some m \<in> set (Some (if y < x then y else x) # xs)"
       "\<forall>d. Some d \<in> set (Some (if y < x then y else x) # xs) \<longrightarrow> m \<le> d"
    by blast
  have run: "best_loop date_lt (Some x) (item # xs) = Inr (Some m)"
    using m(1) by (simp add: y split: if_splits)
  have mem: "Some m \<in> set (Some x # item # xs)"
    using m(2) by (auto simp: y split: if_splits)
  have low: "\<forall>d. Some d \<in> set (Some x # item # xs) \<longrightarrow> m \<le> d"
  proof (intro allI impI)
    fix d assume "Some d \<in> set (Some x # item # xs)"
    then consider "d = x" | "d = y" | "Some d \<in> set xs" by (auto simp: y)
    then show "m \<le> d"
    proof cases
      case 1
      from m(3) have "m \<le> (if y < x then y else x)" by simp
      with 1 show ?thesis by (auto split: if_splits)
    next
      case 2
      from m(3) have "m \<le> (if y < x then y else x)" by simp
      with 2 show ?thesis by (auto split: if_splits)
    next
      case 3
      with m(3) show ?thesis by simp
    qed
  qed
  from run mem low show ?case by blast
qed

lemma best_loop_max_dates:
  "\<forall>d \<in> set xs. d \<noteq> None \<Longrightarrow>
   \<exists>m. best_loop (\<lambda>item best. date_lt best item) (Some x) xs = Inr (Some m) \<and>
       Some m \<in> set (Some x # xs) \<and> (\<forall>d. Some d \<in> set (Some x # xs) \<longrightarrow> d \<le> m)"
proof (induction xs arbitrary: x)
  case Nil
  then show ?case by simp
next
  case (Cons item xs)
  from Cons.prems obtain y where y: "item = Some y" by auto
  from Cons.prems have rest: "\<forall>d \<in> set xs. d \<noteq> None" by simp
  from Cons.IH [OF rest, of "if x < y then y else x"] obtain m where
    m: "best_loop (\<lambda>item best. date_lt best item) (Some (if x < y then y else x)) xs = Inr (Some m)"
       "Some m \<in> set (Some (if x < y then y else x) # xs)"
       "\<forall>d. Some d \<in> set (Some (if x < y then y else x) # xs) \<longrightarrow> d \<le> m"
    by blast
  have run: "best_loop (\<lambda>item best. date_lt best item) (Some x) (item # xs) = Inr (Some m)"
    using m(1) by (simp add: y split: if_splits)
  have mem: "Some m \<in> set (Some x # item # xs)"
    using m(2) by (auto simp: y split: if_splits)
  have high: "\<forall>d. Some d \<in> set (Some x # item # xs) \<longrightarrow> d \<le> m"
  proof (intro allI impI)
    fix d assume "Some d \<in> set (Some x # item # xs)"
    then consider "d = x" | "d = y" | "Some d \<in> set xs" by (auto simp: y)
    then show "d \<le> m"
    proof cases
      case 1
      from m(3) have "(if x < y then y else x) \<le> m" by simp
      with 1 show ?thesis by (auto split: if_splits)
    next
      case 2
      from m(3) have "(if x < y then y else x) \<le> m" by simp
      with 2 show ?thesis by (auto split: if_splits)
    next
      case 3
      with m(3) show ?thesis by simp
    qed
  qed
  from run mem high show ?case by blast
qed

lemma best_loop_missing:
  "\<forall>d \<in> set xs. d = None \<Longrightarrow> best_loop date_lt None xs = Inr None"
  "\<forall>d \<in> set xs. d = None \<Longrightarrow> best_loop (\<lambda>item best. date_lt best item) None xs = Inr None"
  by (induction xs) auto

lemma best_loop_int:
  "\<exists>m. best_loop int_lt x xs = Inr m" "\<exists>m. best_loop (\<lambda>item best. int_lt best item) x xs = Inr m"
  by (induction xs arbitrary: x) (auto simp: int_lt_def)

lemma py_min_dates_present:
  assumes "py_min date_lt ds = Inr lo" and "\<forall>d \<in> set ds. d \<noteq> None"
  shows "\<exists>m. lo = Some m \<and> Some m \<in> set ds \<and> (\<forall>d. Some d \<in> set ds \<longrightarrow> m \<le> d)"
proof (cases ds)
  case Nil
  with assms(1) show ?thesis by (simp add: py_min_def py_best_def)
next
  case (Cons d0 rest)
  with assms(2) obtain x where x: "d0 = Some x" and r: "\<forall>d \<in> set rest. d \<noteq> None" by auto
  from best_loop_min_dates [OF r, of x] assms(1) show ?thesis
    by (auto simp: py_min_def py_best_def Cons x)
qed

lemma py_max_dates_present:
  assumes "py_max date_lt ds = Inr hi" and "\<forall>d \<in> set ds. d \<noteq> None"
  shows "\<exists>m. hi = Some m \<and> Some m \<in> set ds \<and> (\<forall>d. Some d \<in> set ds \<longrightarrow> d \<le> m)"
proof (cases ds)
  case Nil
  with assms(1) show ?thesis by (simp add: py_max_def py_best_def)
next
  case (Cons d0 rest)
  with assms(2) obtain x where x: "d0 = Some x" and r: "\<forall>d \<in> set rest. d \<noteq> None" by auto
  from best_loop_max_dates [OF r, of x] assms(1) show ?thesis
    by (auto simp: py_max_def py_best_def Cons x)
qed

lemma py_min_max_missing:
  assumes "ds \<noteq> []" and "\<forall>d \<in> set ds. d = None"
  shows "py_min date_lt ds = Inr None" "py_max date_lt ds = Inr None"
proof -
  from assms obtain rest where ds: "ds = None # rest" and r: "\<forall>d \<in> set rest. d = None"
    by (cases ds) auto
  show "py_min date_lt ds = Inr None" "py_max date_lt ds = Inr None"
    by (simp_all add: py_min_def py_max_def py_best_def ds best_loop_missing [OF r])
qed

lemma py_min_max_int:
  assumes "xs \<noteq> []"
  shows "\<exists>m. py_min int_lt xs = Inr m" "\<exists>m. py_max int_lt xs = Inr m"
  using assms best_loop_int
  by (cases xs; simp add: py_min_def py_max_def py_best_def)+


lemma map_dates_process_bills:
  "map b_latest_action_date (process_bills bills_df) = map br_latest_action_date bills_df"
  by (simp add: process_bills_def comp_def)

lemma prepare_returns:
  assumes "process_collaborations set_iter bill_sponsors_df
       (fst (load_and_clean_data clean_date sort_values bills_csv legislators_csv bill_policies_df
               bill_policy_links_df target_congress)) = Inr cs"
    and "fst (load_and_clean_data clean_date sort_values bills_csv legislators_csv bill_policies_df
               bill_policy_links_df target_congress) \<noteq> []"
    and "py_min date_lt (map b_latest_action_date (process_bills
       (fst (load_and_clean_data clean_date sort_values bills_csv legislators_csv bill_policies_df
               bill_policy_links_df target_congress)))) = Inr ds"
    and "py_max date_lt (map b_latest_action_date (process_bills
       (fst (load_and_clean_data clean_date sort_values bills_csv legislators_csv bill_policies_df
               bill_policy_links_df target_congress)))) = Inr de"
  shows "\<exists>snap. prepare_network_data clean_date sort_values set_iter bills_csv legislators_csv
             bill_sponsors_df bill_policies_df bill_policy_links_df target_congress = Inr snap \<and>
           s_bills snap = process_bills
             (fst (load_and_clean_data clean_date sort_values bills_csv legislators_csv
                     bill_policies_df bill_policy_links_df target_congress)) \<and>
           md_date_range (s_metadata snap) = (ds, de)"
proof -
  let ?bdf = "fst (load_and_clean_data clean_date sort_values bills_csv legislators_csv
                     bill_policies_df bill_policy_links_df target_congress)"
  have ld: "load_and_clean_data clean_date sort_values bills_csv legislators_csv bill_policies_df
              bill_policy_links_df target_congress = (?bdf, map clean_legislator legislators_csv)"
    by (simp add: prod_eq_iff snd_load)
  from assms(2) have ne: "map br_congress ?bdf \<noteq> []" by simp
  from py_min_max_int [OF ne] obtain c0 c1 where
    c: "py_min int_lt (map br_congress ?bdf) = Inr c0" "py_max int_lt (map br_congress ?bdf) = Inr c1"
    by blast
  show ?thesis
    unfolding prepare_network_data_def Let_def
    by (subst ld) (simp add: assms(1,3,4) c)
qed

text \<open>
  C6, as the code has it. When no bill of the snapshot lacks its latest-action date, the
  date range of the metadata is the least and the greatest of these dates. Missing dates
  are not set aside and the code has no condition for them: when the filtered bill set is
  not empty and every date is missing, the run returns a snapshot whose date range has a
  missing start and a missing end.
\<close>

theorem date_range_as_computed:
  "(prepare_network_data clean_date sort_values set_iter bills_csv legislators_csv
      bill_sponsors_df bill_policies_df bill_policy_links_df target_congress = Inr snap \<longrightarrow>
      ((\<forall>d \<in> set (map b_latest_action_date (s_bills snap)). d \<noteq> None) \<longrightarrow>
         (\<exists>lo hi. snapshot_date_range snap = (Some lo, Some hi) \<and>
            Some lo \<in> set (map b_latest_action_date (s_bills snap)) \<and>
            Some hi \<in> set (map b_latest_action_date (s_bills snap)) \<and>
            (\<forall>d. Some d \<in> set (map b_latest_action_date (s_bills snap)) \<longrightarrow> lo \<le> d \<and> d \<le> hi))) \<and>
      ((\<forall>d \<in> set (map b_latest_action_date (s_bills snap)). d = None) \<longrightarrow>
         snapshot_date_range snap = (None, None))) \<and>
   (set_iteration set_iter \<and> reorders sort_values \<and>
    (\<exists>b \<in> set bills_csv. target_congress \<le> rb_congress b) \<and>
    (\<forall>b \<in> set bills_csv. target_congress \<le> rb_congress b \<longrightarrow>
        (case rb_latest_action_date b of None \<Rightarrow> None | Some d \<Rightarrow> clean_date d) = None) \<longrightarrow>
    (\<exists>snap. prepare_network_data clean_date sort_values set_iter bills_csv legislators_csv
        bill_sponsors_df bill_policies_df bill_policy_links_df target_congress = Inr snap \<and>
       s_bills snap \<noteq> [] \<and>
       (\<forall>d \<in> set (map b_latest_action_date (s_bills snap)). d = None) \<and>
       snapshot_date_range snap = (None, None)))"
proof (intro conjI impI)
  assume r: "prepare_network_data clean_date sort_values set_iter bills_csv legislators_csv
      bill_sponsors_df bill_policies_df bill_policy_links_df target_congress = Inr snap"
    and present: "\<forall>d \<in> set (map b_latest_action_date (s_bills snap)). d \<noteq> None"
  from r obtain ds de where
    mn: "py_min date_lt (map b_latest_action_date (s_bills snap)) = Inr ds" and
    mx: "py_max date_lt (map b_latest_action_date (s_bills snap)) = Inr de" and
    dr: "md_date_range (s_metadata snap) = (ds, de)"
    by (rule prepare_InrE)
  from py_min_dates_present [OF mn present] obtain lo where
    lo: "ds = Some lo" "Some lo \<in> set (map b_latest_action_date (s_bills snap))"
      "\<forall>d. Some d \<in> set (map b_latest_action_date (s_bills snap)) \<longrightarrow> lo \<le> d"
    by blast
  from py_max_dates_present [OF mx present] obtain hi where
    hi: "de = Some hi" "Some hi \<in> set (map b_latest_action_date (s_bills snap))"
      "\<forall>d. Some d \<in> set (map b_latest_action_date (s_bills snap)) \<longrightarrow> d \<le> hi"
    by blast
  have "snapshot_date_range snap = (Some lo, Some hi)"
    by (simp add: snapshot_date_range_def dr lo(1) hi(1))
  with lo(2,3) hi(2,3)
  show "\<exists>lo hi. snapshot_date_range snap = (Some lo, Some hi) \<and>
            Some lo \<in> set (map b_latest_action_date (s_bills snap)) \<and>
            Some hi \<in> set (map b_latest_action_date (s_bills snap)) \<and>
            (\<forall>d. Some d \<in> set (map b_latest_action_date (s_bills snap)) \<longrightarrow> lo \<le> d \<and> d \<le> hi)"
    by blast
next
  assume r: "prepare_network_data clean_date sort_values set_iter bills_csv legislators_csv
      bill_sponsors_df bill_policies_df bill_policy_links_df target_congress = Inr snap"
    and missing: "\<forall>d \<in> set (map b_latest_action_date (s_bills snap)). d = None"
  from r obtain ds de where
    mn: "py_min date_lt (map b_latest_action_date (s_bills snap)) = Inr ds" and
    mx: "py_max date_lt (map b_latest_action_date (s_bills snap)) = Inr de" and
    dr: "md_date_range (s_metadata snap) = (ds, de)"
    by (rule prepare_InrE)
  have ne: "map b_latest_action_date (s_bills snap) \<noteq> []"
    using mn by (auto simp: py_min_def py_best_def)
  from py_min_max_missing [OF ne missing] mn mx have "ds = None" "de = None" by simp_all
  then show "snapshot_date_range snap = (None, None)"
    by (simp add: snapshot_date_range_def dr)
next
  assume a: "set_iteration set_iter \<and> reorders sort_values \<and>
    (\<exists>b \<in> set bills_csv. target_congress \<le> rb_congress b) \<and>
    (\<forall>b \<in> set bills_csv. target_congress \<le> rb_congress b \<longrightarrow>
        (case rb_latest_action_date b of None \<Rightarrow> None | Some d \<Rightarrow> clean_date d) = None)"
  let ?bdf = "fst (load_and_clean_data clean_date sort_values bills_csv legislators_csv
                     bill_policies_df bill_policy_links_df target_congress)"
  from a have si: "set_iteration set_iter" and ro: "reorders sort_values"
    and nodate: "\<forall>b \<in> set bills_csv. target_congress \<le> rb_congress b \<longrightarrow>
        (case rb_latest_action_date b of None \<Rightarrow> None | Some d \<Rightarrow> clean_date d) = None"
    by simp_all
  from a obtain b where b: "b \<in> set bills_csv" "target_congress \<le> rb_congress b" by blast
  obtain pid pn where
    c: "(pid, pn) \<in> set (policy_columns bill_policy_links_df bill_policies_df (rb_bill_number b))"
    using policy_columns_not_Nil [of bill_policy_links_df bill_policies_df "rb_bill_number b"]
    by (cases "policy_columns bill_policy_links_df bill_policies_df (rb_bill_number b)") auto
  from b c have "joined_row (parse_date clean_date b) pid pn \<in> set ?bdf"
    unfolding in_loaded [OF ro] by blast
  then have ne: "?bdf \<noteq> []" by auto
  have allnone: "\<forall>d \<in> set (map b_latest_action_date (process_bills ?bdf)). d = None"
  proof
    fix d assume "d \<in> set (map b_latest_action_date (process_bills ?bdf))"
    then obtain row where row: "row \<in> set ?bdf" and d: "d = br_latest_action_date row"
      unfolding map_dates_process_bills by auto
    from row obtain b' pid' pn' where
      b': "b' \<in> set bills_csv" "target_congress \<le> rb_congress b'"
      and j: "row = joined_row (parse_date clean_date b') pid' pn'"
      unfolding in_loaded [OF ro] by blast
    from nodate b' have "(case rb_latest_action_date b' of None \<Rightarrow> None | Some d \<Rightarrow> clean_date d) = None"
      by blast
    then show "d = None" unfolding d j by (simp add: joined_row_def parse_date_def)
  qed
  from ne have ne': "map b_latest_action_date (process_bills ?bdf) \<noteq> []"
    by (simp add: process_bills_def)
  note mm = py_min_max_missing [OF ne' allnone]
  from process_collaborations_Inr [OF si, of bill_sponsors_df ?bdf]
  have pc: "process_collaborations set_iter bill_sponsors_df ?bdf =
              Inr (emitted set_iter bill_sponsors_df ?bdf)" .
  from prepare_returns [OF pc ne mm] obtain snap' where
    s: "prepare_network_data clean_date sort_values set_iter bills_csv legislators_csv
        bill_sponsors_df bill_policies_df bill_policy_links_df target_congress = Inr snap'"
      "s_bills snap' = process_bills ?bdf"
      "md_date_range (s_metadata snap') = (None, None)"
    by blast
  have "s_bills snap' \<noteq> []" using ne by (simp add: s(2) process_bills_def)
  moreover have "\<forall>d \<in> set (map b_latest_action_date (s_bills snap')). d = None"
    unfolding s(2) by (rule allnone)
  moreover have "snapshot_date_range snap' = (None, None)"
    by (simp add: snapshot_date_range_def s(3))
  ultimately show "\<exists>snap. prepare_network_data clean_date sort_values set_iter bills_csv legislators_csv
        bill_sponsors_df bill_policies_df bill_policy_links_df target_congress = Inr snap \<and>
       s_bills snap \<noteq> [] \<and>
       (\<forall>d \<in> set (map b_latest_action_date (s_bills snap)). d = None) \<and>
       snapshot_date_range snap = (None, None)"
    using s(1) by blast
qed


lemma ex_run_dates:
  "map_sum id (\<lambda>snap. (map b_latest_action_date (s_bills snap), snapshot_date_range snap))
     (prepare_network_data iso_date keep_order insertion_order ex_bills ex_legislators ex_sponsors
        ex_policies ex_links 117) =
   Inr ([Some ''2023-02-02'', Some ''2021-01-01''], (Some ''2021-01-01'', Some ''2023-02-02''))"
  by code_simp

theorem date_range_as_computed_witness:
  "(\<exists>snap. prepare_network_data iso_date keep_order insertion_order ex_bills ex_legislators
        ex_sponsors ex_policies ex_links 117 = Inr snap \<and>
      map b_latest_action_date (s_bills snap) = [Some ''2023-02-02'', Some ''2021-01-01''] \<and>
      snapshot_date_range snap = (Some ''2021-01-01'', Some ''2023-02-02'') \<and>
      (\<exists>lo hi. snapshot_date_range snap = (Some lo, Some hi) \<and>
            Some lo \<in> set (map b_latest_action_date (s_bills snap)) \<and>
            Some hi \<in> set (map b_latest_action_date (s_bills snap)) \<and>
            (\<forall>d. Some d \<in> set (map b_latest_action_date (s_bills snap)) \<longrightarrow> lo \<le> d \<and> d \<le> hi))) \<and>
   set_iteration insertion_order \<and> reorders keep_order \<and>
   map rb_latest_action_date undated_bills = [None, None] \<and>
   (\<exists>snap. prepare_network_data iso_date keep_order insertion_order undated_bills ex_legislators
        ex_sponsors ex_policies ex_links 117 = Inr snap \<and>
       s_bills snap \<noteq> [] \<and>
       (\<forall>d \<in> set (map b_latest_action_date (s_bills snap)). d = None) \<and>
       snapshot_date_range snap = (None, None))"
proof -
  from map_sum_Inr [OF ex_run_dates] obtain s1 where
    r1: "prepare_network_data iso_date keep_order insertion_order ex_bills ex_legislators
        ex_sponsors ex_policies ex_links 117 = Inr s1" and
    v1: "(map b_latest_action_date (s_bills s1), snapshot_date_range s1) =
      ([Some ''2023-02-02'', Some ''2021-01-01''], (Some ''2021-01-01'', Some ''2023-02-02''))"
    by (elim exE conjE) (rule that)
  from v1 have d1: "map b_latest_action_date (s_bills s1) = [Some ''2023-02-02'', Some ''2021-01-01'']"
    and g1: "snapshot_date_range s1 = (Some ''2021-01-01'', Some ''2023-02-02'')"
    by simp_all
  have present: "\<forall>d \<in> set (map b_latest_action_date (s_bills s1)). d \<noteq> None"
    unfolding d1 by simp
  note t1 = date_range_as_computed [of iso_date keep_order insertion_order ex_bills ex_legislators
      ex_sponsors ex_policies ex_links 117 s1, THEN conjunct1]
  from mp [OF t1 r1, THEN conjunct1, THEN mp, OF present]
  have b1: "\<exists>lo hi. snapshot_date_range s1 = (Some lo, Some hi) \<and>
            Some lo \<in> set (map b_latest_action_date (s_bills s1)) \<and>
            Some hi \<in> set (map b_latest_action_date (s_bills s1)) \<and>
            (\<forall>d. Some d \<in> set (map b_latest_action_date (s_bills s1)) \<longrightarrow> lo \<le> d \<and> d \<le> hi)" .
  have one: "\<exists>snap. prepare_network_data iso_date keep_order insertion_order ex_bills ex_legislators
        ex_sponsors ex_policies ex_links 117 = Inr snap \<and>
      map b_latest_action_date (s_bills snap) = [Some ''2023-02-02'', Some ''2021-01-01''] \<and>
      snapshot_date_range snap = (Some ''2021-01-01'', Some ''2023-02-02'') \<and>
      (\<exists>lo hi. snapshot_date_range snap = (Some lo, Some hi) \<and>
            Some lo \<in> set (map b_latest_action_date (s_bills snap)) \<and>
            Some hi \<in> set (map b_latest_action_date (s_bills snap)) \<and>
            (\<forall>d. Some d \<in> set (map b_latest_action_date (s_bills snap)) \<longrightarrow> lo \<le> d \<and> d \<le> hi))"
    by (intro exI [of _ s1] conjI r1 d1 g1 b1)
  have raw: "map rb_latest_action_date undated_bills = [None, None]"
    by (simp add: undated_bills_def mk_bill_def)
  have some: "\<exists>b \<in> set undated_bills. 117 \<le> rb_congress b"
    by (simp add: undated_bills_def mk_bill_def)
  have none: "\<forall>b \<in> set undated_bills. 117 \<le> rb_congress b \<longrightarrow>
        (case rb_latest_action_date b of None \<Rightarrow> None | Some d \<Rightarrow> iso_date d) = None"
    by (simp add: undated_bills_def mk_bill_def)
  note t2 = date_range_as_computed [of iso_date keep_order insertion_order undated_bills
      ex_legislators ex_sponsors ex_policies ex_links 117, THEN conjunct2]
  have two: "\<exists>snap. prepare_network_data iso_date keep_order insertion_order undated_bills ex_legislators
        ex_sponsors ex_policies ex_links 117 = Inr snap \<and>
       s_bills snap \<noteq> [] \<and>
       (\<forall>d \<in> set (map b_latest_action_date (s_bills snap)). d = None) \<and>
       snapshot_date_range snap = (None, None)"
    by (rule mp [OF t2]) (intro conjI set_iteration_insertion_order reorders_keep_order some none)
  show ?thesis
    by (intro conjI one set_iteration_insertion_order reorders_keep_order raw two)
qed

text \<open>
  C6 as stated fails. With two qualifying bills and no date at all the run does not fail:
  it returns a snapshot with both bills and a date range of two missing values. With one
  date missing and one present the missing date is not set aside: the comparison of a
  missing value with a date text raises TypeError.
\<close>

theorem date_range_counterexample:
  "map_sum id bill_numbers
     (prepare_network_data iso_date keep_order insertion_order undated_bills ex_legislators
        ex_sponsors ex_policies ex_links 117) = Inr [''B2'', ''B1''] \<and>
   map_sum id snapshot_date_range
     (prepare_network_data iso_date keep_order insertion_order undated_bills ex_legislators
        ex_sponsors ex_policies ex_links 117) = Inr (None, None) \<and>
   prepare_network_data iso_date keep_order insertion_order half_dated_bills ex_legislators
        ex_sponsors ex_policies ex_links 117 = Inl TypeError"
proof -
  have a: "map_sum id bill_numbers
     (prepare_network_data iso_date keep_order insertion_order undated_bills ex_legislators
        ex_sponsors ex_policies ex_links 117) = Inr [''B2'', ''B1'']"
    by code_simp
  have b: "map_sum id snapshot_date_range
     (prepare_network_data iso_date keep_order insertion_order undated_bills ex_legislators
        ex_sponsors ex_policies ex_links 117) = Inr (None, None)"
    by code_simp
  have c: "prepare_network_data iso_date keep_order insertion_order half_dated_bills ex_legislators
        ex_sponsors ex_policies ex_links 117 = Inl TypeError"
    by code_simp
  show ?thesis by (intro conjI a b c)
qed

subsection \<open>Metrics\<close>

lemma sum_incr: "sum_list (map snd (incr p d)) = sum_list (map snd d) + 1"
  by (induction d) (auto simp: incr_def int_default_def)

lemma stat_of_Nil:
  "stat_of [] k = \<lparr> primary_count = 0, cosponsor_count = 0, total_collaborations = 0,
                    party_collaborations = [] \<rparr>"
  by (simp add: stat_of_def stats_default_def)

lemma stat_of_add_total:
  "stat_of (add_total k stats) k' =
     (if k' = k then (stat_of stats k)\<lparr>total_collaborations := total_collaborations (stat_of stats k) + 1\<rparr>
      else stat_of stats k')"
  by (simp add: stat_of_def add_total_def map_of_dict_upd stats_default_def)

lemma stat_of_add_party:
  "stat_of (add_party k party stats) k' =
     (if k' = k
      then (stat_of stats k)\<lparr>party_collaborations := incr party (party_collaborations (stat_of stats k))\<rparr>
      else stat_of stats k')"
  by (simp add: stat_of_def add_party_def map_of_dict_upd stats_default_def)

lemma keys_add_total: "set (keys (add_total k stats)) = insert k (set (keys stats))"
  by (auto simp: add_total_def keys_dict_upd)

lemma keys_add_party: "set (keys (add_party k party stats)) = insert k (set (keys stats))"
  by (auto simp: add_party_def keys_dict_upd)

lemma keys_stats_step:
  "set (keys (stats_step lookup stats c)) = set (keys stats) \<union> {source c, target c}"
  by (auto simp: stats_step_def Let_def keys_add_total keys_add_party)

lemma total_stats_step:
  "total_collaborations (stat_of (stats_step lookup stats c) k) =
     total_collaborations (stat_of stats k) + (if source c = k then 1 else 0) + (if target c = k then 1 else 0)"
  by (simp add: stats_step_def Let_def stat_of_add_total stat_of_add_party)

lemma party_sum_stats_step:
  "sum_list (map snd (party_collaborations (stat_of (stats_step lookup stats c) k))) =
     sum_list (map snd (party_collaborations (stat_of stats k))) +
     (if source c = k then 1 else 0) + (if target c = k then 1 else 0)"
  by (simp add: stats_step_def Let_def stat_of_add_total stat_of_add_party sum_incr)

lemma party_count_stats_step:
  "count_of (party_collaborations (stat_of (stats_step lookup stats c) k)) p =
     count_of (party_collaborations (stat_of stats k)) p +
     (if source c = k \<and> get_party lookup (target c) = p then 1 else 0) +
     (if target c = k \<and> get_party lookup (source c) = p then 1 else 0)"
  by (simp add: stats_step_def Let_def stat_of_add_total stat_of_add_party count_of_incr)

lemma placeholders_stats_step:
  "primary_count (stat_of (stats_step lookup stats c) k) = primary_count (stat_of stats k)"
  "cosponsor_count (stat_of (stats_step lookup stats c) k) = cosponsor_count (stat_of stats k)"
  by (simp_all add: stats_step_def Let_def stat_of_add_total stat_of_add_party)

lemma length_filter_Cons: "length (filter P (x # xs)) = (if P x then 1 else 0) + length (filter P xs)"
  by (simp add:)

lemma total_foldl:
  "total_collaborations (stat_of (foldl (stats_step lookup) stats cs) k) =
     total_collaborations (stat_of stats k) +
     length (filter (\<lambda>c. source c = k) cs) + length (filter (\<lambda>c. target c = k) cs)"
  by (induction cs arbitrary: stats)
     (simp_all add: total_stats_step length_filter_Cons del: filter.simps)

lemma party_sum_foldl:
  "sum_list (map snd (party_collaborations (stat_of (foldl (stats_step lookup) stats cs) k))) =
     sum_list (map snd (party_collaborations (stat_of stats k))) +
     length (filter (\<lambda>c. source c = k) cs) + length (filter (\<lambda>c. target c = k) cs)"
  by (induction cs arbitrary: stats)
     (simp_all add: party_sum_stats_step length_filter_Cons del: filter.simps)

lemma party_count_foldl:
  "count_of (party_collaborations (stat_of (foldl (stats_step lookup) stats cs) k)) p =
     count_of (party_collaborations (stat_of stats k)) p +
     length (filter (\<lambda>c. source c = k \<and> get_party lookup (target c) = p) cs) +
     length (filter (\<lambda>c. target c = k \<and> get_party lookup (source c) = p) cs)"
  by (induction cs arbitrary: stats)
     (simp_all add: party_count_stats_step length_filter_Cons del: filter.simps)

lemma placeholders_foldl:
  "primary_count (stat_of (foldl (stats_step lookup) stats cs) k) = primary_count (stat_of stats k)"
  "cosponsor_count (stat_of (foldl (stats_step lookup) stats cs) k) = cosponsor_count (stat_of stats k)"
  by (induction cs arbitrary: stats) (simp_all add: placeholders_stats_step)

lemma keys_foldl_stats:
  "set (keys (foldl (stats_step lookup) stats cs)) =
     set (keys stats) \<union> source ` set cs \<union> target ` set cs"
  by (induction cs arbitrary: stats) (auto simp: keys_stats_step)

lemma total_sum_add_total:
  "sum_list (map (\<lambda>e. total_collaborations (snd e)) (add_total k stats)) =
     sum_list (map (\<lambda>e. total_collaborations (snd e)) stats) + 1"
  unfolding add_total_def by (induction stats) (auto simp: stats_default_def)

lemma total_sum_add_party:
  "sum_list (map (\<lambda>e. total_collaborations (snd e)) (add_party k party stats)) =
     sum_list (map (\<lambda>e. total_collaborations (snd e)) stats)"
  unfolding add_party_def by (induction stats) (auto simp: stats_default_def)

lemma total_sum_foldl:
  "sum_list (map (\<lambda>e. total_collaborations (snd e)) (foldl (stats_step lookup) stats cs)) =
     sum_list (map (\<lambda>e. total_collaborations (snd e)) stats) + 2 * length cs"
  by (induction cs arbitrary: stats)
     (simp_all add: stats_step_def Let_def total_sum_add_total total_sum_add_party)

lemma party_lookup_map:
  "party_lookup ls =
     foldl (\<lambda>d p. dict_set (fst p) (snd p) d) [] (map (\<lambda>l. (leg_id l, leg_party l)) ls)"
  by (simp add: party_lookup_def foldl_map)

lemma party_lookup_add_metrics: "party_lookup (map (add_metrics stats) ls) = party_lookup ls"
  unfolding party_lookup_map by (simp add: comp_def add_metrics_fields)

lemma calculate_sponsor_stats_add_metrics:
  "calculate_sponsor_stats (map (add_metrics stats) ls) cs = calculate_sponsor_stats ls cs"
  by (simp add: calculate_sponsor_stats_def party_lookup_add_metrics)

lemma get_party_unknown:
  assumes "k \<notin> leg_id ` set ls"
  shows "get_party (party_lookup ls) k = ''O''"
proof -
  have "k \<notin> set (keys (party_lookup ls))"
    using assms by (simp add: party_lookup_def keys_foldl_dict_set keys_Nil)
  then have "map_of (party_lookup ls) k = None"
    using map_of_keys [of "party_lookup ls" k] by simp
  then show ?thesis by (simp add: get_party_def)
qed

lemma get_party_known:
  assumes "k \<in> leg_id ` set ls"
  shows "\<exists>l \<in> set ls. leg_id l = k \<and> get_party (party_lookup ls) k = leg_party l"
proof -
  have "k \<in> set (keys (party_lookup ls))"
    using assms by (simp add: party_lookup_def keys_foldl_dict_set keys_Nil)
  then obtain p where p: "map_of (party_lookup ls) k = Some p"
    using keys_map_of by fastforce
  then have "map_of [] k = Some p \<or> (\<exists>l \<in> set ls. leg_id l = k \<and> leg_party l = p)"
    unfolding party_lookup_def by (rule map_of_foldl_dict_set)
  then obtain l where l: "l \<in> set ls" "leg_id l = k" "leg_party l = p" by auto
  have "get_party (party_lookup ls) k = p" using p by (simp add: get_party_def)
  with l show ?thesis by (intro bexI [of _ l] conjI) simp_all
qed

lemma appearances_no_self:
  assumes "\<forall>c \<in> set cs. source c \<noteq> target c"
  shows "length (filter (\<lambda>c. source c = k) cs) + length (filter (\<lambda>c. target c = k) cs) =
         length (filter (\<lambda>c. source c = k \<or> target c = k) cs)"
  using assms by (induction cs) auto

lemma stat_of_calculate:
  "total_collaborations (stat_of (calculate_sponsor_stats ls cs) k) =
     length (filter (\<lambda>c. source c = k) cs) + length (filter (\<lambda>c. target c = k) cs)"
  "sum_list (map snd (party_collaborations (stat_of (calculate_sponsor_stats ls cs) k))) =
     length (filter (\<lambda>c. source c = k) cs) + length (filter (\<lambda>c. target c = k) cs)"
  "count_of (party_collaborations (stat_of (calculate_sponsor_stats ls cs) k)) p =
     length (filter (\<lambda>c. source c = k \<and> get_party (party_lookup ls) (target c) = p) cs) +
     length (filter (\<lambda>c. target c = k \<and> get_party (party_lookup ls) (source c) = p) cs)"
  "primary_count (stat_of (calculate_sponsor_stats ls cs) k) = 0"
  "cosponsor_count (stat_of (calculate_sponsor_stats ls cs) k) = 0"
  unfolding calculate_sponsor_stats_def
  by (simp_all add: total_foldl party_sum_foldl party_count_foldl placeholders_foldl stat_of_Nil
        count_of_Nil)

lemma keys_calculate:
  "set (keys (calculate_sponsor_stats ls cs)) = active_legislators cs"
  by (simp add: calculate_sponsor_stats_def keys_foldl_stats keys_Nil active_legislators_eq)

lemma metrics_of_active:
  assumes "leg_id n \<in> active_legislators cs"
  shows "leg_metrics (add_metrics (calculate_sponsor_stats ls cs) n) =
           Some (stat_of (calculate_sponsor_stats ls cs) (leg_id n))"
proof -
  from assms have "leg_id n \<in> set (keys (calculate_sponsor_stats ls cs))"
    by (simp add: keys_calculate)
  then obtain m where "map_of (calculate_sponsor_stats ls cs) (leg_id n) = Some m"
    using keys_map_of by fastforce
  then show ?thesis by (simp add: add_metrics_def stat_of_def stats_default_def)
qed

lemma snapshot_metrics:
  assumes "prepare_network_data clean_date sort_values set_iter bills_csv legislators_csv
             bill_sponsors_df bill_policies_df bill_policy_links_df target_congress = Inr snap"
  shows "calculate_sponsor_stats (s_legislators snap) (s_collaborations snap) =
           calculate_sponsor_stats
             (filter (\<lambda>leg. leg_id leg \<in> active_legislators (s_collaborations snap))
                (create_legislator_nodes (map clean_legislator legislators_csv)))
             (s_collaborations snap)"
    and "\<forall>leg \<in> set (s_legislators snap).
           leg_metrics leg =
             Some (stat_of (calculate_sponsor_stats (s_legislators snap) (s_collaborations snap))
                     (leg_id leg))"
proof -
  from assms obtain cs where
    cs: "s_collaborations snap = cs" and
    l: "s_legislators snap =
       map (add_metrics (calculate_sponsor_stats
                           (filter (\<lambda>leg. leg_id leg \<in> active_legislators cs)
                              (create_legislator_nodes (map clean_legislator legislators_csv))) cs))
         (filter (\<lambda>leg. leg_id leg \<in> active_legislators cs)
            (create_legislator_nodes (map clean_legislator legislators_csv)))"
    by (rule prepare_InrE)
  define ls where "ls = filter (\<lambda>leg. leg_id leg \<in> active_legislators cs)
                          (create_legislator_nodes (map clean_legislator legislators_csv))"
  have l': "s_legislators snap = map (add_metrics (calculate_sponsor_stats ls cs)) ls"
    unfolding ls_def by (rule l)
  show st: "calculate_sponsor_stats (s_legislators snap) (s_collaborations snap) =
           calculate_sponsor_stats
             (filter (\<lambda>leg. leg_id leg \<in> active_legislators (s_collaborations snap))
                (create_legislator_nodes (map clean_legislator legislators_csv)))
             (s_collaborations snap)"
    unfolding cs l by (rule calculate_sponsor_stats_add_metrics)
  have st': "calculate_sponsor_stats (s_legislators snap) (s_collaborations snap) =
               calculate_sponsor_stats ls cs"
    unfolding st unfolding cs ls_def ..
  show "\<forall>leg \<in> set (s_legislators snap).
           leg_metrics leg =
             Some (stat_of (calculate_sponsor_stats (s_legislators snap) (s_collaborations snap))
                     (leg_id leg))"
  proof
    fix leg
    assume "leg \<in> set (s_legislators snap)"
    then obtain n where n: "n \<in> set ls" and
      leg: "leg = add_metrics (calculate_sponsor_stats ls cs) n"
      unfolding l' by auto
    from n have act: "leg_id n \<in> active_legislators cs"
      by (simp add: ls_def)
    have "leg_metrics leg = Some (stat_of (calculate_sponsor_stats ls cs) (leg_id n))"
      unfolding leg by (rule metrics_of_active [OF act])
    moreover have "leg_id leg = leg_id n"
      unfolding leg by (rule add_metrics_fields)
    ultimately show "leg_metrics leg =
             Some (stat_of (calculate_sponsor_stats (s_legislators snap) (s_collaborations snap))
                     (leg_id leg))"
      unfolding st' by simp
  qed
qed

lemma get_party_cases:
  "(k \<notin> leg_id ` set ls \<longrightarrow> get_party (party_lookup ls) k = ''O'') \<and>
   (k \<in> leg_id ` set ls \<longrightarrow>
      (\<exists>l \<in> set ls. leg_id l = k \<and> get_party (party_lookup ls) k = leg_party l))"
  using get_party_unknown [of k ls] get_party_known [of k ls] by (intro conjI impI)

lemma ex_run_totals:
  "map_sum id legislator_totals
     (prepare_network_data iso_date keep_order insertion_order ex_bills ex_legislators ex_sponsors
        ex_policies ex_links 117) = Inr [(''P1'', Some 2), (''P2'', Some 2)]"
  by code_simp

lemma ex_run_party_collaborations:
  "map_sum id legislator_party_collaborations
     (prepare_network_data iso_date keep_order insertion_order ex_bills ex_legislators ex_sponsors
        ex_policies ex_links 117) = Inr [(''P1'', Some [(''R'', 2)]), (''P2'', Some [(''D'', 2)])]"
  by code_simp

lemma unknown_run_party_collaborations:
  "map_sum id legislator_party_collaborations
     (prepare_network_data iso_date keep_order insertion_order ex_bills ex_legislators_without_P2
        ex_sponsors ex_policies ex_links 117) = Inr [(''P1'', Some [(''O'', 2)])]"
  by code_simp

text \<open>
  C4, as the code has it. Every legislator of the snapshot carries metrics, read from the
  statistics \<open>calculate_sponsor_stats\<close> computes from the snapshot's own records. Its
  \<open>total_collaborations\<close> is the number of records with its id as source plus the number of
  records with its id as target, so a record whose source and target are both the id counts
  twice; when no record has source = target this is the number of records in which the id
  appears as source or target. The values of \<open>party_collaborations\<close> sum to
  \<open>total_collaborations\<close>, and the bucket of a party counts the records with the id as
  source whose target has that party plus the records with the id as target whose source has
  that party: the bucket is keyed by the other endpoint. Over all ids the totals sum to twice
  the number of records: each record gives two increments, one to its source and one to its
  target. The party of an id is "O" when the snapshot has no legislator with that id, and the
  party of a legislator with that id otherwise.
\<close>

theorem metric_consistency:
  assumes "prepare_network_data clean_date sort_values set_iter bills_csv legislators_csv
             bill_sponsors_df bill_policies_df bill_policy_links_df target_congress = Inr snap"
  shows "(\<forall>leg \<in> set (s_legislators snap). \<exists>m.
            leg_metrics leg = Some m \<and>
            map_of (calculate_sponsor_stats (s_legislators snap) (s_collaborations snap))
              (leg_id leg) = Some m \<and>
            total_collaborations m =
              length (filter (\<lambda>c. source c = leg_id leg) (s_collaborations snap)) +
              length (filter (\<lambda>c. target c = leg_id leg) (s_collaborations snap)) \<and>
            ((\<forall>c \<in> set (s_collaborations snap). source c \<noteq> target c) \<longrightarrow>
               total_collaborations m =
                 length (filter (\<lambda>c. source c = leg_id leg \<or> target c = leg_id leg)
                           (s_collaborations snap))) \<and>
            sum_list (map snd (party_collaborations m)) = total_collaborations m \<and>
            (\<forall>party. count_of (party_collaborations m) party =
               length (filter (\<lambda>c. source c = leg_id leg \<and>
                                    get_party (party_lookup (s_legislators snap)) (target c) = party)
                         (s_collaborations snap)) +
               length (filter (\<lambda>c. target c = leg_id leg \<and>
                                    get_party (party_lookup (s_legislators snap)) (source c) = party)
                         (s_collaborations snap)))) \<and>
         sum_list (map (\<lambda>e. total_collaborations (snd e))
                     (calculate_sponsor_stats (s_legislators snap) (s_collaborations snap))) =
           2 * length (s_collaborations snap) \<and>
         (\<forall>k. (k \<notin> leg_id ` set (s_legislators snap) \<longrightarrow>
                 get_party (party_lookup (s_legislators snap)) k = ''O'') \<and>
              (k \<in> leg_id ` set (s_legislators snap) \<longrightarrow>
                 (\<exists>l \<in> set (s_legislators snap).
                    leg_id l = k \<and> get_party (party_lookup (s_legislators snap)) k = leg_party l)))"
proof (intro conjI ballI allI)
  fix leg
  assume leg: "leg \<in> set (s_legislators snap)"
  define stats where "stats = calculate_sponsor_stats (s_legislators snap) (s_collaborations snap)"
  define m where "m = stat_of stats (leg_id leg)"
  have lm: "leg_metrics leg = Some m"
    unfolding m_def stats_def using snapshot_metrics(2) [OF assms] leg by (rule bspec)
  have "leg_id leg \<in> leg_id ` set (s_legislators snap)"
    using leg by (rule imageI)
  also have "leg_id ` set (s_legislators snap) = set (legislator_ids snap)"
    by (simp add: legislator_ids_def)
  also have "\<dots> \<subseteq> active_legislators (s_collaborations snap)"
    unfolding snapshot_legislator_ids [OF assms] by auto
  finally have "leg_id leg \<in> set (keys stats)"
    unfolding stats_def keys_calculate .
  then obtain m' where m': "map_of stats (leg_id leg) = Some m'"
    using keys_map_of by fastforce
  then have mo: "map_of stats (leg_id leg) = Some m"
    by (simp add: m_def stat_of_def stats_default_def)
  have tot: "total_collaborations m =
              length (filter (\<lambda>c. source c = leg_id leg) (s_collaborations snap)) +
              length (filter (\<lambda>c. target c = leg_id leg) (s_collaborations snap))"
    unfolding m_def stats_def by (rule stat_of_calculate)
  have ns: "(\<forall>c \<in> set (s_collaborations snap). source c \<noteq> target c) \<longrightarrow>
               total_collaborations m =
                 length (filter (\<lambda>c. source c = leg_id leg \<or> target c = leg_id leg)
                           (s_collaborations snap))"
    unfolding tot using appearances_no_self [of "s_collaborations snap" "leg_id leg"]
    by (intro impI)
  have sm: "sum_list (map snd (party_collaborations m)) = total_collaborations m"
    unfolding tot unfolding m_def stats_def by (rule stat_of_calculate)
  have pc: "\<forall>party. count_of (party_collaborations m) party =
               length (filter (\<lambda>c. source c = leg_id leg \<and>
                                    get_party (party_lookup (s_legislators snap)) (target c) = party)
                         (s_collaborations snap)) +
               length (filter (\<lambda>c. target c = leg_id leg \<and>
                                    get_party (party_lookup (s_legislators snap)) (source c) = party)
                         (s_collaborations snap))"
    unfolding m_def stats_def by (intro allI) (rule stat_of_calculate)
  show "\<exists>m.
            leg_metrics leg = Some m \<and>
            map_of (calculate_sponsor_stats (s_legislators snap) (s_collaborations snap))
              (leg_id leg) = Some m \<and>
            total_collaborations m =
              length (filter (\<lambda>c. source c = leg_id leg) (s_collaborations snap)) +
              length (filter (\<lambda>c. target c = leg_id leg) (s_collaborations snap)) \<and>
            ((\<forall>c \<in> set (s_collaborations snap). source c \<noteq> target c) \<longrightarrow>
               total_collaborations m =
                 length (filter (\<lambda>c. source c = leg_id leg \<or> target c = leg_id leg)
                           (s_collaborations snap))) \<and>
            sum_list (map snd (party_collaborations m)) = total_collaborations m \<and>
            (\<forall>party. count_of (party_collaborations m) party =
               length (filter (\<lambda>c. source c = leg_id leg \<and>
                                    get_party (party_lookup (s_legislators snap)) (target c) = party)
                         (s_collaborations snap)) +
               length (filter (\<lambda>c. target c = leg_id leg \<and>
                                    get_party (party_lookup (s_legislators snap)) (source c) = party)
                         (s_collaborations snap)))"
    by (intro exI [of _ m] conjI lm mo [unfolded stats_def] tot ns sm pc)
next
  show "sum_list (map (\<lambda>e. total_collaborations (snd e))
                     (calculate_sponsor_stats (s_legislators snap) (s_collaborations snap))) =
           2 * length (s_collaborations snap)"
    unfolding calculate_sponsor_stats_def by (simp add: total_sum_foldl)
next
  fix k
  show "k \<notin> leg_id ` set (s_legislators snap) \<longrightarrow>
          get_party (party_lookup (s_legislators snap)) k = ''O''"
    using get_party_cases [of k "s_legislators snap"] by (rule conjunct1)
  show "k \<in> leg_id ` set (s_legislators snap) \<longrightarrow>
          (\<exists>l \<in> set (s_legislators snap).
              leg_id l = k \<and> get_party (party_lookup (s_legislators snap)) k = leg_party l)"
    using get_party_cases [of k "s_legislators snap"] by (rule conjunct2)
qed

end
